theory Spec2Isabelle
  imports Complex_Main
begin

section \<open>Vectors and matrices\<close>

text \<open>
  The filter of \<^verbatim>\<open>src/ukf.cpp\<close> works on Eigen's \<^verbatim>\<open>VectorXd\<close> and \<^verbatim>\<open>MatrixXd\<close>.
  A vector is the list of its coefficients, a matrix the list of its columns (Eigen's
  default storage order, and the code addresses sigma points by \<^verbatim>\<open>col(i)\<close>), so the
  coefficient \<^verbatim>\<open>M(r, c)\<close> is \<open>M ! c ! r\<close>. In the model of the whole filter a
  \<^verbatim>\<open>double\<close> is idealised as a real number: rounding is not modelled, and an operation
  whose IEEE result is an infinity or a NaN (a division by zero) has no value, written
  \<open>None\<close>. Where a property depends on the rounding, the section on binary64 arithmetic
  gives the operations of the machine.
\<close>

type_synonym vec = "real list"
type_synonym mat = "real list list"

definition el :: "mat \<Rightarrow> nat \<Rightarrow> nat \<Rightarrow> real" where
  "el M r c = M ! c ! r"

definition vadd :: "vec \<Rightarrow> vec \<Rightarrow> vec" where
  "vadd a b = map2 (+) a b"

definition vsub :: "vec \<Rightarrow> vec \<Rightarrow> vec" where
  "vsub a b = map2 (-) a b"

definition smult :: "real \<Rightarrow> vec \<Rightarrow> vec" where
  "smult k a = map ((*) k) a"

definition madd :: "mat \<Rightarrow> mat \<Rightarrow> mat" where
  "madd A B = map2 vadd A B"

definition msub :: "mat \<Rightarrow> mat \<Rightarrow> mat" where
  "msub A B = map2 vsub A B"

definition msmult :: "real \<Rightarrow> mat \<Rightarrow> mat" where
  "msmult k A = map (smult k) A"

text \<open>\<^verbatim>\<open>v.fill(0)\<close> and \<^verbatim>\<open>M.fill(0.0)\<close> keep the size and overwrite every coefficient.\<close>

definition vfill0 :: "vec \<Rightarrow> vec" where
  "vfill0 a = map (\<lambda>_. 0) a"

definition mfill0 :: "mat \<Rightarrow> mat" where
  "mfill0 A = map vfill0 A"

definition zero_mat :: "nat \<Rightarrow> nat \<Rightarrow> mat" where
  "zero_mat r c = replicate c (replicate r 0)"

text \<open>The outer product \<^verbatim>\<open>a * b.transpose()\<close>: column \<open>j\<close> is \<open>b ! j\<close> times \<open>a\<close>.\<close>

definition outer :: "vec \<Rightarrow> vec \<Rightarrow> mat" where
  "outer a b = map (\<lambda>bj. smult bj a) b"

definition mat_rows :: "mat \<Rightarrow> nat" where
  "mat_rows A = (case A of [] \<Rightarrow> 0 | c # _ \<Rightarrow> length c)"

definition mat_transpose :: "mat \<Rightarrow> mat" where
  "mat_transpose A = map (\<lambda>r. map (\<lambda>c. c ! r) A) [0..<mat_rows A]"

definition mat_vec :: "mat \<Rightarrow> vec \<Rightarrow> vec" where
  "mat_vec A v =
     fold (\<lambda>j acc. vadd acc (smult (v ! j) (A ! j))) [0..<length A] (replicate (mat_rows A) 0)"

definition mat_mul :: "mat \<Rightarrow> mat \<Rightarrow> mat" where
  "mat_mul A B = map (mat_vec A) B"

definition dot :: "vec \<Rightarrow> vec \<Rightarrow> real" where
  "dot a b = sum_list (map2 (*) a b)"

text \<open>A matrix of \<open>r\<close> rows and \<open>c\<close> columns.\<close>

definition dims :: "nat \<Rightarrow> nat \<Rightarrow> mat \<Rightarrow> bool" where
  "dims r c M = (length M = c \<and> list_all (\<lambda>col. length col = r) M)"

definition is_symmetric :: "mat \<Rightarrow> bool" where
  "is_symmetric A = (mat_transpose A = A)"

definition pos_semidef :: "mat \<Rightarrow> bool" where
  "pos_semidef A = (\<forall>v. length v = length A \<longrightarrow> 0 \<le> dot v (mat_vec A v))"

section \<open>Library functions the filter calls\<close>

text \<open>
  \<^verbatim>\<open>atan2(y, x)\<close> of the C library, on reals: the angle of the point \<open>(x, y)\<close> in
  \<open>(-\<pi>, \<pi>]\<close>, and \<open>0\<close> at the origin.
\<close>

definition atan2 :: "real \<Rightarrow> real \<Rightarrow> real" where
  "atan2 y x =
     (if 0 < x then arctan (y / x)
      else if x < 0 then (if 0 \<le> y then arctan (y / x) + pi else arctan (y / x) - pi)
      else if 0 < y then pi / 2
      else if y < 0 then - (pi / 2)
      else 0)"

text \<open>
  \<^verbatim>\<open>P_aug.llt().matrixL()\<close>: Eigen's Cholesky factorisation, which for a matrix this small
  runs the unblocked left-looking recurrences column by column. At column \<open>k\<close> the pivot is
  \<open>x = A(k,k) - \<Sum>j<k. L(k,j)\<^sup>2\<close>; when \<open>x \<le> 0\<close> the factorisation stops (Eigen records a
  numerical issue, which the filter never reads) and the remaining columns keep the lower
  triangle of the input; otherwise \<open>L(k,k) = sqrt x\<close> and
  \<open>L(r,k) = (A(r,k) - \<Sum>j<k. L(r,j) * L(k,j)) / L(k,k)\<close> below the diagonal. The view
  \<^verbatim>\<open>matrixL()\<close> is zero above the diagonal.
\<close>

definition lower_col :: "mat \<Rightarrow> nat \<Rightarrow> vec" where
  "lower_col A c = map (\<lambda>r. if r < c then 0 else A ! c ! r) [0..<length A]"

definition llt_pivot :: "mat \<Rightarrow> mat \<Rightarrow> nat \<Rightarrow> real" where
  "llt_pivot A Ls k = A ! k ! k - sum_list (map (\<lambda>j. (Ls ! j ! k) * (Ls ! j ! k)) [0..<k])"

definition llt_col :: "mat \<Rightarrow> mat \<Rightarrow> nat \<Rightarrow> real \<Rightarrow> vec" where
  "llt_col A Ls k d =
     map (\<lambda>r. if r < k then 0
              else if r = k then d
              else (A ! k ! r - sum_list (map (\<lambda>j. (Ls ! j ! r) * (Ls ! j ! k)) [0..<k])) / d)
         [0..<length A]"

fun llt_unblocked :: "mat \<Rightarrow> nat \<Rightarrow> mat \<Rightarrow> mat" where
  "llt_unblocked A 0 Ls = Ls"
| "llt_unblocked A (Suc m) Ls =
     (let k = length Ls; x = llt_pivot A Ls k
      in if x \<le> 0 then Ls @ map (lower_col A) [k..<length A]
         else llt_unblocked A m (Ls @ [llt_col A Ls k (sqrt x)]))"

definition llt_matrixL :: "mat \<Rightarrow> mat" where
  "llt_matrixL A = llt_unblocked A (length A) []"

text \<open>
  \<^verbatim>\<open>S.inverse()\<close> for the two sizes the filter uses (\<open>n_z = 2\<close> and \<open>n_z = 3\<close>): the
  adjugate over the determinant. A singular matrix has no inverse, and Eigen's result for
  it is not a matrix of reals.
\<close>

definition det2 :: "mat \<Rightarrow> real" where
  "det2 M = el M 0 0 * el M 1 1 - el M 0 1 * el M 1 0"

definition inverse2 :: "mat \<Rightarrow> mat" where
  "inverse2 M =
     [[el M 1 1 / det2 M, - el M 1 0 / det2 M],
      [- el M 0 1 / det2 M, el M 0 0 / det2 M]]"

definition det3 :: "mat \<Rightarrow> real" where
  "det3 M =
     el M 0 0 * (el M 1 1 * el M 2 2 - el M 1 2 * el M 2 1)
     - el M 0 1 * (el M 1 0 * el M 2 2 - el M 1 2 * el M 2 0)
     + el M 0 2 * (el M 1 0 * el M 2 1 - el M 1 1 * el M 2 0)"

definition inverse3 :: "mat \<Rightarrow> mat" where
  "inverse3 M =
     [[(el M 1 1 * el M 2 2 - el M 1 2 * el M 2 1) / det3 M,
       (el M 1 2 * el M 2 0 - el M 1 0 * el M 2 2) / det3 M,
       (el M 1 0 * el M 2 1 - el M 1 1 * el M 2 0) / det3 M],
      [(el M 0 2 * el M 2 1 - el M 0 1 * el M 2 2) / det3 M,
       (el M 0 0 * el M 2 2 - el M 0 2 * el M 2 0) / det3 M,
       (el M 0 1 * el M 2 0 - el M 0 0 * el M 2 1) / det3 M],
      [(el M 0 1 * el M 1 2 - el M 0 2 * el M 1 1) / det3 M,
       (el M 0 2 * el M 1 0 - el M 0 0 * el M 1 2) / det3 M,
       (el M 0 0 * el M 1 1 - el M 0 1 * el M 1 0) / det3 M]]"

definition mat_inverse :: "mat \<Rightarrow> mat option" where
  "mat_inverse M =
     (if length M = 2 then (if det2 M = 0 then None else Some (inverse2 M))
      else if length M = 3 then (if det3 M = 0 then None else Some (inverse3 M))
      else None)"

section \<open>Angle normalisation\<close>

text \<open>
  The two loops that follow every angle difference in the source:
  \<^verbatim>\<open>while (a > M_PI) a -= 2.*M_PI;\<close> and \<^verbatim>\<open>while (a < -M_PI) a += 2.*M_PI;\<close>, here in
  exact arithmetic, as the model of the whole filter uses them. The loops as the machine
  runs them are \<open>sub_2pi_double\<close> and \<open>add_2pi_double\<close> in the section on binary64
  arithmetic.
\<close>

function sub_2pi :: "real \<Rightarrow> real" where
  "sub_2pi a = (if pi < a then sub_2pi (a - 2 * pi) else a)"
  by pat_completeness auto
termination
proof (relation "measure (\<lambda>a. nat \<lceil>a\<rceil>)")
  show "wf (measure (\<lambda>a. nat \<lceil>a\<rceil>))" by simp
next
  fix a :: real
  assume a: "pi < a"
  have "2 \<le> pi" by (rule pi_ge_two)
  with a have "\<lceil>a - 2 * pi\<rceil> \<le> \<lceil>a - 1\<rceil>" by (intro ceiling_mono) simp
  moreover have "0 < a" using a pi_gt_zero by linarith
  then have "0 < \<lceil>a\<rceil>" by (simp add: less_ceiling_iff)
  ultimately show "(a - 2 * pi, a) \<in> measure (\<lambda>a. nat \<lceil>a\<rceil>)" by simp
qed

function add_2pi :: "real \<Rightarrow> real" where
  "add_2pi a = (if a < - pi then add_2pi (a + 2 * pi) else a)"
  by pat_completeness auto
termination
proof (relation "measure (\<lambda>a. nat \<lceil>- a\<rceil>)")
  show "wf (measure (\<lambda>a. nat \<lceil>- a\<rceil>))" by simp
next
  fix a :: real
  assume a: "a < - pi"
  have "2 \<le> pi" by (rule pi_ge_two)
  with a have "\<lceil>- (a + 2 * pi)\<rceil> \<le> \<lceil>- a - 1\<rceil>" by (intro ceiling_mono) simp
  moreover have "0 < - a" using a pi_gt_zero by linarith
  then have "0 < \<lceil>- a\<rceil>" by (simp add: less_ceiling_iff)
  ultimately show "(a + 2 * pi, a) \<in> measure (\<lambda>a. nat \<lceil>- a\<rceil>)" by simp
qed

definition normalize_angle :: "real \<Rightarrow> real" where
  "normalize_angle a = add_2pi (sub_2pi a)"

text \<open>Normalising one coefficient of a difference vector in place.\<close>

definition normalize_at :: "nat \<Rightarrow> vec \<Rightarrow> vec" where
  "normalize_at k d = d[k := normalize_angle (d ! k)]"

section \<open>The filter state\<close>

text \<open>
  The members of \<^verbatim>\<open>class UKF\<close> that \<^verbatim>\<open>src/ukf.cpp\<close> reads and writes, and the
  \<^verbatim>\<open>MeasurementPackage\<close> it receives. The header that declares them is not among the
  sources, so each member has the type that its use in \<^verbatim>\<open>ukf.cpp\<close> asks for: flags are
  booleans, dimensions natural numbers, timestamps integers (microseconds, whose
  difference is taken in the integers), everything else a real number, a vector or a
  matrix. A member \<^verbatim>\<open>name_\<close> of the source is the field \<open>name_m\<close>: an identifier cannot
  end in an underscore here.
\<close>

datatype SensorType = LASER | RADAR

record MeasurementPackage =
  timestamp_m :: int
  sensor_type_m :: SensorType
  raw_measurements_m :: vec

record UKF =
  is_initialized_m :: bool
  use_laser_m :: bool
  use_radar_m :: bool
  x_m :: vec
  P_m :: mat
  Xsig_pred_m :: mat
  time_us_m :: int
  std_a_m :: real
  std_yawdd_m :: real
  std_laspx_m :: real
  std_laspy_m :: real
  std_radr_m :: real
  std_radphi_m :: real
  std_radrd_m :: real
  weights_m :: vec
  n_x_m :: nat
  n_aug_m :: nat
  lambda_m :: real

text \<open>
  The constructor \<^verbatim>\<open>UKF::UKF()\<close>. It allocates \<^verbatim>\<open>x_\<close>, \<^verbatim>\<open>P_\<close> and \<^verbatim>\<open>Xsig_pred_\<close>
  without writing them and leaves \<^verbatim>\<open>time_us_\<close> alone, so their first contents are
  arguments here: \<open>x0\<close> of size 5, \<open>P0\<close> of size 5 by 5, \<open>X0\<close> of size 5 by 15.
\<close>

definition UKF_new :: "vec \<Rightarrow> mat \<Rightarrow> mat \<Rightarrow> int \<Rightarrow> UKF" where
  "UKF_new x0 P0 X0 t0 =
     (let n_x = 5;
          n_aug = n_x + 2;
          lambda = 3 - real n_aug
      in \<lparr> is_initialized_m = False,
           use_laser_m = True,
           use_radar_m = True,
           x_m = x0,
           P_m = P0,
           Xsig_pred_m = X0,
           time_us_m = t0,
           std_a_m = 1,
           std_yawdd_m = 1,
           std_laspx_m = 0.15,
           std_laspy_m = 0.15,
           std_radr_m = 0.3,
           std_radphi_m = 0.03,
           std_radrd_m = 0.3,
           weights_m = (lambda / (lambda + real n_aug))
                      # map (\<lambda>i. 0.5 / (lambda + real n_aug)) [1..<2 * n_aug + 1],
           n_x_m = n_x,
           n_aug_m = n_aug,
           lambda_m = lambda \<rparr>)"

text \<open>
  What the constructor fixes: the dimensions, the spreading parameter and the weights it
  computes, and the sizes of the vectors and matrices.
\<close>

definition ctor_weights :: vec where
  "ctor_weights = weights_m (UKF_new [] [] [] 0)"

definition constructed :: "UKF \<Rightarrow> bool" where
  "constructed s =
     (n_x_m s = 5 \<and> n_aug_m s = 7 \<and> lambda_m s = 3 - 7 \<and> weights_m s = ctor_weights
      \<and> length (x_m s) = 5 \<and> dims 5 5 (P_m s) \<and> dims 5 15 (Xsig_pred_m s))"

section \<open>The recombination loops\<close>

text \<open>
  \<^verbatim>\<open>for (i...) acc = acc + weights_(i) * col(i)\<close> and
  \<^verbatim>\<open>for (i...) M = M + weights_(i) * a(i) * b(i).transpose()\<close>, over the \<open>N\<close> sigma points.
\<close>

definition weighted_sum :: "vec \<Rightarrow> (nat \<Rightarrow> vec) \<Rightarrow> nat \<Rightarrow> vec \<Rightarrow> vec" where
  "weighted_sum w col N acc0 = fold (\<lambda>i acc. vadd acc (smult (w ! i) (col i))) [0..<N] acc0"

definition weighted_outer :: "vec \<Rightarrow> (nat \<Rightarrow> vec) \<Rightarrow> (nat \<Rightarrow> vec) \<Rightarrow> nat \<Rightarrow> mat \<Rightarrow> mat" where
  "weighted_outer w a b N M0 =
     fold (\<lambda>i M. madd M (msmult (w ! i) (outer (a i) (b i)))) [0..<N] M0"

section \<open>Prediction\<close>

text \<open>The augmented mean and covariance of \<^verbatim>\<open>UKF::Prediction\<close> (lines 168 to 177).\<close>

definition augmented_mean :: "UKF \<Rightarrow> vec" where
  "augmented_mean s = x_m s @ [0, 0]"

definition augmented_covariance :: "UKF \<Rightarrow> mat" where
  "augmented_covariance s =
     map (\<lambda>c. c @ [0, 0]) (P_m s)
     @ [replicate (n_x_m s) 0 @ [std_a_m s * std_a_m s, 0],
        replicate (n_x_m s) 0 @ [0, std_yawdd_m s * std_yawdd_m s]]"

text \<open>
  The augmented sigma points (lines 183 to 188): column 0 is the mean, column \<open>i + 1\<close> the
  mean plus \<open>sqrt (lambda + n_aug)\<close> times column \<open>i\<close> of \<open>L\<close>, column \<open>i + 1 + n_aug\<close> the mean
  minus it.
\<close>

definition sigma_points :: "real \<Rightarrow> nat \<Rightarrow> vec \<Rightarrow> mat \<Rightarrow> mat" where
  "sigma_points lambda n_aug x_aug L =
     (let sqrt_lambda_n_aug = sqrt (lambda + real n_aug)
      in x_aug
         # map (\<lambda>i. vadd x_aug (smult sqrt_lambda_n_aug (L ! i))) [0..<n_aug]
         @ map (\<lambda>i. vsub x_aug (smult sqrt_lambda_n_aug (L ! i))) [0..<n_aug])"

text \<open>The motion model applied to one augmented sigma point (lines 198 to 235).\<close>

definition motion_model :: "real \<Rightarrow> vec \<Rightarrow> vec" where
  "motion_model delta_t c =
     (let p_x = c ! 0; p_y = c ! 1; v = c ! 2; yaw = c ! 3; yawd = c ! 4;
          nu_a = c ! 5; nu_yawdd = c ! 6;
          px_p = (if \<bar>yawd\<bar> > 0.001
                  then p_x + v / yawd * (sin (yaw + yawd * delta_t) - sin yaw)
                  else p_x + (v * delta_t * cos yaw));
          py_p = (if \<bar>yawd\<bar> > 0.001
                  then p_y + v / yawd * (cos yaw - cos (yaw + yawd * delta_t))
                  else p_y + (v * delta_t * sin yaw));
          v_p = v;
          yaw_p = yaw + (yawd * delta_t);
          yawd_p = yawd;
          px_p = px_p + (0.5 * nu_a * delta_t * delta_t * cos yaw);
          py_p = py_p + (0.5 * nu_a * delta_t * delta_t * sin yaw);
          v_p = v_p + (nu_a * delta_t);
          yaw_p = yaw_p + (0.5 * nu_yawdd * delta_t * delta_t);
          yawd_p = yawd_p + (nu_yawdd * delta_t)
      in [px_p, py_p, v_p, yaw_p, yawd_p])"

text \<open>The state difference with its heading normalised (lines 255 to 258).\<close>

definition state_diff :: "mat \<Rightarrow> vec \<Rightarrow> nat \<Rightarrow> vec" where
  "state_diff Xsig x i = normalize_at 3 (vsub (Xsig ! i) x)"

definition Prediction :: "real \<Rightarrow> UKF \<Rightarrow> UKF" where
  "Prediction delta_t s =
     (let x_aug = augmented_mean s;
          P_aug = augmented_covariance s;
          L = llt_matrixL P_aug;
          Xsig_aug = sigma_points (lambda_m s) (n_aug_m s) x_aug L;
          N = 2 * n_aug_m s + 1;
          Xsig_pred = map (\<lambda>i. motion_model delta_t (Xsig_aug ! i)) [0..<N];
          x = weighted_sum (weights_m s) (\<lambda>i. Xsig_pred ! i) N (vfill0 (x_m s));
          P = weighted_outer (weights_m s) (state_diff Xsig_pred x) (state_diff Xsig_pred x) N
                (mfill0 (P_m s))
      in s\<lparr> Xsig_pred_m := Xsig_pred, x_m := x, P_m := P \<rparr>)"

section \<open>The measurement corrections\<close>

text \<open>
  Both corrections end the same way (lines 331 to 343 and 434 to 446): the gain
  \<^verbatim>\<open>K = Tc * S.inverse()\<close>, the residual of the raw measurement with its coefficient 1
  normalised as an angle, and the update of \<^verbatim>\<open>x_\<close> and \<^verbatim>\<open>P_\<close>. The raw measurement must
  have the size of \<open>z_pred\<close> for Eigen to subtract them. The NIS value is only printed.
\<close>

definition innovation :: "vec \<Rightarrow> vec \<Rightarrow> vec" where
  "innovation raw z_pred = normalize_at 1 (vsub raw z_pred)"

definition kalman_update :: "MeasurementPackage \<Rightarrow> vec \<Rightarrow> mat \<Rightarrow> mat \<Rightarrow> UKF \<Rightarrow> UKF option" where
  "kalman_update meas_package z_pred S Tc s =
     (case mat_inverse S of
        None \<Rightarrow> None
      | Some S_inverse \<Rightarrow>
          if length (raw_measurements_m meas_package) \<noteq> length z_pred then None
          else
            (let K = mat_mul Tc S_inverse;
                 z_diff = innovation (raw_measurements_m meas_package) z_pred
             in Some (s\<lparr> x_m := vadd (x_m s) (mat_vec K z_diff),
                        P_m := msub (P_m s) (mat_mul (mat_mul K S) (mat_transpose K)) \<rparr>)))"

text \<open>\<^verbatim>\<open>UKF::UpdateLidar\<close>: the measurement model copies \<open>p_x\<close> and \<open>p_y\<close>.\<close>

definition lidar_Zsig :: "UKF \<Rightarrow> mat" where
  "lidar_Zsig s =
     map (\<lambda>i. [Xsig_pred_m s ! i ! 0, Xsig_pred_m s ! i ! 1]) [0..<2 * n_aug_m s + 1]"

definition UpdateLidar :: "MeasurementPackage \<Rightarrow> UKF \<Rightarrow> UKF option" where
  "UpdateLidar meas_package s =
     (let n_z = 2;
          N = 2 * n_aug_m s + 1;
          Zsig = lidar_Zsig s;
          z_pred = weighted_sum (weights_m s) (\<lambda>i. Zsig ! i) N (replicate n_z 0);
          z_diff = (\<lambda>i. vsub (Zsig ! i) z_pred);
          S = weighted_outer (weights_m s) z_diff z_diff N (zero_mat n_z n_z);
          R = [[std_laspx_m s * std_laspx_m s, 0],
               [0, std_laspy_m s * std_laspy_m s]];
          S = madd S R;
          Tc = weighted_outer (weights_m s) (state_diff (Xsig_pred_m s) (x_m s)) z_diff N
                 (zero_mat (n_x_m s) n_z)
      in kalman_update meas_package z_pred S Tc s)"

text \<open>
  \<^verbatim>\<open>UKF::UpdateRadar\<close>: range, bearing and range rate of one predicted sigma point
  (lines 369 to 380). The range rate divides by the range, whatever it is.
\<close>

definition radar_model :: "vec \<Rightarrow> vec option" where
  "radar_model c =
     (let p_x = c ! 0; p_y = c ! 1; v = c ! 2; yaw = c ! 3;
          v1 = cos yaw * v;
          v2 = sin yaw * v
      in if sqrt (p_x * p_x + p_y * p_y) = 0 then None
         else Some [sqrt (p_x * p_x + p_y * p_y),
                    atan2 p_y p_x,
                    (p_x * v1 + p_y * v2) / sqrt (p_x * p_x + p_y * p_y)])"

definition radar_Zsig :: "UKF \<Rightarrow> mat option" where
  "radar_Zsig s = those (map (\<lambda>i. radar_model (Xsig_pred_m s ! i)) [0..<2 * n_aug_m s + 1])"

definition meas_diff :: "mat \<Rightarrow> vec \<Rightarrow> nat \<Rightarrow> vec" where
  "meas_diff Zsig z_pred i = normalize_at 1 (vsub (Zsig ! i) z_pred)"

definition UpdateRadar :: "MeasurementPackage \<Rightarrow> UKF \<Rightarrow> UKF option" where
  "UpdateRadar meas_package s =
     (case radar_Zsig s of
        None \<Rightarrow> None
      | Some Zsig \<Rightarrow>
         (let n_z = 3;
              N = 2 * n_aug_m s + 1;
              z_pred = weighted_sum (weights_m s) (\<lambda>i. Zsig ! i) N (replicate n_z 0);
              S = weighted_outer (weights_m s) (meas_diff Zsig z_pred) (meas_diff Zsig z_pred) N
                    (zero_mat n_z n_z);
              R = [[std_radr_m s * std_radr_m s, 0, 0],
                   [0, std_radphi_m s * std_radphi_m s, 0],
                   [0, 0, std_radrd_m s * std_radrd_m s]];
              S = madd S R;
              Tc = weighted_outer (weights_m s) (state_diff (Xsig_pred_m s) (x_m s))
                     (meas_diff Zsig z_pred) N (zero_mat (n_x_m s) n_z)
          in kalman_update meas_package z_pred S Tc s))"

section \<open>Processing one measurement\<close>

definition diag5 :: "real \<Rightarrow> real \<Rightarrow> real \<Rightarrow> real \<Rightarrow> real \<Rightarrow> mat" where
  "diag5 a b c d e =
     [[a, 0, 0, 0, 0],
      [0, b, 0, 0, 0],
      [0, 0, c, 0, 0],
      [0, 0, 0, d, 0],
      [0, 0, 0, 0, e]]"

text \<open>
  The first branch of \<^verbatim>\<open>UKF::ProcessMeasurement\<close> (lines 83 to 130), taken while
  \<^verbatim>\<open>is_initialized_\<close> is false. Reading a raw coefficient that the measurement does not
  have is an index error.
\<close>

definition init_laser :: "MeasurementPackage \<Rightarrow> UKF \<Rightarrow> UKF option" where
  "init_laser meas_package s =
     (if sensor_type_m meas_package = LASER \<and> use_laser_m s = True then
        (if length (raw_measurements_m meas_package) < 2 then None
         else Some (s\<lparr> use_radar_m := False,
                       x_m := (x_m s)[0 := raw_measurements_m meas_package ! 0,
                                   1 := raw_measurements_m meas_package ! 1,
                                   2 := 0.2],
                       P_m := diag5 0.01 0.01 1 1 1 \<rparr>))
      else Some s)"

definition init_radar :: "MeasurementPackage \<Rightarrow> UKF \<Rightarrow> UKF option" where
  "init_radar meas_package s =
     (if sensor_type_m meas_package = RADAR \<and> use_radar_m s = True then
        (if length (raw_measurements_m meas_package) < 3 then None
         else
           (let rho = raw_measurements_m meas_package ! 0;
                phi = raw_measurements_m meas_package ! 1;
                rho_dot = raw_measurements_m meas_package ! 2
            in Some (s\<lparr> x_m := (x_m s)[0 := rho * cos phi,
                                      1 := rho * sin phi,
                                      2 := rho_dot,
                                      3 := phi,
                                      4 := 0],
                        P_m := diag5 0.01 0.01 0.01 0.09 0.09 \<rparr>)))
      else Some s)"

definition initialize :: "MeasurementPackage \<Rightarrow> UKF \<Rightarrow> UKF option" where
  "initialize meas_package s =
     (case init_laser meas_package
             (s\<lparr> time_us_m := timestamp_m meas_package, x_m := vfill0 (x_m s) \<rparr>) of
        None \<Rightarrow> None
      | Some s1 \<Rightarrow>
         (case init_radar meas_package s1 of
            None \<Rightarrow> None
          | Some s2 \<Rightarrow> Some (s2\<lparr> is_initialized_m := True \<rparr>)))"

text \<open>The rest of \<^verbatim>\<open>UKF::ProcessMeasurement\<close> (lines 132 to 148).\<close>

definition predict_and_update :: "MeasurementPackage \<Rightarrow> UKF \<Rightarrow> UKF option" where
  "predict_and_update meas_package s =
     (let dt = real_of_int (timestamp_m meas_package - time_us_m s) / 1000000.0;
          s1 = Prediction dt s
      in case (if sensor_type_m meas_package = LASER then UpdateLidar meas_package s1
               else Some s1) of
           None \<Rightarrow> None
         | Some s2 \<Rightarrow>
            (case (if sensor_type_m meas_package = RADAR then UpdateRadar meas_package s2
                   else Some s2) of
               None \<Rightarrow> None
             | Some s3 \<Rightarrow> Some (s3\<lparr> time_us_m := timestamp_m meas_package \<rparr>)))"

definition ProcessMeasurement :: "MeasurementPackage \<Rightarrow> UKF \<Rightarrow> UKF option" where
  "ProcessMeasurement meas_package s =
     (if \<not> is_initialized_m s then initialize meas_package s
      else predict_and_update meas_package s)"

text \<open>
  The predicted sigma points that \<open>Prediction\<close> computes for a constructed filter, where
  \<open>n_aug = 7\<close> and \<open>lambda = - 4\<close>.
\<close>

definition predicted_sigma :: "real \<Rightarrow> UKF \<Rightarrow> mat" where
  "predicted_sigma dt s =
     map (\<lambda>i. motion_model dt
                (sigma_points (- 4) 7 (augmented_mean s)
                   (llt_matrixL (augmented_covariance s)) ! i)) [0..<15]"

text \<open>
  The configuration apart from \<^verbatim>\<open>use_radar_\<close>: the laser flag and the seven noise standard
  deviations.
\<close>

definition config :: "UKF \<Rightarrow> bool \<times> real \<times> real \<times> real \<times> real \<times> real \<times> real \<times> real" where
  "config s = (use_laser_m s, std_a_m s, std_yawdd_m s, std_laspx_m s, std_laspy_m s,
               std_radr_m s, std_radphi_m s, std_radrd_m s)"

section \<open>Binary64 arithmetic\<close>

text \<open>
  The members and locals of the filter are \<^verbatim>\<open>double\<close>s. The sections above compute with
  real numbers; this section gives the arithmetic of the machine, for the two places where
  a property depends on the rounding: the angle normalisation loops, and the mean that
  \<^verbatim>\<open>Prediction\<close> recombines.

  A finite double is a real number \<open>n * 2 ^ e\<close> with \<open>\<bar>n\<bar> < 2 ^ 53\<close> and \<open>e \<ge> - 1074\<close>.
  For a real \<open>x\<close> other than zero, \<open>binade x\<close> is the exponent of the power of two at
  or below \<open>\<bar>x\<bar>\<close> (and \<open>- 1022\<close> in the subnormal range), \<open>ulp x\<close> the spacing of the
  doubles there, and \<open>fl x\<close> the double nearest to \<open>x\<close>, a tie going to the even
  significand: the rounding of IEEE 754 that C++ uses for \<^verbatim>\<open>+\<close>, \<^verbatim>\<open>-\<close>, \<^verbatim>\<open>*\<close>, \<^verbatim>\<open>/\<close> and
  \<^verbatim>\<open>sqrt\<close> on doubles; \<open>fl 0\<close> is \<open>0\<close>. The exponent has no upper bound here: \<open>fl\<close>
  agrees with the machine wherever the machine's result is finite, and no value below
  comes near the largest double. The two zeros are one value.
\<close>

definition binade :: "real \<Rightarrow> int" where
  "binade x = max \<lfloor>log 2 \<bar>x\<bar>\<rfloor> (- 1022)"

definition ulp :: "real \<Rightarrow> real" where
  "ulp x = 2 powi (binade x - 52)"

definition round_even :: "real \<Rightarrow> int" where
  "round_even y =
     (let f = \<lfloor>y\<rfloor>
      in if y - of_int f < 1 / 2 then f
         else if 1 / 2 < y - of_int f then f + 1
         else if even f then f else f + 1)"

definition fl :: "real \<Rightarrow> real" where
  "fl x = of_int (round_even (x / ulp x)) * ulp x"

definition dadd :: "real \<Rightarrow> real \<Rightarrow> real" where
  "dadd a b = fl (a + b)"

definition dsub :: "real \<Rightarrow> real \<Rightarrow> real" where
  "dsub a b = fl (a - b)"

definition dmul :: "real \<Rightarrow> real \<Rightarrow> real" where
  "dmul a b = fl (a * b)"

definition ddiv :: "real \<Rightarrow> real \<Rightarrow> real" where
  "ddiv a b = fl (a / b)"

definition dsqrt :: "real \<Rightarrow> real" where
  "dsqrt a = fl (sqrt a)"

text \<open>
  \<^verbatim>\<open>M_PI\<close> of \<^verbatim>\<open>math.h\<close> is the double nearest to \<open>\<pi>\<close>, with the bits
  \<^verbatim>\<open>0x400921FB54442D18\<close>.
\<close>

definition M_PI :: real where
  "M_PI = 884279719003555 / 2 ^ 48"

text \<open>
  The loops \<^verbatim>\<open>while (a > M_PI) a -= 2.*M_PI;\<close> and \<^verbatim>\<open>while (a < -M_PI) a += 2.*M_PI;\<close>
  as the machine runs them (lines 257 and 258, and again in both corrections). The
  product \<^verbatim>\<open>2.*M_PI\<close> is a doubling and exact; each pass rounds the difference or the sum
  once. A loop that never leaves has no result, \<open>None\<close>.
\<close>

partial_function (option) sub_2pi_double :: "real \<Rightarrow> real option" where
  "sub_2pi_double a = (if M_PI < a then sub_2pi_double (fl (a - 2 * M_PI)) else Some a)"

partial_function (option) add_2pi_double :: "real \<Rightarrow> real option" where
  "add_2pi_double a = (if a < - M_PI then add_2pi_double (fl (a + 2 * M_PI)) else Some a)"

definition normalize_angle_double :: "real \<Rightarrow> real option" where
  "normalize_angle_double a = Option.bind (sub_2pi_double a) add_2pi_double"

text \<open>
  The mean that \<^verbatim>\<open>Prediction\<close> computes (lines 160 to 249), operation by operation in
  binary64. Every \<^verbatim>\<open>+\<close>, \<^verbatim>\<open>-\<close>, \<^verbatim>\<open>*\<close>, \<^verbatim>\<open>/\<close> and \<^verbatim>\<open>sqrt\<close> of the source rounds once and no
  multiplication is fused with an addition; the vector expressions of Eigen compute each
  coefficient by the operations of the real-valued definitions above, and the sums inside
  the factorisation are taken from left to right. The covariance loop that follows in
  \<^verbatim>\<open>Prediction\<close> (lines 251 to 261) reads the mean and does not write it.
\<close>

definition vadd_double :: "vec \<Rightarrow> vec \<Rightarrow> vec" where
  "vadd_double a b = map2 dadd a b"

definition vsub_double :: "vec \<Rightarrow> vec \<Rightarrow> vec" where
  "vsub_double a b = map2 dsub a b"

definition smult_double :: "real \<Rightarrow> vec \<Rightarrow> vec" where
  "smult_double k a = map (dmul k) a"

definition dsum :: "real list \<Rightarrow> real" where
  "dsum xs = fold (\<lambda>x acc. dadd acc x) xs 0"

definition llt_pivot_double :: "mat \<Rightarrow> mat \<Rightarrow> nat \<Rightarrow> real" where
  "llt_pivot_double A Ls k =
     (if 0 < k then dsub (A ! k ! k) (dsum (map (\<lambda>j. dmul (Ls ! j ! k) (Ls ! j ! k)) [0..<k]))
      else A ! k ! k)"

definition llt_col_double :: "mat \<Rightarrow> mat \<Rightarrow> nat \<Rightarrow> real \<Rightarrow> vec" where
  "llt_col_double A Ls k d =
     map (\<lambda>r. if r < k then 0
              else if r = k then d
              else ddiv (if 0 < k
                         then dsub (A ! k ! r)
                                (dsum (map (\<lambda>j. dmul (Ls ! j ! r) (Ls ! j ! k)) [0..<k]))
                         else A ! k ! r) d)
         [0..<length A]"

fun llt_unblocked_double :: "mat \<Rightarrow> nat \<Rightarrow> mat \<Rightarrow> mat" where
  "llt_unblocked_double A 0 Ls = Ls"
| "llt_unblocked_double A (Suc m) Ls =
     (let k = length Ls; x = llt_pivot_double A Ls k
      in if x \<le> 0 then Ls @ map (lower_col A) [k..<length A]
         else llt_unblocked_double A m (Ls @ [llt_col_double A Ls k (dsqrt x)]))"

definition llt_matrixL_double :: "mat \<Rightarrow> mat" where
  "llt_matrixL_double A = llt_unblocked_double A (length A) []"

definition augmented_covariance_double :: "UKF \<Rightarrow> mat" where
  "augmented_covariance_double s =
     map (\<lambda>c. c @ [0, 0]) (P_m s)
     @ [replicate (n_x_m s) 0 @ [dmul (std_a_m s) (std_a_m s), 0],
        replicate (n_x_m s) 0 @ [0, dmul (std_yawdd_m s) (std_yawdd_m s)]]"

definition sigma_points_double :: "real \<Rightarrow> nat \<Rightarrow> vec \<Rightarrow> mat \<Rightarrow> mat" where
  "sigma_points_double lambda n_aug x_aug L =
     (let sqrt_lambda_n_aug = dsqrt (dadd lambda (real n_aug))
      in x_aug
         # map (\<lambda>i. vadd_double x_aug (smult_double sqrt_lambda_n_aug (L ! i))) [0..<n_aug]
         @ map (\<lambda>i. vsub_double x_aug (smult_double sqrt_lambda_n_aug (L ! i))) [0..<n_aug])"

text \<open>
  The motion model on doubles. \<^verbatim>\<open>sin\<close> and \<^verbatim>\<open>cos\<close> of the C library are the arguments
  \<open>sn\<close> and \<open>cs\<close>: the language fixes no accuracy for them, and nothing is assumed of them
  here. \<^verbatim>\<open>0.001\<close> is the double nearest to the decimal, \<^verbatim>\<open>0.5\<close> is a double.
\<close>

definition motion_model_double :: "(real \<Rightarrow> real) \<Rightarrow> (real \<Rightarrow> real) \<Rightarrow> real \<Rightarrow> vec \<Rightarrow> vec" where
  "motion_model_double sn cs delta_t c =
     (let p_x = c ! 0; p_y = c ! 1; v = c ! 2; yaw = c ! 3; yawd = c ! 4;
          nu_a = c ! 5; nu_yawdd = c ! 6;
          px_p = (if \<bar>yawd\<bar> > fl 0.001
                  then dadd p_x (dmul (ddiv v yawd)
                                   (dsub (sn (dadd yaw (dmul yawd delta_t))) (sn yaw)))
                  else dadd p_x (dmul (dmul v delta_t) (cs yaw)));
          py_p = (if \<bar>yawd\<bar> > fl 0.001
                  then dadd p_y (dmul (ddiv v yawd)
                                   (dsub (cs yaw) (cs (dadd yaw (dmul yawd delta_t)))))
                  else dadd p_y (dmul (dmul v delta_t) (sn yaw)));
          v_p = v;
          yaw_p = dadd yaw (dmul yawd delta_t);
          yawd_p = yawd;
          px_p = dadd px_p (dmul (dmul (dmul (dmul 0.5 nu_a) delta_t) delta_t) (cs yaw));
          py_p = dadd py_p (dmul (dmul (dmul (dmul 0.5 nu_a) delta_t) delta_t) (sn yaw));
          v_p = dadd v_p (dmul nu_a delta_t);
          yaw_p = dadd yaw_p (dmul (dmul (dmul 0.5 nu_yawdd) delta_t) delta_t);
          yawd_p = dadd yawd_p (dmul nu_yawdd delta_t)
      in [px_p, py_p, v_p, yaw_p, yawd_p])"

definition weighted_sum_double :: "vec \<Rightarrow> (nat \<Rightarrow> vec) \<Rightarrow> nat \<Rightarrow> vec \<Rightarrow> vec" where
  "weighted_sum_double w col N acc0 =
     fold (\<lambda>i acc. vadd_double acc (smult_double (w ! i) (col i))) [0..<N] acc0"

definition Prediction_mean_double ::
  "(real \<Rightarrow> real) \<Rightarrow> (real \<Rightarrow> real) \<Rightarrow> real \<Rightarrow> UKF \<Rightarrow> vec" where
  "Prediction_mean_double sn cs delta_t s =
     (let x_aug = augmented_mean s;
          P_aug = augmented_covariance_double s;
          L = llt_matrixL_double P_aug;
          Xsig_aug = sigma_points_double (lambda_m s) (n_aug_m s) x_aug L;
          N = 2 * n_aug_m s + 1;
          Xsig_pred = map (\<lambda>i. motion_model_double sn cs delta_t (Xsig_aug ! i)) [0..<N]
      in weighted_sum_double (weights_m s) (\<lambda>i. Xsig_pred ! i) N (vfill0 (x_m s)))"

text \<open>
  The doubles nearest to the numbers of a state. For a state whose numbers are literals of
  the source, or one quotient of small integers as the weights are, this is the state that
  the machine holds.
\<close>

definition double_state :: "UKF \<Rightarrow> UKF" where
  "double_state s =
     s\<lparr> x_m := map fl (x_m s),
        P_m := map (map fl) (P_m s),
        Xsig_pred_m := map (map fl) (Xsig_pred_m s),
        std_a_m := fl (std_a_m s),
        std_yawdd_m := fl (std_yawdd_m s),
        std_laspx_m := fl (std_laspx_m s),
        std_laspy_m := fl (std_laspy_m s),
        std_radr_m := fl (std_radr_m s),
        std_radphi_m := fl (std_radphi_m s),
        std_radrd_m := fl (std_radrd_m s),
        weights_m := map fl (weights_m s),
        lambda_m := fl (lambda_m s) \<rparr>"

section \<open>Worked inputs\<close>

text \<open>
  A filter fresh from the constructor, its unwritten members holding sevens, and the two
  first measurements of the specification's end-to-end scenarios.
\<close>

definition example_raw_state :: UKF where
  "example_raw_state =
     UKF_new [7, 7, 7, 7, 7] (replicate 5 (replicate 5 7)) (replicate 15 (replicate 5 7)) 0"

definition laser_5_3 :: MeasurementPackage where
  "laser_5_3 = \<lparr> timestamp_m = 1000, sensor_type_m = LASER, raw_measurements_m = [5, 3] \<rparr>"

definition radar_5_0_1 :: MeasurementPackage where
  "radar_5_0_1 = \<lparr> timestamp_m = 1000, sensor_type_m = RADAR, raw_measurements_m = [5, 0, 1] \<rparr>"

text \<open>The filter after the laser measurement \<open>(5, 3)\<close> has initialised it.\<close>

definition laser_initialized :: UKF where
  "laser_initialized =
     example_raw_state\<lparr> time_us_m := 1000, use_radar_m := False, x_m := [5, 3, 0.2, 0, 0],
       P_m := diag5 0.01 0.01 1 1 1, is_initialized_m := True \<rparr>"

text \<open>
  A filter whose laser has been switched off after construction, initialised by the radar
  measurement \<open>(1, 0, 0)\<close>, and two laser measurements that arrive one second later.
\<close>

definition radar_1_0_0 :: MeasurementPackage where
  "radar_1_0_0 = \<lparr> timestamp_m = 1000, sensor_type_m = RADAR, raw_measurements_m = [1, 0, 0] \<rparr>"

definition radar_initialized_laser_off :: UKF where
  "radar_initialized_laser_off =
     example_raw_state\<lparr> use_laser_m := False, time_us_m := 1000, x_m := [1, 0, 0, 0, 0],
       P_m := diag5 0.01 0.01 0.01 0.09 0.09, is_initialized_m := True \<rparr>"

definition laser_2_0_later :: MeasurementPackage where
  "laser_2_0_later =
     \<lparr> timestamp_m = 1001000, sensor_type_m = LASER, raw_measurements_m = [2, 0] \<rparr>"

definition laser_1_4_later :: MeasurementPackage where
  "laser_1_4_later =
     \<lparr> timestamp_m = 1001000, sensor_type_m = LASER, raw_measurements_m = [1, 4] \<rparr>"

text \<open>The same filter after \<open>Prediction\<close> over one second.\<close>

definition radar_initialized_predicted :: UKF where
  "radar_initialized_predicted =
     radar_initialized_laser_off
       \<lparr> Xsig_pred_m :=
           [[1, 0, 0, 0, 0], [1 + sqrt 3 / 10, 0, 0, 0, 0],
            [1, sqrt 3 / 10, 0, 0, 0], [1 + sqrt 3 / 10, 0, sqrt 3 / 10, 0, 0],
            [1, 0, 0, sqrt 3 * 3 / 10, 0],
            [1, 0, 0, sqrt 3 * 3 / 10, sqrt 3 * 3 / 10],
            [1 + sqrt 3 / 2, 0, sqrt 3, 0, 0], [1, 0, 0, sqrt 3 / 2, sqrt 3],
            [1 - sqrt 3 / 10, 0, 0, 0, 0], [1, - (sqrt 3 / 10), 0, 0, 0],
            [1 - sqrt 3 / 10, 0, - (sqrt 3 / 10), 0, 0],
            [1, 0, 0, - (sqrt 3 * 3 / 10), 0],
            [1, 0, 0, - (sqrt 3 * 3 / 10), - (sqrt 3 * 3 / 10)],
            [1 - sqrt 3 / 2, 0, - sqrt 3, 0, 0],
            [1, 0, 0, - (sqrt 3 / 2), - sqrt 3]],
         x_m := [1, 0, 0, 0, 0],
         P_m := [[0.27, 0, 0.51, 0, 0],
                 [0, 0.01, 0, 0, 0],
                 [0.51, 0, 1.01, 0, 0],
                 [0, 0, 0, 0.43, 0.59],
                 [0, 0, 0, 0.59, 1.09]] \<rparr>"

text \<open>
  A filter that moves at speed 3 along the x axis and knows almost nothing about its
  heading: the covariance is \<open>L * L\<^sup>T\<close> for the lower triangular \<open>L\<close> whose heading row is
  \<open>(c, c, c, c, 0)\<close> with \<open>c = \<pi> / (2 * sqrt 3)\<close>, so that the sigma points of the first four
  columns are a quarter turn away from the mean heading.
\<close>

definition quarter_turn :: real where
  "quarter_turn = pi / (2 * sqrt 3)"

definition broad_heading_state :: UKF where
  "broad_heading_state =
     example_raw_state
       \<lparr> is_initialized_m := True,
         x_m := [0, 0, 3, 0, 0],
         P_m := [[1, 0, 0, quarter_turn, 0],
                 [0, 1, 0, quarter_turn, 0],
                 [0, 0, 1, quarter_turn, 0],
                 [quarter_turn, quarter_turn, quarter_turn, 4 * (quarter_turn * quarter_turn), 0],
                 [0, 0, 0, 0, 1 / 4000000]] \<rparr>"

text \<open>
  The radar-initialised filter with its predicted sigma points at the mean, except for two
  that lie further out on the x axis with speeds 1 and -1; and a radar measurement for it.
\<close>

definition outlier_sigma_state :: UKF where
  "outlier_sigma_state =
     radar_initialized_laser_off
       \<lparr> Xsig_pred_m :=
           [[1, 0, 0, 0, 0], [2, 0, 1, 0, 0], [1, 0, 0, 0, 0], [1, 0, 0, 0, 0],
            [1, 0, 0, 0, 0], [1, 0, 0, 0, 0], [1, 0, 0, 0, 0], [1, 0, 0, 0, 0],
            [2, 0, - 1, 0, 0], [1, 0, 0, 0, 0], [1, 0, 0, 0, 0], [1, 0, 0, 0, 0],
            [1, 0, 0, 0, 0], [1, 0, 0, 0, 0], [1, 0, 0, 0, 0]] \<rparr>"

definition radar_later :: MeasurementPackage where
  "radar_later =
     \<lparr> timestamp_m = 1001000, sensor_type_m = RADAR, raw_measurements_m = [1.1, 0.1, 0.2] \<rparr>"

text \<open>
  The filter after the laser measurement \<open>(5, 3)\<close>, as the machine holds it: \<^verbatim>\<open>0.2\<close> and
  \<^verbatim>\<open>0.01\<close> are the doubles nearest to the decimals, the weights the rounded quotients
  \<^verbatim>\<open>-4.0 / 3.0\<close> and \<^verbatim>\<open>0.5 / 3.0\<close>.
\<close>

definition laser_initialized_double :: UKF where
  "laser_initialized_double = double_state laser_initialized"

section \<open>Sizes and coefficients\<close>

lemma dims_nth: "dims r c M \<Longrightarrow> j < c \<Longrightarrow> length (M ! j) = r"
  by (simp add: dims_def list_all_length)

lemma dims_length: "dims r c M \<Longrightarrow> length M = c"
  by (simp add: dims_def)

lemma dimsI: "length M = c \<Longrightarrow> (\<And>j. j < c \<Longrightarrow> length (M ! j) = r) \<Longrightarrow> dims r c M"
  by (simp add: dims_def list_all_length)

lemma length_vadd [simp]: "length (vadd a b) = min (length a) (length b)"
  by (simp add: vadd_def)

lemma length_vsub [simp]: "length (vsub a b) = min (length a) (length b)"
  by (simp add: vsub_def)

lemma length_smult [simp]: "length (smult k a) = length a"
  by (simp add: smult_def)

lemma nth_vadd [simp]: "k < length a \<Longrightarrow> k < length b \<Longrightarrow> vadd a b ! k = a ! k + b ! k"
  by (simp add: vadd_def)

lemma nth_vsub [simp]: "k < length a \<Longrightarrow> k < length b \<Longrightarrow> vsub a b ! k = a ! k - b ! k"
  by (simp add: vsub_def)

lemma nth_smult [simp]: "k < length a \<Longrightarrow> smult c a ! k = c * a ! k"
  by (simp add: smult_def)

lemma length_normalize_at [simp]: "length (normalize_at k d) = length d"
  by (simp add: normalize_at_def)

lemma nth_normalize_at:
  "j < length d \<Longrightarrow> normalize_at k d ! j = (if j = k then normalize_angle (d ! k) else d ! j)"
  by (simp add: normalize_at_def nth_list_update)

lemma weighted_sum_Suc:
  "weighted_sum w col (Suc N) acc0 = vadd (weighted_sum w col N acc0) (smult (w ! N) (col N))"
  by (simp add: weighted_sum_def)

lemma weighted_sum_0 [simp]: "weighted_sum w col 0 acc0 = acc0"
  by (simp add: weighted_sum_def)

lemma weighted_sum_length:
  "length acc0 = n \<Longrightarrow> (\<And>i. i < N \<Longrightarrow> length (col i) = n)
   \<Longrightarrow> length (weighted_sum w col N acc0) = n"
  by (induction N) (simp_all add: weighted_sum_Suc)

lemma weighted_sum_nth:
  "length acc0 = n \<Longrightarrow> (\<And>i. i < N \<Longrightarrow> length (col i) = n) \<Longrightarrow> k < n
   \<Longrightarrow> weighted_sum w col N acc0 ! k = acc0 ! k + (\<Sum>i<N. w ! i * col i ! k)"
proof (induction N)
  case 0
  then show ?case by simp
next
  case (Suc N)
  have len: "length (weighted_sum w col N acc0) = n"
    using Suc.prems by (intro weighted_sum_length) simp_all
  show ?case using Suc len by (simp add: weighted_sum_Suc)
qed

lemma length_madd [simp]: "length (madd A B) = min (length A) (length B)"
  by (simp add: madd_def)

lemma length_msub [simp]: "length (msub A B) = min (length A) (length B)"
  by (simp add: msub_def)

lemma nth_madd [simp]: "j < length A \<Longrightarrow> j < length B \<Longrightarrow> madd A B ! j = vadd (A ! j) (B ! j)"
  by (simp add: madd_def)

lemma nth_msub [simp]: "j < length A \<Longrightarrow> j < length B \<Longrightarrow> msub A B ! j = vsub (A ! j) (B ! j)"
  by (simp add: msub_def)

lemma length_msmult [simp]: "length (msmult k A) = length A"
  by (simp add: msmult_def)

lemma nth_msmult [simp]: "j < length A \<Longrightarrow> msmult k A ! j = smult k (A ! j)"
  by (simp add: msmult_def)

lemma length_outer [simp]: "length (outer a b) = length b"
  by (simp add: outer_def)

lemma nth_outer [simp]: "j < length b \<Longrightarrow> outer a b ! j = smult (b ! j) a"
  by (simp add: outer_def)

lemma dims_madd: "dims r c A \<Longrightarrow> dims r c B \<Longrightarrow> dims r c (madd A B)"
  by (rule dimsI) (simp_all add: dims_length dims_nth)

lemma dims_msub: "dims r c A \<Longrightarrow> dims r c B \<Longrightarrow> dims r c (msub A B)"
  by (rule dimsI) (simp_all add: dims_length dims_nth)

lemma dims_msmult: "dims r c A \<Longrightarrow> dims r c (msmult k A)"
  by (rule dimsI) (simp_all add: dims_length dims_nth)

lemma dims_outer: "length a = r \<Longrightarrow> length b = c \<Longrightarrow> dims r c (outer a b)"
  by (rule dimsI) simp_all

lemma dims_zero_mat [simp]: "dims r c (zero_mat r c)"
  by (simp add: dims_def zero_mat_def list_all_length)

lemma dims_mfill0: "dims r c A \<Longrightarrow> dims r c (mfill0 A)"
  by (simp add: dims_def mfill0_def vfill0_def list_all_length)

lemma weighted_outer_Suc:
  "weighted_outer w a b (Suc N) M0
   = madd (weighted_outer w a b N M0) (msmult (w ! N) (outer (a N) (b N)))"
  by (simp add: weighted_outer_def)

lemma weighted_outer_0 [simp]: "weighted_outer w a b 0 M0 = M0"
  by (simp add: weighted_outer_def)

lemma weighted_outer_dims:
  "dims r c M0 \<Longrightarrow> (\<And>i. i < N \<Longrightarrow> length (a i) = r \<and> length (b i) = c)
   \<Longrightarrow> dims r c (weighted_outer w a b N M0)"
  by (induction N) (simp_all add: weighted_outer_Suc dims_madd dims_msmult dims_outer)

lemma weighted_outer_nth:
  "dims r c M0 \<Longrightarrow> (\<And>i. i < N \<Longrightarrow> length (a i) = r \<and> length (b i) = c)
   \<Longrightarrow> j < c \<Longrightarrow> k < r
   \<Longrightarrow> weighted_outer w a b N M0 ! j ! k = M0 ! j ! k + (\<Sum>i<N. w ! i * (b i ! j * a i ! k))"
proof (induction N)
  case 0
  then show ?case by simp
next
  case (Suc N)
  have d: "dims r c (weighted_outer w a b N M0)"
    using Suc.prems by (intro weighted_outer_dims) simp_all
  have la: "length (a N) = r" and lb: "length (b N) = c" using Suc.prems(2)[of N] by simp_all
  show ?case using Suc d la lb
    by (simp add: weighted_outer_Suc dims_length dims_nth)
qed

lemma mat_rows_dims: "dims r c A \<Longrightarrow> 0 < c \<Longrightarrow> mat_rows A = r"
  by (cases A) (auto simp: dims_def mat_rows_def)

lemma mat_vec_weighted_sum:
  "mat_vec A v = weighted_sum v (\<lambda>j. A ! j) (length A) (replicate (mat_rows A) 0)"
  by (simp add: mat_vec_def weighted_sum_def)

lemma length_mat_vec: "dims r c A \<Longrightarrow> 0 < c \<Longrightarrow> length (mat_vec A v) = r"
  unfolding mat_vec_weighted_sum
  by (rule weighted_sum_length) (simp_all add: mat_rows_dims dims_length dims_nth)

lemma nth_mat_vec:
  "dims r c A \<Longrightarrow> 0 < c \<Longrightarrow> k < r \<Longrightarrow> mat_vec A v ! k = (\<Sum>j<c. v ! j * A ! j ! k)"
proof -
  assume d: "dims r c A" and c: "0 < c" and k: "k < r"
  have "weighted_sum v (\<lambda>j. A ! j) (length A) (replicate (mat_rows A) 0) ! k
        = replicate (mat_rows A) 0 ! k + (\<Sum>j<length A. v ! j * A ! j ! k)"
    using d c k by (intro weighted_sum_nth[where n = r]) (simp_all add: mat_rows_dims dims_length dims_nth)
  then show ?thesis using d c k by (simp add: mat_vec_weighted_sum mat_rows_dims dims_length)
qed

lemma dims_mat_mul: "dims r c A \<Longrightarrow> 0 < c \<Longrightarrow> length B = n \<Longrightarrow> dims r n (mat_mul A B)"
  by (rule dimsI) (simp_all add: mat_mul_def length_mat_vec)

lemma nth_mat_mul:
  "dims r c A \<Longrightarrow> 0 < c \<Longrightarrow> j < length B \<Longrightarrow> k < r
   \<Longrightarrow> mat_mul A B ! j ! k = (\<Sum>i<c. B ! j ! i * A ! i ! k)"
  by (simp add: mat_mul_def nth_mat_vec)

lemma dims_mat_transpose: "dims r c A \<Longrightarrow> 0 < c \<Longrightarrow> dims c r (mat_transpose A)"
  by (rule dimsI) (simp_all add: mat_transpose_def mat_rows_dims dims_length)

lemma nth_mat_transpose:
  "dims r c A \<Longrightarrow> 0 < c \<Longrightarrow> i < r \<Longrightarrow> j < c \<Longrightarrow> mat_transpose A ! i ! j = A ! j ! i"
  by (simp add: mat_transpose_def mat_rows_dims dims_length)

lemma mat_eqI:
  "dims r c A \<Longrightarrow> dims r c B \<Longrightarrow> (\<And>j k. j < c \<Longrightarrow> k < r \<Longrightarrow> A ! j ! k = B ! j ! k) \<Longrightarrow> A = B"
  by (intro nth_equalityI) (simp_all add: dims_length dims_nth)

lemma is_symmetric_iff:
  assumes "dims n n A" "0 < n"
  shows "is_symmetric A \<longleftrightarrow> (\<forall>i<n. \<forall>j<n. A ! i ! j = A ! j ! i)"
proof
  assume "is_symmetric A"
  then have e: "mat_transpose A = A" by (simp add: is_symmetric_def)
  show "\<forall>i<n. \<forall>j<n. A ! i ! j = A ! j ! i"
  proof (intro allI impI)
    fix i j assume "i < n" "j < n"
    then have "mat_transpose A ! i ! j = A ! j ! i" using assms by (simp add: nth_mat_transpose)
    then show "A ! i ! j = A ! j ! i" using e by simp
  qed
next
  assume s: "\<forall>i<n. \<forall>j<n. A ! i ! j = A ! j ! i"
  have "mat_transpose A = A"
    using assms s by (intro mat_eqI[where r = n and c = n]) (simp_all add: dims_mat_transpose nth_mat_transpose)
  then show "is_symmetric A" by (simp add: is_symmetric_def)
qed

lemma sum_15_split:
  fixes f :: "nat \<Rightarrow> real"
  shows "(\<Sum>i<15. f i) = f 0 + (\<Sum>i<7. f (Suc i)) + (\<Sum>i<7. f (i + 8))"
  by (simp add: eval_nat_numeral)

lemma sigma_points_length: "length (sigma_points lam n x L) = 2 * n + 1"
  by (simp add: sigma_points_def Let_def)

lemma sigma_points_0: "sigma_points lam n x L ! 0 = x"
  by (simp add: sigma_points_def Let_def)

lemma sigma_points_plus:
  "i < n \<Longrightarrow> sigma_points lam n x L ! Suc i = vadd x (smult (sqrt (lam + real n)) (L ! i))"
  by (simp add: sigma_points_def Let_def nth_append)

lemma sigma_points_minus:
  "i < n \<Longrightarrow> sigma_points lam n x L ! (i + Suc n) = vsub x (smult (sqrt (lam + real n)) (L ! i))"
  by (simp add: sigma_points_def Let_def nth_append)

lemma UKF_new_fields:
  "n_x_m (UKF_new x0 P0 X0 t0) = 5"
  "n_aug_m (UKF_new x0 P0 X0 t0) = 7"
  "lambda_m (UKF_new x0 P0 X0 t0) = - 4"
  "weights_m (UKF_new x0 P0 X0 t0) = (- 4 / 3) # replicate 14 (1 / 6)"
  by (simp_all add: UKF_new_def Let_def eval_nat_numeral)

lemma ctor_weights_eq: "ctor_weights = (- 4 / 3) # replicate 14 (1 / 6)"
  by (simp add: ctor_weights_def UKF_new_fields)

lemma ctor_weights_length [simp]: "length ctor_weights = 15"
  by (simp add: ctor_weights_eq)

lemma ctor_weights_nth:
  "ctor_weights ! 0 = - 4 / 3"
  "i < 14 \<Longrightarrow> ctor_weights ! Suc i = 1 / 6"
  "i < 7 \<Longrightarrow> ctor_weights ! (i + 8) = 1 / 6"
  by (simp_all add: ctor_weights_eq nth_Cons')

lemma ctor_weighted_sum:
  fixes f :: "nat \<Rightarrow> real"
  shows "(\<Sum>i<15. ctor_weights ! i * f i)
         = - 4 / 3 * f 0 + (\<Sum>i<7. (f (Suc i) + f (i + 8)) / 6)"
  by (simp add: sum_15_split ctor_weights_nth sum.distrib add_divide_distrib)

lemma sigma_mean_coeff:
  assumes x: "length x_aug = 7" and L: "dims 7 7 L" and k: "k < 7"
  shows "(\<Sum>i<15. ctor_weights ! i * sigma_points (- 4) 7 x_aug L ! i ! k) = x_aug ! k"
proof -
  let ?X = "sigma_points (- 4) 7 x_aug L"
  have p: "\<And>i. i < 7 \<Longrightarrow> ?X ! Suc i ! k + ?X ! (i + 8) ! k = 2 * x_aug ! k"
    using x L k sigma_points_minus[of _ 7 "-4" x_aug L]
    by (simp add: sigma_points_plus dims_nth)
  have "(\<Sum>i<15. ctor_weights ! i * ?X ! i ! k)
        = - 4 / 3 * ?X ! 0 ! k + (\<Sum>i<(7::nat). (2 * x_aug ! k) / 6)"
    unfolding ctor_weighted_sum using p by simp
  then show ?thesis by (simp add: sigma_points_0)
qed

lemma sigma_cov_coeff:
  assumes x: "length x_aug = 7" and L: "dims 7 7 L" and k: "k < 7" and j: "j < 7"
  shows "(\<Sum>i<15. ctor_weights ! i *
            (vsub (sigma_points (- 4) 7 x_aug L ! i) x_aug ! j
             * vsub (sigma_points (- 4) 7 x_aug L ! i) x_aug ! k))
         = (\<Sum>i<7. L ! i ! j * L ! i ! k)"
proof -
  let ?X = "sigma_points (- 4) 7 x_aug L"
  let ?d = "\<lambda>i. vsub (?X ! i) x_aug"
  have s3: "sqrt 3 * sqrt 3 = (3::real)" by simp
  have plus: "\<And>i m. i < 7 \<Longrightarrow> m < 7 \<Longrightarrow> ?d (Suc i) ! m = sqrt 3 * L ! i ! m"
    using x L by (simp add: sigma_points_plus dims_nth)
  have minus: "\<And>i m. i < 7 \<Longrightarrow> m < 7 \<Longrightarrow> ?d (i + 8) ! m = - (sqrt 3 * L ! i ! m)"
    using x L sigma_points_minus[of _ 7 "-4" x_aug L] by (simp add: dims_nth)
  have zero: "\<And>m. m < 7 \<Longrightarrow> ?d 0 ! m = 0" using x by (simp add: sigma_points_0)
  have pair: "\<And>i. i < 7 \<Longrightarrow>
      (?d (Suc i) ! j * ?d (Suc i) ! k + ?d (i + 8) ! j * ?d (i + 8) ! k) / 6 = L ! i ! j * L ! i ! k"
  proof -
    fix i :: nat assume i: "i < 7"
    have "sqrt 3 * L ! i ! j * (sqrt 3 * L ! i ! k) = 3 * (L ! i ! j * L ! i ! k)"
      using s3 by (simp add: mult.assoc mult.left_commute)
    then show "(?d (Suc i) ! j * ?d (Suc i) ! k + ?d (i + 8) ! j * ?d (i + 8) ! k) / 6
               = L ! i ! j * L ! i ! k"
      using i j k by (simp add: plus minus)
  qed
  show ?thesis unfolding ctor_weighted_sum using zero[OF j] pair by simp
qed

lemma sum_list_ctor_weights: "sum_list ctor_weights = 1"
  by (simp add: ctor_weights_eq sum_list_replicate)

section \<open>The worked inputs, evaluated\<close>

lemma sqrt_hundredth: "sqrt (1 / 100) = 1 / 10"
  by (rule real_sqrt_unique) (simp_all add: power2_eq_square)

lemma upt_7: "[0..<7] = [0, 1, 2, 3, 4, 5, 6]"
  by (simp add: upt_rec)

lemma aug_cov_laser_initialized:
  "augmented_covariance laser_initialized =
     [[0.01, 0, 0, 0, 0, 0, 0],
      [0, 0.01, 0, 0, 0, 0, 0],
      [0, 0, 1, 0, 0, 0, 0],
      [0, 0, 0, 1, 0, 0, 0],
      [0, 0, 0, 0, 1, 0, 0],
      [0, 0, 0, 0, 0, 1, 0],
      [0, 0, 0, 0, 0, 0, 1]]"
  by (simp add: augmented_covariance_def laser_initialized_def example_raw_state_def
      UKF_new_def diag5_def eval_nat_numeral)

lemma llt_laser_initialized:
  "llt_matrixL
     [[0.01, 0, 0, 0, 0, 0, 0],
      [0, 0.01, 0, 0, 0, 0, 0],
      [0, 0, 1, 0, 0, 0, 0],
      [0, 0, 0, 1, 0, 0, 0],
      [0, 0, 0, 0, 1, 0, 0],
      [0, 0, 0, 0, 0, 1, 0],
      [0, 0, 0, 0, 0, 0, 1]] =
     [[0.1, 0, 0, 0, 0, 0, 0],
      [0, 0.1, 0, 0, 0, 0, 0],
      [0, 0, 1, 0, 0, 0, 0],
      [0, 0, 0, 1, 0, 0, 0],
      [0, 0, 0, 0, 1, 0, 0],
      [0, 0, 0, 0, 0, 1, 0],
      [0, 0, 0, 0, 0, 0, 1]]"
  by (simp add: llt_matrixL_def eval_nat_numeral llt_pivot_def llt_col_def Let_def
      sqrt_hundredth nth_append upt_rec)

lemma upt_15: "[0..<15] = [0, 1, 2, 3, 4, 5, 6, 7, 8, 9, 10, 11, 12, 13, 14]"
  by (simp add: upt_rec)

lemma llt_aug_laser_initialized:
  "llt_matrixL (augmented_covariance laser_initialized) =
     [[0.1, 0, 0, 0, 0, 0, 0],
      [0, 0.1, 0, 0, 0, 0, 0],
      [0, 0, 1, 0, 0, 0, 0],
      [0, 0, 0, 1, 0, 0, 0],
      [0, 0, 0, 0, 1, 0, 0],
      [0, 0, 0, 0, 0, 1, 0],
      [0, 0, 0, 0, 0, 0, 1]]"
  by (simp only: aug_cov_laser_initialized llt_laser_initialized)

lemma dims_list_all: "dims r c M \<Longrightarrow> list_all (\<lambda>col. length col = r) M"
  by (simp add: dims_def)

lemma llt_unblocked_dims:
  "length Ls + m = length A \<Longrightarrow> list_all (\<lambda>c. length c = length A) Ls
   \<Longrightarrow> dims (length A) (length A) (llt_unblocked A m Ls)"
proof (induction m arbitrary: Ls)
  case 0
  then show ?case by (simp add: dims_def)
next
  case (Suc m)
  show ?case
  proof (cases "llt_pivot A Ls (length Ls) \<le> 0")
    case True
    then show ?thesis using Suc.prems
      by (auto simp: dims_def lower_col_def list_all_iff)
  next
    case False
    have "dims (length A) (length A)
            (llt_unblocked A m (Ls @ [llt_col A Ls (length Ls) (sqrt (llt_pivot A Ls (length Ls)))]))"
      using Suc.prems by (intro Suc.IH) (simp_all add: llt_col_def)
    then show ?thesis using False by (simp add: Let_def)
  qed
qed

lemma llt_matrixL_dims: "dims (length A) (length A) (llt_matrixL A)"
  unfolding llt_matrixL_def by (rule llt_unblocked_dims) simp_all

lemma constructed_augmented_mean: "constructed s \<Longrightarrow> length (augmented_mean s) = 7"
  by (simp add: constructed_def augmented_mean_def)

lemma constructed_augmented_covariance: "constructed s \<Longrightarrow> length (augmented_covariance s) = 7"
  by (simp add: constructed_def augmented_covariance_def dims_def)

lemma augmented_mean_nth: "k < length (x_m s) \<Longrightarrow> augmented_mean s ! k = x_m s ! k"
  by (simp add: augmented_mean_def nth_append)

lemma length_motion_model [simp]: "length (motion_model dt c) = 5"
  by (simp add: motion_model_def Let_def)

lemma motion_model_zero: "motion_model 0 c = [c ! 0, c ! 1, c ! 2, c ! 3, c ! 4]"
  by (simp add: motion_model_def Let_def)

lemma motion_model_zero_nth: "k < 5 \<Longrightarrow> motion_model 0 c ! k = c ! k"
proof -
  assume "k < 5"
  then have "k = 0 \<or> k = 1 \<or> k = 2 \<or> k = 3 \<or> k = 4" by arith
  then show ?thesis by (auto simp: motion_model_zero)
qed

lemma Prediction_constructed:
  assumes "constructed s"
  shows "Xsig_pred_m (Prediction dt s) = predicted_sigma dt s"
    and "x_m (Prediction dt s)
         = weighted_sum ctor_weights (\<lambda>i. predicted_sigma dt s ! i) 15 (vfill0 (x_m s))"
    and "P_m (Prediction dt s)
         = weighted_outer ctor_weights
             (state_diff (predicted_sigma dt s) (x_m (Prediction dt s)))
             (state_diff (predicted_sigma dt s) (x_m (Prediction dt s))) 15 (mfill0 (P_m s))"
  using assms by (simp_all add: Prediction_def Let_def constructed_def predicted_sigma_def)

lemma predicted_sigma_nth:
  "i < 15 \<Longrightarrow> predicted_sigma dt s ! i
     = motion_model dt (sigma_points (- 4) 7 (augmented_mean s)
                          (llt_matrixL (augmented_covariance s)) ! i)"
  by (simp add: predicted_sigma_def)

lemma predicted_sigma_dims: "dims 5 15 (predicted_sigma dt s)"
  by (rule dimsI) (simp_all add: predicted_sigma_def)

lemma constructed_laser_initialized: "constructed laser_initialized"
  by (simp add: constructed_def laser_initialized_def example_raw_state_def UKF_new_def
      ctor_weights_def dims_def diag5_def list_all_iff)

lemma those_Some_length: "those xs = Some ys \<Longrightarrow> length ys = length xs"
  by (induction xs arbitrary: ys) (auto split: option.splits)

lemma those_Some_nth: "those xs = Some ys \<Longrightarrow> i < length xs \<Longrightarrow> xs ! i = Some (ys ! i)"
proof (induction xs arbitrary: ys i)
  case Nil
  then show ?case by simp
next
  case (Cons x xs)
  then show ?case by (cases i) (auto split: option.splits)
qed

lemma radar_model_length: "radar_model c = Some z \<Longrightarrow> length z = 3"
  by (auto simp: radar_model_def Let_def split: if_splits)

lemma radar_Zsig_dims:
  assumes "radar_Zsig s = Some Zsig" "n_aug_m s = 7"
  shows "dims 3 15 Zsig"
proof (rule dimsI)
  show len: "length Zsig = 15"
    using those_Some_length[OF assms(1)[unfolded radar_Zsig_def]] assms(2) by simp
  fix j :: nat assume j: "j < 15"
  have "map (\<lambda>i. radar_model (Xsig_pred_m s ! i)) [0..<2 * n_aug_m s + 1] ! j = Some (Zsig ! j)"
    using assms(2) j by (intro those_Some_nth[OF assms(1)[unfolded radar_Zsig_def]]) simp
  then have "radar_model (Xsig_pred_m s ! j) = Some (Zsig ! j)" using assms(2) j by simp
  then show "length (Zsig ! j) = 3" by (rule radar_model_length)
qed

lemma lidar_Zsig_dims: "n_aug_m s = 7 \<Longrightarrow> dims 2 15 (lidar_Zsig s)"
  by (rule dimsI) (simp_all add: lidar_Zsig_def)

lemma length_state_diff:
  "i < length X \<Longrightarrow> length (X ! i) = n \<Longrightarrow> length x = n \<Longrightarrow> length (state_diff X x i) = n"
  by (simp add: state_diff_def)

lemma length_meas_diff:
  "length (Z ! i) = n \<Longrightarrow> length z = n \<Longrightarrow> length (meas_diff Z z i) = n"
  by (simp add: meas_diff_def)

lemma weighted_outer_symmetric:
  assumes "dims n n M0" "\<And>i. i < N \<Longrightarrow> length (a i) = n"
    and "\<And>j k. j < n \<Longrightarrow> k < n \<Longrightarrow> M0 ! j ! k = M0 ! k ! j" "j < n" "k < n"
  shows "weighted_outer w a a N M0 ! j ! k = weighted_outer w a a N M0 ! k ! j"
proof -
  have 1: "weighted_outer w a a N M0 ! j ! k = M0 ! j ! k + (\<Sum>i<N. w ! i * (a i ! j * a i ! k))"
    using assms by (intro weighted_outer_nth) simp_all
  have 2: "weighted_outer w a a N M0 ! k ! j = M0 ! k ! j + (\<Sum>i<N. w ! i * (a i ! k * a i ! j))"
    using assms by (intro weighted_outer_nth) simp_all
  show ?thesis unfolding 1 2 using assms(3)[OF assms(4,5)] by (simp add: mult.commute)
qed

lemma sandwich_symmetric:
  assumes K: "dims r c K" and S: "dims c c S" and c: "0 < c" and r: "0 < r"
    and sym: "\<And>a b. a < c \<Longrightarrow> b < c \<Longrightarrow> S ! a ! b = S ! b ! a"
    and i: "i < r" and j: "j < r"
  shows "mat_mul (mat_mul K S) (mat_transpose K) ! i ! j
         = mat_mul (mat_mul K S) (mat_transpose K) ! j ! i"
proof -
  have KS: "dims r c (mat_mul K S)" by (rule dims_mat_mul[OF K c]) (simp add: dims_length[OF S])
  have KT: "dims c r (mat_transpose K)" using K c by (rule dims_mat_transpose)
  have e: "\<And>i j. i < r \<Longrightarrow> j < r \<Longrightarrow>
      mat_mul (mat_mul K S) (mat_transpose K) ! i ! j
      = (\<Sum>b<c. \<Sum>a<c. K ! b ! i * (S ! b ! a * K ! a ! j))"
  proof -
    fix i j assume i: "i < r" and j: "j < r"
    have "mat_mul (mat_mul K S) (mat_transpose K) ! i ! j
          = (\<Sum>b<c. mat_transpose K ! i ! b * mat_mul K S ! b ! j)"
      using KS KT c i j by (simp add: nth_mat_mul dims_length)
    also have "\<dots> = (\<Sum>b<c. K ! b ! i * (\<Sum>a<c. S ! b ! a * K ! a ! j))"
      using K S c i j by (simp add: nth_mat_transpose nth_mat_mul dims_length)
    finally show "mat_mul (mat_mul K S) (mat_transpose K) ! i ! j
      = (\<Sum>b<c. \<Sum>a<c. K ! b ! i * (S ! b ! a * K ! a ! j))"
      by (simp add: sum_distrib_left)
  qed
  have "(\<Sum>b<c. \<Sum>a<c. K ! b ! i * (S ! b ! a * K ! a ! j))
        = (\<Sum>b<c. \<Sum>a<c. K ! a ! j * (S ! a ! b * K ! b ! i))"
    using sym by (intro sum.cong refl) (simp add: mult_ac)
  also have "\<dots> = (\<Sum>a<c. \<Sum>b<c. K ! a ! j * (S ! a ! b * K ! b ! i))"
    by (rule sum.swap)
  finally show ?thesis using e[OF i j] e[OF j i] by simp
qed

lemma msub_sandwich_symmetric:
  assumes P: "dims r r P" and symP: "is_symmetric P"
    and K: "dims r c K" and S: "dims c c S" and c: "0 < c" and r: "0 < r"
    and sym: "\<And>a b. a < c \<Longrightarrow> b < c \<Longrightarrow> S ! a ! b = S ! b ! a"
  shows "is_symmetric (msub P (mat_mul (mat_mul K S) (mat_transpose K)))"
proof -
  let ?Q = "mat_mul (mat_mul K S) (mat_transpose K)"
  have KS: "dims r c (mat_mul K S)" by (rule dims_mat_mul[OF K c]) (simp add: dims_length[OF S])
  have KT: "dims c r (mat_transpose K)" using K c by (rule dims_mat_transpose)
  have Q: "dims r r ?Q" by (rule dims_mat_mul[OF KS c]) (simp add: dims_length[OF KT])
  have d: "dims r r (msub P ?Q)" using P Q by (rule dims_msub)
  have p: "\<forall>i<r. \<forall>j<r. P ! i ! j = P ! j ! i" using symP is_symmetric_iff[OF P r] by simp
  show ?thesis unfolding is_symmetric_iff[OF d r]
  proof (intro allI impI)
    fix i j assume i: "i < r" and j: "j < r"
    show "msub P ?Q ! i ! j = msub P ?Q ! j ! i"
      using i j P Q p sandwich_symmetric[OF K S c r sym i j]
      by (simp add: dims_length dims_nth)
  qed
qed

lemma Prediction_mean_length: "constructed s \<Longrightarrow> length (x_m (Prediction dt s)) = 5"
  unfolding Prediction_constructed(2)
  by (rule weighted_sum_length) (simp_all add: constructed_def vfill0_def predicted_sigma_nth)

lemma mfill0_nth: "j < length A \<Longrightarrow> k < length (A ! j) \<Longrightarrow> mfill0 A ! j ! k = 0"
  by (simp add: mfill0_def vfill0_def)

lemma Prediction_symmetric:
  assumes c: "constructed s"
  shows "is_symmetric (P_m (Prediction dt s))"
proof -
  let ?d = "state_diff (predicted_sigma dt s) (x_m (Prediction dt s))"
  let ?P = "weighted_outer ctor_weights ?d ?d 15 (mfill0 (P_m s))"
  have P5: "dims 5 5 (P_m s)" using c by (simp add: constructed_def)
  have M0: "dims 5 5 (mfill0 (P_m s))" using P5 by (rule dims_mfill0)
  have len: "\<And>i. i < 15 \<Longrightarrow> length (?d i) = 5"
    using Prediction_mean_length[OF c]
    by (intro length_state_diff) (simp_all add: predicted_sigma_nth predicted_sigma_def)
  have d: "dims 5 5 ?P" using M0 len by (intro weighted_outer_dims) simp_all
  have z: "\<And>j k. j < 5 \<Longrightarrow> k < 5 \<Longrightarrow> mfill0 (P_m s) ! j ! k = mfill0 (P_m s) ! k ! j"
    using P5 by (simp add: mfill0_nth dims_length dims_nth)
  have "is_symmetric ?P" unfolding is_symmetric_iff[OF d, simplified]
  proof (intro allI impI)
    fix i j :: nat assume "i < 5" "j < 5"
    then show "?P ! i ! j = ?P ! j ! i"
      using M0 len z by (intro weighted_outer_symmetric[where n = 5]) simp_all
  qed
  then show ?thesis using Prediction_constructed(3)[OF c, of dt] by simp
qed

lemma mat_inverse_dims:
  assumes "mat_inverse S = Some Si" "dims n n S" "n = 2 \<or> n = 3"
  shows "dims n n Si"
  using assms
  by (auto simp: mat_inverse_def dims_def inverse2_def inverse3_def split: if_splits)

lemma kalman_update_symmetric:
  assumes u: "kalman_update m z S Tc s = Some s'"
    and P: "dims 5 5 (P_m s)" and symP: "is_symmetric (P_m s)"
    and S: "dims n n S" and n: "n = 2 \<or> n = 3" and Tc: "dims 5 n Tc"
    and sym: "\<And>a b. a < n \<Longrightarrow> b < n \<Longrightarrow> S ! a ! b = S ! b ! a"
  shows "is_symmetric (P_m s')"
proof -
  from u obtain Si where Si: "mat_inverse S = Some Si"
    and s': "s' = s\<lparr> x_m := vadd (x_m s) (mat_vec (mat_mul Tc Si)
                                          (innovation (raw_measurements_m m) z)),
                     P_m := msub (P_m s) (mat_mul (mat_mul (mat_mul Tc Si) S)
                                            (mat_transpose (mat_mul Tc Si))) \<rparr>"
    by (auto simp: kalman_update_def Let_def split: option.splits if_splits)
  have n0: "0 < n" using n by auto
  have dSi: "dims n n Si" using Si S n by (rule mat_inverse_dims)
  have K: "dims 5 n (mat_mul Tc Si)"
    by (rule dims_mat_mul[OF Tc n0]) (simp add: dims_length[OF dSi])
  have "is_symmetric (msub (P_m s) (mat_mul (mat_mul (mat_mul Tc Si) S)
                                      (mat_transpose (mat_mul Tc Si))))"
    using P symP K S n0 _ sym by (rule msub_sandwich_symmetric) simp
  then show ?thesis by (simp add: s')
qed

lemma diag2_symmetric:
  "a < 2 \<Longrightarrow> b < 2 \<Longrightarrow> [[p, 0], [0, q :: real]] ! a ! b = [[p, 0], [0, q]] ! b ! a"
  by (auto simp: less_2_cases_iff)

lemma diag3_symmetric:
  "a < 3 \<Longrightarrow> b < 3 \<Longrightarrow>
   [[p, 0, 0], [0, q, 0], [0, 0, u :: real]] ! a ! b = [[p, 0, 0], [0, q, 0], [0, 0, u]] ! b ! a"
proof -
  assume "a < 3" "b < 3"
  then have "(a = 0 \<or> a = 1 \<or> a = 2) \<and> (b = 0 \<or> b = 1 \<or> b = 2)" by arith
  then show ?thesis by auto
qed

lemma UpdateLidar_symmetric:
  assumes c: "constructed s" and symP: "is_symmetric (P_m s)"
    and u: "UpdateLidar m s = Some s'"
  shows "is_symmetric (P_m s')"
proof -
  let ?Z = "lidar_Zsig s"
  let ?z = "weighted_sum (weights_m s) (\<lambda>i. ?Z ! i) 15 (replicate 2 0)"
  let ?zd = "\<lambda>i. vsub (?Z ! i) ?z"
  let ?S0 = "weighted_outer (weights_m s) ?zd ?zd 15 (zero_mat 2 2)"
  let ?R = "[[std_laspx_m s * std_laspx_m s, 0], [0, std_laspy_m s * std_laspy_m s]]"
  let ?Tc = "weighted_outer (weights_m s) (state_diff (Xsig_pred_m s) (x_m s)) ?zd 15 (zero_mat 5 2)"
  have n: "n_aug_m s = 7" "n_x_m s = 5" using c by (simp_all add: constructed_def)
  have P: "dims 5 5 (P_m s)" and X: "dims 5 15 (Xsig_pred_m s)" and x: "length (x_m s) = 5"
    using c by (simp_all add: constructed_def)
  have Z: "dims 2 15 ?Z" using n by (simp add: lidar_Zsig_dims)
  have z: "length ?z = 2" using Z by (intro weighted_sum_length) (simp_all add: dims_nth)
  have zd: "\<And>i. i < 15 \<Longrightarrow> length (?zd i) = 2" using Z z by (simp add: dims_nth)
  have xd: "\<And>i. i < 15 \<Longrightarrow> length (state_diff (Xsig_pred_m s) (x_m s) i) = 5"
    using X x by (intro length_state_diff) (simp_all add: dims_length dims_nth)
  have S0: "dims 2 2 ?S0" using zd by (intro weighted_outer_dims) simp_all
  have R: "dims 2 2 ?R" by (simp add: dims_def)
  have S: "dims 2 2 (madd ?S0 ?R)" using S0 R by (rule dims_madd)
  have Tc: "dims 5 2 ?Tc" using zd xd by (intro weighted_outer_dims) simp_all
  have symS0: "\<And>a b. a < 2 \<Longrightarrow> b < 2 \<Longrightarrow> ?S0 ! a ! b = ?S0 ! b ! a"
  proof -
    fix a b :: nat assume a: "a < 2" and b: "b < 2"
    have e: "\<And>j k. j < 2 \<Longrightarrow> k < 2 \<Longrightarrow> zero_mat 2 2 ! j ! k = zero_mat 2 2 ! k ! j"
      by (simp add: zero_mat_def)
    show "?S0 ! a ! b = ?S0 ! b ! a"
      by (rule weighted_outer_symmetric[where n = 2, OF dims_zero_mat zd e a b])
  qed
  have symS: "\<And>a b. a < 2 \<Longrightarrow> b < 2 \<Longrightarrow> madd ?S0 ?R ! a ! b = madd ?S0 ?R ! b ! a"
  proof -
    fix a b :: nat assume a: "a < 2" and b: "b < 2"
    have la: "length (?R ! a) = 2" "length (?R ! b) = 2" using a b R by (simp_all add: dims_nth)
    show "madd ?S0 ?R ! a ! b = madd ?S0 ?R ! b ! a"
      using a b S0 la symS0[OF a b] diag2_symmetric[OF a b]
      by (simp add: dims_length dims_nth del: nth_Cons_0 nth_Cons_Suc One_nat_def)
  qed
  have "kalman_update m ?z (madd ?S0 ?R) ?Tc s = Some s'"
    using u n by (simp add: UpdateLidar_def Let_def)
  then show ?thesis using P symP S _ Tc symS by (rule kalman_update_symmetric) simp
qed

lemma UpdateRadar_symmetric:
  assumes c: "constructed s" and symP: "is_symmetric (P_m s)"
    and u: "UpdateRadar m s = Some s'"
  shows "is_symmetric (P_m s')"
proof -
  from u obtain Z where Zs: "radar_Zsig s = Some Z"
    by (auto simp: UpdateRadar_def split: option.splits)
  let ?z = "weighted_sum (weights_m s) (\<lambda>i. Z ! i) 15 (replicate 3 0)"
  let ?zd = "meas_diff Z ?z"
  let ?S0 = "weighted_outer (weights_m s) ?zd ?zd 15 (zero_mat 3 3)"
  let ?R = "[[std_radr_m s * std_radr_m s, 0, 0],
             [0, std_radphi_m s * std_radphi_m s, 0],
             [0, 0, std_radrd_m s * std_radrd_m s]]"
  let ?Tc = "weighted_outer (weights_m s) (state_diff (Xsig_pred_m s) (x_m s)) ?zd 15 (zero_mat 5 3)"
  have n: "n_aug_m s = 7" "n_x_m s = 5" using c by (simp_all add: constructed_def)
  have P: "dims 5 5 (P_m s)" and X: "dims 5 15 (Xsig_pred_m s)" and x: "length (x_m s) = 5"
    using c by (simp_all add: constructed_def)
  have Z: "dims 3 15 Z" using Zs n(1) by (rule radar_Zsig_dims)
  have z: "length ?z = 3" using Z by (intro weighted_sum_length) (simp_all add: dims_nth)
  have zd: "\<And>i. i < 15 \<Longrightarrow> length (?zd i) = 3"
    using Z z by (intro length_meas_diff) (simp_all add: dims_nth)
  have xd: "\<And>i. i < 15 \<Longrightarrow> length (state_diff (Xsig_pred_m s) (x_m s) i) = 5"
    using X x by (intro length_state_diff) (simp_all add: dims_length dims_nth)
  have S0: "dims 3 3 ?S0" using zd by (intro weighted_outer_dims) simp_all
  have R: "dims 3 3 ?R" by (simp add: dims_def)
  have S: "dims 3 3 (madd ?S0 ?R)" using S0 R by (rule dims_madd)
  have Tc: "dims 5 3 ?Tc" using zd xd by (intro weighted_outer_dims) simp_all
  have symS0: "\<And>a b. a < 3 \<Longrightarrow> b < 3 \<Longrightarrow> ?S0 ! a ! b = ?S0 ! b ! a"
  proof -
    fix a b :: nat assume a: "a < 3" and b: "b < 3"
    have e: "\<And>j k. j < 3 \<Longrightarrow> k < 3 \<Longrightarrow> zero_mat 3 3 ! j ! k = zero_mat 3 3 ! k ! j"
      by (simp add: zero_mat_def)
    show "?S0 ! a ! b = ?S0 ! b ! a"
      by (rule weighted_outer_symmetric[where n = 3, OF dims_zero_mat zd e a b])
  qed
  have symS: "\<And>a b. a < 3 \<Longrightarrow> b < 3 \<Longrightarrow> madd ?S0 ?R ! a ! b = madd ?S0 ?R ! b ! a"
  proof -
    fix a b :: nat assume a: "a < 3" and b: "b < 3"
    have la: "length (?R ! a) = 3" "length (?R ! b) = 3" using a b R by (simp_all add: dims_nth)
    show "madd ?S0 ?R ! a ! b = madd ?S0 ?R ! b ! a"
      using a b S0 la symS0[OF a b] diag3_symmetric[OF a b]
      by (simp add: dims_length dims_nth del: nth_Cons_0 nth_Cons_Suc One_nat_def nth_Cons_numeral)
  qed
  have "kalman_update m ?z (madd ?S0 ?R) ?Tc s = Some s'"
    using u n Zs by (simp add: UpdateRadar_def Let_def)
  then show ?thesis using P symP S _ Tc symS by (rule kalman_update_symmetric) simp
qed

lemma radar_initialized_laser_off_reached:
  "ProcessMeasurement radar_1_0_0 (example_raw_state\<lparr> use_laser_m := False \<rparr>)
   = Some radar_initialized_laser_off"
  by (simp add: example_raw_state_def UKF_new_def radar_1_0_0_def ProcessMeasurement_def
      initialize_def init_laser_def init_radar_def vfill0_def radar_initialized_laser_off_def)

lemma constructed_radar_initialized: "constructed radar_initialized_laser_off"
  by (simp add: constructed_def radar_initialized_laser_off_def example_raw_state_def UKF_new_def
      ctor_weights_def dims_def diag5_def list_all_iff)

lemma sqrt_9_hundredths: "sqrt (9 / 100) = 3 / 10"
  by (rule real_sqrt_unique) (simp_all add: power2_eq_square)

lemma aug_cov_radar_initialized:
  "augmented_covariance radar_initialized_laser_off =
     [[0.01, 0, 0, 0, 0, 0, 0],
      [0, 0.01, 0, 0, 0, 0, 0],
      [0, 0, 0.01, 0, 0, 0, 0],
      [0, 0, 0, 0.09, 0, 0, 0],
      [0, 0, 0, 0, 0.09, 0, 0],
      [0, 0, 0, 0, 0, 1, 0],
      [0, 0, 0, 0, 0, 0, 1]]"
  by (simp add: augmented_covariance_def radar_initialized_laser_off_def example_raw_state_def
      UKF_new_def diag5_def eval_nat_numeral)

lemma llt_aug_radar_initialized:
  "llt_matrixL (augmented_covariance radar_initialized_laser_off) =
     [[0.1, 0, 0, 0, 0, 0, 0],
      [0, 0.1, 0, 0, 0, 0, 0],
      [0, 0, 0.1, 0, 0, 0, 0],
      [0, 0, 0, 0.3, 0, 0, 0],
      [0, 0, 0, 0, 0.3, 0, 0],
      [0, 0, 0, 0, 0, 1, 0],
      [0, 0, 0, 0, 0, 0, 1]]"
  unfolding aug_cov_radar_initialized
  by (simp add: llt_matrixL_def eval_nat_numeral llt_pivot_def llt_col_def Let_def
      sqrt_hundredth sqrt_9_hundredths nth_append upt_rec)

lemma sqrt3_bounds: "1 < sqrt 3" "sqrt 3 < 2"
proof -
  show "1 < sqrt 3" by simp
  have "sqrt 3 < sqrt 4" by (rule real_sqrt_less_mono) simp
  moreover have "sqrt 4 = 2" by (rule real_sqrt_unique) (simp_all add: power2_eq_square)
  ultimately show "sqrt 3 < 2" by (simp only:)
qed

lemma sqrt3_conds: "1 < 300 * sqrt 3" "\<not> 300 * sqrt 3 < - 1"
  using sqrt3_bounds by linarith+

lemma predicted_sigma_radar_initialized:
  "predicted_sigma 1 radar_initialized_laser_off =
    [[1, 0, 0, 0, 0], [1 + sqrt 3 / 10, 0, 0, 0, 0],
     [1, sqrt 3 / 10, 0, 0, 0], [1 + sqrt 3 / 10, 0, sqrt 3 / 10, 0, 0],
     [1, 0, 0, sqrt 3 * 3 / 10, 0],
     [1, 0, 0, sqrt 3 * 3 / 10, sqrt 3 * 3 / 10],
     [1 + sqrt 3 / 2, 0, sqrt 3, 0, 0], [1, 0, 0, sqrt 3 / 2, sqrt 3],
     [1 - sqrt 3 / 10, 0, 0, 0, 0], [1, - (sqrt 3 / 10), 0, 0, 0],
     [1 - sqrt 3 / 10, 0, - (sqrt 3 / 10), 0, 0],
     [1, 0, 0, - (sqrt 3 * 3 / 10), 0],
     [1, 0, 0, - (sqrt 3 * 3 / 10), - (sqrt 3 * 3 / 10)],
     [1 - sqrt 3 / 2, 0, - sqrt 3, 0, 0],
     [1, 0, 0, - (sqrt 3 / 2), - sqrt 3]]"
  unfolding predicted_sigma_def llt_aug_radar_initialized
  by (simp add: sqrt3_conds upt_15 upt_7 sigma_points_def augmented_mean_def motion_model_def Let_def
      vadd_def vsub_def smult_def radar_initialized_laser_off_def)

lemma normalize_angle_id: "- pi \<le> a \<Longrightarrow> a \<le> pi \<Longrightarrow> normalize_angle a = a"
  by (simp add: normalize_angle_def)

lemma normalize_angle_small:
  "normalize_angle 0 = 0"
  "normalize_angle (sqrt 3 * 3 / 10) = sqrt 3 * 3 / 10"
  "normalize_angle (- (sqrt 3 * 3 / 10)) = - (sqrt 3 * 3 / 10)"
  "normalize_angle (sqrt 3 / 2) = sqrt 3 / 2"
  "normalize_angle (- (sqrt 3 / 2)) = - (sqrt 3 / 2)"
proof -
  have b: "- pi \<le> - 2" "2 \<le> pi" "0 < sqrt 3" "sqrt 3 < 2"
    using pi_ge_two sqrt3_bounds by simp_all
  show "normalize_angle 0 = 0" by (rule normalize_angle_id) simp_all
  show "normalize_angle (sqrt 3 * 3 / 10) = sqrt 3 * 3 / 10"
    by (rule normalize_angle_id) (use b in linarith)+
  show "normalize_angle (- (sqrt 3 * 3 / 10)) = - (sqrt 3 * 3 / 10)"
    by (rule normalize_angle_id) (use b in linarith)+
  show "normalize_angle (sqrt 3 / 2) = sqrt 3 / 2"
    by (rule normalize_angle_id) (use b in linarith)+
  show "normalize_angle (- (sqrt 3 / 2)) = - (sqrt 3 / 2)"
    by (rule normalize_angle_id) (use b in linarith)+
qed

lemma ctor_weights_list:
  "ctor_weights = [- 4 / 3, 1 / 6, 1 / 6, 1 / 6, 1 / 6, 1 / 6, 1 / 6, 1 / 6,
                   1 / 6, 1 / 6, 1 / 6, 1 / 6, 1 / 6, 1 / 6, 1 / 6]"
  by (simp add: ctor_weights_eq eval_nat_numeral)

lemma predicted_mean_radar_initialized:
  "x_m (Prediction 1 radar_initialized_laser_off) = [1, 0, 0, 0, 0]"
  unfolding Prediction_constructed(2)[OF constructed_radar_initialized]
    predicted_sigma_radar_initialized ctor_weights_list
  by (simp add: weighted_sum_def upt_15 vadd_def smult_def vfill0_def radar_initialized_laser_off_def
       field_simps)

lemma predicted_cov_radar_initialized:
  "P_m (Prediction 1 radar_initialized_laser_off) =
     [[0.27, 0, 0.51, 0, 0],
      [0, 0.01, 0, 0, 0],
      [0.51, 0, 1.01, 0, 0],
      [0, 0, 0, 0.43, 0.59],
      [0, 0, 0, 0.59, 1.09]]"
  unfolding Prediction_constructed(3)[OF constructed_radar_initialized]
    predicted_mean_radar_initialized
    predicted_sigma_radar_initialized ctor_weights_list
  by (simp add: weighted_outer_def upt_15 vadd_def smult_def mfill0_def vfill0_def radar_initialized_laser_off_def
     state_diff_def normalize_at_def vsub_def normalize_angle_small madd_def msmult_def outer_def diag5_def)

lemma Prediction_writes:
  "Prediction dt s = s\<lparr> Xsig_pred_m := Xsig_pred_m (Prediction dt s),
                         x_m := x_m (Prediction dt s), P_m := P_m (Prediction dt s) \<rparr>"
  by (simp add: Prediction_def Let_def)

lemma Prediction_radar_initialized:
  "Prediction 1 radar_initialized_laser_off = radar_initialized_predicted"
  by (subst Prediction_writes)
    (simp only: Prediction_constructed(1)[OF constructed_radar_initialized]
       predicted_sigma_radar_initialized predicted_mean_radar_initialized
       predicted_cov_radar_initialized radar_initialized_predicted_def)

lemma constructed_radar_predicted: "constructed radar_initialized_predicted"
  by (simp add: constructed_def radar_initialized_predicted_def radar_initialized_laser_off_def
      example_raw_state_def UKF_new_def ctor_weights_def dims_def list_all_iff)

lemma lidar_Zsig_radar_predicted:
  "lidar_Zsig radar_initialized_predicted =
    [[1, 0], [1 + sqrt 3 / 10, 0], [1, sqrt 3 / 10], [1 + sqrt 3 / 10, 0],
     [1, 0], [1, 0], [1 + sqrt 3 / 2, 0], [1, 0], [1 - sqrt 3 / 10, 0],
     [1, - (sqrt 3 / 10)], [1 - sqrt 3 / 10, 0], [1, 0], [1, 0],
     [1 - sqrt 3 / 2, 0], [1, 0]]"
  by (simp add: lidar_Zsig_def radar_initialized_predicted_def radar_initialized_laser_off_def
      example_raw_state_def UKF_new_def upt_15)

lemma radar_predicted_fields:
  "weights_m radar_initialized_predicted = ctor_weights"
  "n_aug_m radar_initialized_predicted = 7"
  "n_x_m radar_initialized_predicted = 5"
  "std_laspx_m radar_initialized_predicted = 0.15"
  "std_laspy_m radar_initialized_predicted = 0.15"
  "x_m radar_initialized_predicted = [1, 0, 0, 0, 0]"
  "P_m radar_initialized_predicted =
     [[0.27, 0, 0.51, 0, 0],
      [0, 0.01, 0, 0, 0],
      [0.51, 0, 1.01, 0, 0],
      [0, 0, 0, 0.43, 0.59],
      [0, 0, 0, 0.59, 1.09]]"
  "Xsig_pred_m radar_initialized_predicted =
           [[1, 0, 0, 0, 0], [1 + sqrt 3 / 10, 0, 0, 0, 0],
            [1, sqrt 3 / 10, 0, 0, 0], [1 + sqrt 3 / 10, 0, sqrt 3 / 10, 0, 0],
            [1, 0, 0, sqrt 3 * 3 / 10, 0],
            [1, 0, 0, sqrt 3 * 3 / 10, sqrt 3 * 3 / 10],
            [1 + sqrt 3 / 2, 0, sqrt 3, 0, 0], [1, 0, 0, sqrt 3 / 2, sqrt 3],
            [1 - sqrt 3 / 10, 0, 0, 0, 0], [1, - (sqrt 3 / 10), 0, 0, 0],
            [1 - sqrt 3 / 10, 0, - (sqrt 3 / 10), 0, 0],
            [1, 0, 0, - (sqrt 3 * 3 / 10), 0],
            [1, 0, 0, - (sqrt 3 * 3 / 10), - (sqrt 3 * 3 / 10)],
            [1 - sqrt 3 / 2, 0, - sqrt 3, 0, 0],
            [1, 0, 0, - (sqrt 3 / 2), - sqrt 3]]"
  by (simp_all add: radar_initialized_predicted_def radar_initialized_laser_off_def
      example_raw_state_def UKF_new_def ctor_weights_def)

lemma lidar_z_pred_radar_predicted:
  "weighted_sum ctor_weights (\<lambda>i. lidar_Zsig radar_initialized_predicted ! i) 15 (replicate 2 0)
   = [1, 0]"
  unfolding lidar_Zsig_radar_predicted ctor_weights_list
  by (simp add: weighted_sum_def upt_15 vadd_def smult_def eval_nat_numeral field_simps)

lemma UpdateLidar_steps:
  assumes "weighted_sum (weights_m s) (\<lambda>i. lidar_Zsig s ! i) (2 * n_aug_m s + 1) (replicate 2 0) = z"
    and "madd (weighted_outer (weights_m s) (\<lambda>i. vsub (lidar_Zsig s ! i) z)
                 (\<lambda>i. vsub (lidar_Zsig s ! i) z) (2 * n_aug_m s + 1) (zero_mat 2 2))
              [[std_laspx_m s * std_laspx_m s, 0], [0, std_laspy_m s * std_laspy_m s]] = S"
    and "weighted_outer (weights_m s) (state_diff (Xsig_pred_m s) (x_m s))
           (\<lambda>i. vsub (lidar_Zsig s ! i) z) (2 * n_aug_m s + 1) (zero_mat (n_x_m s) 2) = Tc"
  shows "UpdateLidar m s = kalman_update m z S Tc s"
  using assms by (simp add: UpdateLidar_def Let_def)

lemma lidar_steps_radar_predicted:
  "weighted_sum (weights_m radar_initialized_predicted)
      (\<lambda>i. lidar_Zsig radar_initialized_predicted ! i)
      (2 * n_aug_m radar_initialized_predicted + 1) (replicate 2 0) = [1, 0]"
  "madd (weighted_outer (weights_m radar_initialized_predicted)
           (\<lambda>i. vsub (lidar_Zsig radar_initialized_predicted ! i) [1, 0])
           (\<lambda>i. vsub (lidar_Zsig radar_initialized_predicted ! i) [1, 0])
           (2 * n_aug_m radar_initialized_predicted + 1) (zero_mat 2 2))
        [[std_laspx_m radar_initialized_predicted * std_laspx_m radar_initialized_predicted, 0],
         [0, std_laspy_m radar_initialized_predicted * std_laspy_m radar_initialized_predicted]]
   = [[117 / 400, 0], [0, 13 / 400]]"
  "weighted_outer (weights_m radar_initialized_predicted)
     (state_diff (Xsig_pred_m radar_initialized_predicted) (x_m radar_initialized_predicted))
     (\<lambda>i. vsub (lidar_Zsig radar_initialized_predicted ! i) [1, 0])
     (2 * n_aug_m radar_initialized_predicted + 1) (zero_mat (n_x_m radar_initialized_predicted) 2)
   = [[27 / 100, 0, 51 / 100, 0, 0], [0, 1 / 100, 0, 0, 0]]"
  unfolding radar_predicted_fields lidar_Zsig_radar_predicted ctor_weights_list
  by (simp_all add: weighted_sum_def weighted_outer_def upt_15 vadd_def smult_def vsub_def
      madd_def msmult_def outer_def zero_mat_def eval_nat_numeral state_diff_def
      normalize_at_def normalize_angle_small field_simps)

lemma UpdateLidar_radar_predicted:
  "UpdateLidar \<lparr> timestamp_m = t, sensor_type_m = LASER, raw_measurements_m = [zx, zy] \<rparr>
     radar_initialized_predicted
   = Some (radar_initialized_predicted
      \<lparr>x_m := [1 + (zx * 12 - 12) / 13, normalize_angle zy * 4 / 13, (zx * 68 - 68) / 39, 0, 0],
       P_m := [[27 / 1300, 0, 51 / 1300, 0, 0], [0, 9 / 1300, 0, 0, 0],
               [51 / 1300, 0, 157 / 1300, 0, 0], [0, 0, 0, 43 / 100, 59 / 100],
               [0, 0, 0, 59 / 100, 109 / 100]]\<rparr>)"
  unfolding UpdateLidar_steps[OF lidar_steps_radar_predicted]
  unfolding kalman_update_def Let_def radar_predicted_fields
  by (simp add: mat_inverse_def det2_def inverse2_def el_def mat_mul_def mat_vec_def
      mat_rows_def mat_transpose_def msub_def innovation_def vadd_def smult_def vsub_def
      normalize_at_def upt_rec)

lemma predict_and_update_radar_initialized:
  "predict_and_update
     \<lparr> timestamp_m = 1001000, sensor_type_m = LASER, raw_measurements_m = [zx, zy] \<rparr>
     radar_initialized_laser_off
   = Some (radar_initialized_predicted
      \<lparr>x_m := [1 + (zx * 12 - 12) / 13, normalize_angle zy * 4 / 13, (zx * 68 - 68) / 39, 0, 0],
       P_m := [[27 / 1300, 0, 51 / 1300, 0, 0], [0, 9 / 1300, 0, 0, 0],
               [51 / 1300, 0, 157 / 1300, 0, 0], [0, 0, 0, 43 / 100, 59 / 100],
               [0, 0, 0, 59 / 100, 109 / 100]],
       time_us_m := 1001000\<rparr>)"
proof -
  have t: "time_us_m radar_initialized_laser_off = 1000"
    by (simp add: radar_initialized_laser_off_def)
  show ?thesis
    unfolding predict_and_update_def Let_def
    by (simp add: t Prediction_radar_initialized UpdateLidar_radar_predicted)
qed

lemma normalize_angle_4: "normalize_angle 4 = 4 - 2 * pi"
proof -
  have "sub_2pi 4 = sub_2pi (4 - 2 * pi)" using pi_less_4 by simp
  also have "\<dots> = 4 - 2 * pi" using pi_ge_two by simp
  finally have "sub_2pi 4 = 4 - 2 * pi" .
  moreover have "add_2pi (4 - 2 * pi) = 4 - 2 * pi" using pi_less_4 by simp
  ultimately show ?thesis by (simp add: normalize_angle_def)
qed

lemma quarter_turn_pos: "0 < quarter_turn"
  by (simp add: quarter_turn_def)

lemma sqrt3_quarter_turn: "sqrt 3 * quarter_turn = pi / 2"
  by (simp add: quarter_turn_def)

lemma sqrt_quarter_turn_sq: "sqrt (quarter_turn * quarter_turn) = quarter_turn"
  using quarter_turn_pos by simp

lemma constructed_broad_heading: "constructed broad_heading_state"
  by (simp add: constructed_def broad_heading_state_def example_raw_state_def UKF_new_def
      ctor_weights_def dims_def list_all_iff)

lemma aug_cov_broad_heading:
  "augmented_covariance broad_heading_state =
     [[1, 0, 0, quarter_turn, 0, 0, 0],
      [0, 1, 0, quarter_turn, 0, 0, 0],
      [0, 0, 1, quarter_turn, 0, 0, 0],
      [quarter_turn, quarter_turn, quarter_turn, 4 * (quarter_turn * quarter_turn), 0, 0, 0],
      [0, 0, 0, 0, 1 / 4000000, 0, 0],
      [0, 0, 0, 0, 0, 1, 0],
      [0, 0, 0, 0, 0, 0, 1]]"
  by (simp add: augmented_covariance_def broad_heading_state_def example_raw_state_def
      UKF_new_def eval_nat_numeral)

lemma sqrt_4millionth: "sqrt (1 / 4000000) = 1 / 2000"
  by (rule real_sqrt_unique) (simp_all add: power2_eq_square)

lemma llt_aug_broad_heading:
  "llt_matrixL (augmented_covariance broad_heading_state) =
    [[1, 0, 0, quarter_turn, 0, 0, 0], [0, 1, 0, quarter_turn, 0, 0, 0],
     [0, 0, 1, quarter_turn, 0, 0, 0], [0, 0, 0, quarter_turn, 0, 0, 0],
     [0, 0, 0, 0, 1 / 2000, 0, 0], [0, 0, 0, 0, 0, 1, 0],
     [0, 0, 0, 0, 0, 0, 1]]"
  unfolding aug_cov_broad_heading
  using quarter_turn_pos
  by (simp add: llt_matrixL_def eval_nat_numeral llt_pivot_def llt_col_def Let_def
      sqrt_4millionth sqrt_quarter_turn_sq nth_append upt_rec not_le zero_less_mult_iff)

lemma sqrt3_not_gt2: "\<not> 2 < sqrt 3"
  using sqrt3_bounds by linarith

lemma predicted_sigma_broad_heading:
  "predicted_sigma 1 broad_heading_state =
    [[3, 0, 3, 0, 0], [sqrt 3, 3, 3, pi / 2, 0],
     [0, sqrt 3 + 3, 3, pi / 2, 0], [0, 3 + sqrt 3, 3 + sqrt 3, pi / 2, 0],
     [0, 3, 3, pi / 2, 0], [3, 0, 3, sqrt 3 / 2000, sqrt 3 / 2000],
     [3 + sqrt 3 / 2, 0, 3 + sqrt 3, 0, 0], [3, 0, 3, sqrt 3 / 2, sqrt 3],
     [- sqrt 3, - 3, 3, - (pi / 2), 0], [0, - sqrt 3 - 3, 3, - (pi / 2), 0],
     [0, sqrt 3 - 3, 3 - sqrt 3, - (pi / 2), 0], [0, - 3, 3, - (pi / 2), 0],
     [3, 0, 3, - (sqrt 3 / 2000), - (sqrt 3 / 2000)],
     [3 - sqrt 3 / 2, 0, 3 - sqrt 3, 0, 0],
     [3, 0, 3, - (sqrt 3 / 2), - sqrt 3]]"
  unfolding predicted_sigma_def llt_aug_broad_heading
  by (simp add: sqrt3_conds sqrt3_not_gt2 upt_15 upt_7 sigma_points_def augmented_mean_def
      motion_model_def Let_def vadd_def vsub_def smult_def broad_heading_state_def
      sqrt3_quarter_turn)

lemma predicted_mean_broad_heading:
  "x_m (Prediction 1 broad_heading_state) = [- 1, sqrt 3 / 3, 3, 0, 0]"
  unfolding Prediction_constructed(2)[OF constructed_broad_heading]
    predicted_sigma_broad_heading ctor_weights_list
  by (simp add: weighted_sum_def upt_15 vadd_def smult_def vfill0_def broad_heading_state_def
       field_simps)

lemma sum_15_unroll:
  fixes f :: "nat \<Rightarrow> real"
  shows "(\<Sum>i<15. f i) = f 0 + f 1 + f 2 + f 3 + f 4 + f 5 + f 6 + f 7 + f 8 + f 9 + f 10
           + f 11 + f 12 + f 13 + f 14"
  by (simp add: eval_nat_numeral)

lemma predicted_variance_broad_heading:
  "P_m (Prediction 1 broad_heading_state) ! 0 ! 0 = - 11 / 4"
proof -
  let ?X = "predicted_sigma 1 broad_heading_state"
  let ?x = "x_m (Prediction 1 broad_heading_state)"
  have P5: "dims 5 5 (mfill0 (P_m broad_heading_state))"
    using constructed_broad_heading by (intro dims_mfill0) (simp add: constructed_def)
  have len: "\<And>i. i < 15 \<Longrightarrow> length (state_diff ?X ?x i) = 5 \<and> length (state_diff ?X ?x i) = 5"
    using Prediction_mean_length[OF constructed_broad_heading, of 1]
    by (simp add: state_diff_def predicted_sigma_nth predicted_sigma_def)
  have d0: "\<And>i. i < 15 \<Longrightarrow> state_diff ?X ?x i ! 0 = ?X ! i ! 0 + 1"
    using Prediction_mean_length[OF constructed_broad_heading, of 1]
    by (simp add: state_diff_def nth_normalize_at predicted_sigma_nth predicted_mean_broad_heading)
  have "P_m (Prediction 1 broad_heading_state) ! 0 ! 0
        = mfill0 (P_m broad_heading_state) ! 0 ! 0
          + (\<Sum>i<15. ctor_weights ! i * (state_diff ?X ?x i ! 0 * state_diff ?X ?x i ! 0))"
    unfolding Prediction_constructed(3)[OF constructed_broad_heading]
    using P5 len by (intro weighted_outer_nth[where r = 5 and c = 5]) simp_all
  also have "\<dots> = (\<Sum>i<15. ctor_weights ! i * ((?X ! i ! 0 + 1) * (?X ! i ! 0 + 1)))"
    using d0 by (simp add: mfill0_nth broad_heading_state_def)
  also have "\<dots> = - 11 / 4"
    unfolding sum_15_unroll predicted_sigma_broad_heading ctor_weights_list
    by (simp add: field_simps)
  finally show ?thesis .
qed

lemma Prediction_cov_dims: "constructed s \<Longrightarrow> dims 5 5 (P_m (Prediction dt s))"
proof -
  assume c: "constructed s"
  have M0: "dims 5 5 (mfill0 (P_m s))" using c by (intro dims_mfill0) (simp add: constructed_def)
  have len: "\<And>i. i < 15 \<Longrightarrow>
      length (state_diff (predicted_sigma dt s) (x_m (Prediction dt s)) i) = 5"
    using Prediction_mean_length[OF c]
    by (intro length_state_diff) (simp_all add: predicted_sigma_nth predicted_sigma_def)
  show ?thesis unfolding Prediction_constructed(3)[OF c]
    using M0 len by (intro weighted_outer_dims) simp_all
qed

lemma list5: "length v = 5 \<Longrightarrow> \<exists>a b c d e. v = [a, b, c, d, e]"
  by (auto simp: length_Suc_conv eval_nat_numeral)

lemma upt_5: "[0..<5] = [0, 1, 2, 3, 4]"
  by (simp add: upt_rec)

lemma quadratic_form_first_axis:
  assumes "dims 5 5 A"
  shows "dot [1, 0, 0, 0, 0] (mat_vec A [1, 0, 0, 0, 0]) = A ! 0 ! 0"
proof -
  have l: "length (mat_vec A [1, 0, 0, 0, 0]) = 5" using assms by (simp add: length_mat_vec)
  then obtain a b c d e where w: "mat_vec A [1, 0, 0, 0, 0] = [a, b, c, d, e]"
    using list5 by blast
  have "mat_vec A [1, 0, 0, 0, 0] ! 0 = (\<Sum>j<5. [1, 0, 0, 0, 0] ! j * A ! j ! 0)"
    using assms by (simp add: nth_mat_vec)
  also have "\<dots> = A ! 0 ! 0" by (simp add: eval_nat_numeral)
  finally have "a = A ! 0 ! 0" using w by simp
  then show ?thesis by (simp add: w dot_def)
qed

lemma broad_heading_pos_semidef: "pos_semidef (P_m broad_heading_state)"
  unfolding pos_semidef_def
proof (intro allI impI)
  fix v :: vec assume "length v = length (P_m broad_heading_state)"
  then have "length v = 5" by (simp add: broad_heading_state_def)
  then obtain a b d f g where v: "v = [a, b, d, f, g]" using list5 by blast
  let ?c = quarter_turn
  have "dot v (mat_vec (P_m broad_heading_state) v)
        = (a + ?c * f)\<^sup>2 + (b + ?c * f)\<^sup>2 + (d + ?c * f)\<^sup>2 + (?c * f)\<^sup>2 + (g / 2000)\<^sup>2"
    by (simp add: v broad_heading_state_def dot_def mat_vec_def mat_rows_def upt_5 vadd_def
        smult_def power2_eq_square algebra_simps)
  also have "0 \<le> \<dots>" by simp
  finally show "0 \<le> dot v (mat_vec (P_m broad_heading_state) v)" by simp
qed

lemma broad_heading_symmetric: "is_symmetric (P_m broad_heading_state)"
  by (simp add: is_symmetric_def broad_heading_state_def mat_transpose_def mat_rows_def upt_5)

lemma UpdateRadar_steps:
  assumes "radar_Zsig s = Some Z"
    and "weighted_sum (weights_m s) (\<lambda>i. Z ! i) (2 * n_aug_m s + 1) (replicate 3 0) = z"
    and "madd (weighted_outer (weights_m s) (meas_diff Z z) (meas_diff Z z)
                 (2 * n_aug_m s + 1) (zero_mat 3 3))
              [[std_radr_m s * std_radr_m s, 0, 0],
               [0, std_radphi_m s * std_radphi_m s, 0],
               [0, 0, std_radrd_m s * std_radrd_m s]] = S"
    and "weighted_outer (weights_m s) (state_diff (Xsig_pred_m s) (x_m s)) (meas_diff Z z)
           (2 * n_aug_m s + 1) (zero_mat (n_x_m s) 3) = Tc"
  shows "UpdateRadar m s = kalman_update m z S Tc s"
  using assms by (simp add: UpdateRadar_def Let_def)

lemma outlier_fields:
  "weights_m outlier_sigma_state = ctor_weights"
  "n_aug_m outlier_sigma_state = 7"
  "n_x_m outlier_sigma_state = 5"
  "std_radr_m outlier_sigma_state = 0.3"
  "std_radphi_m outlier_sigma_state = 0.03"
  "std_radrd_m outlier_sigma_state = 0.3"
  "x_m outlier_sigma_state = [1, 0, 0, 0, 0]"
  "P_m outlier_sigma_state = diag5 0.01 0.01 0.01 0.09 0.09"
  "lambda_m outlier_sigma_state = - 4"
  "Xsig_pred_m outlier_sigma_state =
           [[1, 0, 0, 0, 0], [2, 0, 1, 0, 0], [1, 0, 0, 0, 0], [1, 0, 0, 0, 0],
            [1, 0, 0, 0, 0], [1, 0, 0, 0, 0], [1, 0, 0, 0, 0], [1, 0, 0, 0, 0],
            [2, 0, - 1, 0, 0], [1, 0, 0, 0, 0], [1, 0, 0, 0, 0], [1, 0, 0, 0, 0],
            [1, 0, 0, 0, 0], [1, 0, 0, 0, 0], [1, 0, 0, 0, 0]]"
  by (simp_all add: outlier_sigma_state_def radar_initialized_laser_off_def
      example_raw_state_def UKF_new_def ctor_weights_def)

lemma constructed_outlier: "constructed outlier_sigma_state"
  by (simp add: constructed_def outlier_fields dims_def list_all_iff diag5_def)

lemma radar_Zsig_outlier:
  "radar_Zsig outlier_sigma_state = Some
     [[1, 0, 0], [2, 0, 1], [1, 0, 0], [1, 0, 0], [1, 0, 0], [1, 0, 0], [1, 0, 0], [1, 0, 0],
      [2, 0, - 1], [1, 0, 0], [1, 0, 0], [1, 0, 0], [1, 0, 0], [1, 0, 0], [1, 0, 0]]"
  unfolding radar_Zsig_def outlier_fields
  by (simp add: upt_15 radar_model_def atan2_def)

lemma radar_steps_outlier:
  "weighted_sum (weights_m outlier_sigma_state)
      (\<lambda>i. [[1, 0, 0], [2, 0, 1], [1, 0, 0], [1, 0, 0], [1, 0, 0], [1, 0, 0], [1, 0, 0], [1, 0, 0],
      [2, 0, - 1], [1, 0, 0], [1, 0, 0], [1, 0, 0], [1, 0, 0], [1, 0, 0], [1, 0, 0]] ! i)
      (2 * n_aug_m outlier_sigma_state + 1) (replicate 3 0) = [4 / 3, 0, 0]"
  "madd (weighted_outer (weights_m outlier_sigma_state)
           (meas_diff [[1, 0, 0], [2, 0, 1], [1, 0, 0], [1, 0, 0], [1, 0, 0], [1, 0, 0], [1, 0, 0], [1, 0, 0],
      [2, 0, - 1], [1, 0, 0], [1, 0, 0], [1, 0, 0], [1, 0, 0], [1, 0, 0], [1, 0, 0]] [4 / 3, 0, 0])
           (meas_diff [[1, 0, 0], [2, 0, 1], [1, 0, 0], [1, 0, 0], [1, 0, 0], [1, 0, 0], [1, 0, 0], [1, 0, 0],
      [2, 0, - 1], [1, 0, 0], [1, 0, 0], [1, 0, 0], [1, 0, 0], [1, 0, 0], [1, 0, 0]] [4 / 3, 0, 0])
           (2 * n_aug_m outlier_sigma_state + 1) (zero_mat 3 3))
        [[std_radr_m outlier_sigma_state * std_radr_m outlier_sigma_state, 0, 0],
         [0, std_radphi_m outlier_sigma_state * std_radphi_m outlier_sigma_state, 0],
         [0, 0, std_radrd_m outlier_sigma_state * std_radrd_m outlier_sigma_state]]
   = [[281 / 900, 0, 0], [0, 9 / 10000, 0], [0, 0, 127 / 300]]"
  "weighted_outer (weights_m outlier_sigma_state)
     (state_diff (Xsig_pred_m outlier_sigma_state) (x_m outlier_sigma_state))
     (meas_diff [[1, 0, 0], [2, 0, 1], [1, 0, 0], [1, 0, 0], [1, 0, 0], [1, 0, 0], [1, 0, 0], [1, 0, 0],
      [2, 0, - 1], [1, 0, 0], [1, 0, 0], [1, 0, 0], [1, 0, 0], [1, 0, 0], [1, 0, 0]] [4 / 3, 0, 0])
     (2 * n_aug_m outlier_sigma_state + 1) (zero_mat (n_x_m outlier_sigma_state) 3)
   = [[2 / 9, 0, 0, 0, 0], [0, 0, 0, 0, 0], [0, 0, 1 / 3, 0, 0]]"
  unfolding outlier_fields ctor_weights_list
  by (simp_all add: weighted_sum_def weighted_outer_def upt_15 vadd_def smult_def vsub_def
      madd_def msmult_def outer_def zero_mat_def eval_nat_numeral state_diff_def meas_diff_def
      normalize_at_def normalize_angle_small)

lemma normalize_angle_tenth: "normalize_angle (1 / 10) = 1 / 10"
  by (rule normalize_angle_id) (use pi_ge_two in linarith)+

lemma UpdateRadar_outlier:
  "UpdateRadar radar_later outlier_sigma_state =
    Some (outlier_sigma_state
      \<lparr>x_m := [703 / 843, 0, 20 / 127, 0, 0],
       P_m := [[- (37471 / 252900), 0, 0, 0, 0], [0, 1 / 100, 0, 0, 0],
               [0, 0, - (9619 / 38100), 0, 0], [0, 0, 0, 9 / 100, 0],
               [0, 0, 0, 0, 9 / 100]]\<rparr>)"
  unfolding UpdateRadar_steps[OF radar_Zsig_outlier radar_steps_outlier]
  unfolding kalman_update_def Let_def outlier_fields radar_later_def
  by (simp add: mat_inverse_def det3_def inverse3_def el_def mat_mul_def mat_vec_def
      mat_rows_def mat_transpose_def msub_def innovation_def vadd_def smult_def vsub_def
      normalize_at_def upt_rec diag5_def normalize_angle_tenth)

lemma symmetric_worked_inputs:
  "is_symmetric (P_m radar_initialized_predicted)"
  "is_symmetric (P_m outlier_sigma_state)"
  by (simp_all add: is_symmetric_def radar_predicted_fields outlier_fields mat_transpose_def
      mat_rows_def upt_5 diag5_def)

lemma constructed_Prediction: "constructed s \<Longrightarrow> constructed (Prediction dt s)"
proof -
  assume c: "constructed s"
  have f: "n_x_m (Prediction dt s) = n_x_m s" "n_aug_m (Prediction dt s) = n_aug_m s"
    "lambda_m (Prediction dt s) = lambda_m s" "weights_m (Prediction dt s) = weights_m s"
    by (simp_all add: Prediction_def Let_def)
  have X: "dims 5 15 (Xsig_pred_m (Prediction dt s))"
    unfolding Prediction_constructed(1)[OF c] by (rule predicted_sigma_dims)
  have "n_x_m s = 5" "n_aug_m s = 7" "lambda_m s = 3 - 7" "weights_m s = ctor_weights"
    using c by (simp_all add: constructed_def)
  then show ?thesis
    unfolding constructed_def f
    using Prediction_mean_length[OF c, of dt] Prediction_cov_dims[OF c, of dt] X
    by blast
qed

lemma predict_and_update_symmetric:
  assumes c: "constructed s" and u: "predict_and_update m s = Some s'"
  shows "is_symmetric (P_m s')"
proof -
  let ?dt = "real_of_int (timestamp_m m - time_us_m s) / 1000000.0"
  let ?s1 = "Prediction ?dt s"
  from u obtain s2 s3 where
    s2: "(if sensor_type_m m = LASER then UpdateLidar m ?s1 else Some ?s1) = Some s2"
    and s3: "(if sensor_type_m m = RADAR then UpdateRadar m s2 else Some s2) = Some s3"
    and s': "s' = s3\<lparr> time_us_m := timestamp_m m \<rparr>"
    unfolding predict_and_update_def Let_def by (auto split: option.splits)
  have c1: "constructed ?s1" using c by (rule constructed_Prediction)
  have y1: "is_symmetric (P_m ?s1)" using c by (rule Prediction_symmetric)
  show ?thesis
  proof (cases "sensor_type_m m")
    case LASER
    then have "UpdateLidar m ?s1 = Some s2" "s3 = s2" using s2 s3 by simp_all
    then show ?thesis using UpdateLidar_symmetric[OF c1 y1] s' by simp
  next
    case RADAR
    then have "s2 = ?s1" "UpdateRadar m ?s1 = Some s3" using s2 s3 by simp_all
    then show ?thesis using UpdateRadar_symmetric[OF c1 y1] s' by simp
  qed
qed

section \<open>What no call writes\<close>

lemma kalman_update_config: "kalman_update m z S Tc s = Some s' \<Longrightarrow> config s' = config s"
  by (auto simp: kalman_update_def Let_def config_def split: option.splits if_splits)

lemma UpdateLidar_config: "UpdateLidar m s = Some s' \<Longrightarrow> config s' = config s"
  unfolding UpdateLidar_def Let_def by (rule kalman_update_config)

lemma UpdateRadar_config: "UpdateRadar m s = Some s' \<Longrightarrow> config s' = config s"
  unfolding UpdateRadar_def Let_def
  by (cases "radar_Zsig s") (auto dest: kalman_update_config)

lemma Prediction_config: "config (Prediction dt s) = config s"
  by (simp add: Prediction_def Let_def config_def)

lemma initialize_config: "initialize m s = Some s' \<Longrightarrow> config s' = config s"
  by (auto simp: initialize_def init_laser_def init_radar_def Let_def config_def
      split: option.splits if_splits)

lemma predict_and_update_config: "predict_and_update m s = Some s' \<Longrightarrow> config s' = config s"
proof -
  assume a: "predict_and_update m s = Some s'"
  let ?dt = "real_of_int (timestamp_m m - time_us_m s) / 1000000.0"
  from a obtain s2 s3 where
    s2: "(if sensor_type_m m = LASER then UpdateLidar m (Prediction ?dt s)
          else Some (Prediction ?dt s)) = Some s2"
    and s3: "(if sensor_type_m m = RADAR then UpdateRadar m s2 else Some s2) = Some s3"
    and s': "s' = s3\<lparr> time_us_m := timestamp_m m \<rparr>"
    unfolding predict_and_update_def Let_def by (auto split: option.splits)
  have "config s2 = config (Prediction ?dt s)"
    using s2 UpdateLidar_config by (auto split: if_splits)
  moreover have "config s3 = config s2" using s3 UpdateRadar_config by (auto split: if_splits)
  moreover have "config s' = config s3" by (simp add: s' config_def)
  ultimately show ?thesis by (simp add: Prediction_config)
qed

lemma ProcessMeasurement_config:
  "ProcessMeasurement m s = Some s' \<Longrightarrow> config s' = config s"
  unfolding ProcessMeasurement_def
  by (auto dest: initialize_config predict_and_update_config split: if_splits)

section \<open>The inverse of the model is the inverse\<close>

text \<open>
  For every 2 by 2 and every 3 by 3 matrix with a determinant other than zero, the matrix
  times \<open>inverse2\<close> or \<open>inverse3\<close> of it is the identity.
\<close>

lemma upt_2: "[0..<2] = [0, 1]"
  by (simp add: upt_rec)

lemma upt_3: "[0..<3] = [0, 1, 2]"
  by (simp add: upt_rec)

lemma inverse2_right:
  assumes "det2 [[a, b], [c, d]] \<noteq> 0"
  shows "mat_mul [[a, b], [c, d]] (inverse2 [[a, b], [c, d]]) = [[1, 0], [0, 1]]"
proof -
  have n: "a * d - c * b \<noteq> 0" using assms by (simp add: det2_def el_def)
  have 1: "a * d / (a * d - c * b) - c * b / (a * d - c * b) = 1"
    using n by (simp add: diff_divide_distrib[symmetric])
  have 2: "c * b / (a * d - c * b) - a * d / (a * d - c * b) = - 1"
    using n by (simp add: diff_divide_distrib[symmetric] minus_divide_left[symmetric] divide_eq_minus_1_iff)
  show ?thesis
    using 1 2
    by (simp add: mat_mul_def mat_vec_def mat_rows_def inverse2_def det2_def el_def upt_2
        vadd_def smult_def algebra_simps)
qed

lemma inverse3_right:
  assumes "det3 [[a, b, c], [d, e, f], [g, h, i]] \<noteq> 0"
  shows "mat_mul [[a, b, c], [d, e, f], [g, h, i]] (inverse3 [[a, b, c], [d, e, f], [g, h, i]])
         = [[1, 0, 0], [0, 1, 0], [0, 0, 1]]"
proof -
  define D where "D = det3 [[a, b, c], [d, e, f], [g, h, i]]"
  have D0: "D \<noteq> 0" using assms by (simp add: D_def)
  have D: "D = a * (e * i - f * h) - d * (b * i - c * h) + g * (b * f - c * e)"
    by (simp add: D_def det3_def el_def algebra_simps)
  have inv: "inverse3 [[a, b, c], [d, e, f], [g, h, i]] =
     [[(e * i - f * h) / D, (c * h - b * i) / D, (b * f - c * e) / D],
      [(f * g - d * i) / D, (a * i - c * g) / D, (c * d - a * f) / D],
      [(d * h - e * g) / D, (b * g - a * h) / D, (a * e - b * d) / D]]"
    by (simp add: inverse3_def D_def[symmetric] el_def mult.commute)
  have e1: "(e * i - f * h) * a + (c * h - b * i) * d + (b * f - c * e) * g = D"
    and e2: "(e * i - f * h) * b + (c * h - b * i) * e + (b * f - c * e) * h = 0"
    and e3: "(e * i - f * h) * c + (c * h - b * i) * f + (b * f - c * e) * i = 0"
    and e4: "(f * g - d * i) * a + (a * i - c * g) * d + (c * d - a * f) * g = 0"
    and e5: "(f * g - d * i) * b + (a * i - c * g) * e + (c * d - a * f) * h = D"
    and e6: "(f * g - d * i) * c + (a * i - c * g) * f + (c * d - a * f) * i = 0"
    and e7: "(d * h - e * g) * a + (b * g - a * h) * d + (a * e - b * d) * g = 0"
    and e8: "(d * h - e * g) * b + (b * g - a * h) * e + (a * e - b * d) * h = 0"
    and e9: "(d * h - e * g) * c + (b * g - a * h) * f + (a * e - b * d) * i = D"
    unfolding D by (simp_all add: algebra_simps)
  have q: "\<And>x y z. x / D + y / D + z / D = (x + y + z) / D"
    by (simp add: add_divide_distrib)
  show ?thesis
    unfolding inv
    by (simp add: mat_mul_def mat_vec_def mat_rows_def upt_3 vadd_def smult_def q
        e1 e2 e3 e4 e5 e6 e7 e8 e9 D0)
qed

section \<open>Rounding to the nearest double\<close>

text \<open>
  The integer that \<open>round_even\<close> picks is within a half of its argument, and no integer
  lies strictly between the two; so \<open>fl x\<close> is within half a spacing of \<open>x\<close>, and never
  crosses a multiple of the spacing that \<open>x\<close> has not crossed.
\<close>

lemma round_even_err: "\<bar>of_int (round_even y) - y\<bar> \<le> 1 / 2"
  unfolding round_even_def Let_def by (auto; linarith)

lemma round_even_ge: "of_int k \<le> y \<Longrightarrow> k \<le> round_even y"
  unfolding round_even_def Let_def by (auto simp: le_floor_iff; linarith)

lemma round_even_le: "y \<le> of_int k \<Longrightarrow> round_even y \<le> k"
proof -
  assume a: "y \<le> of_int k"
  have f: "\<lfloor>y\<rfloor> \<le> k" using a by (simp add: floor_le_iff)
  show ?thesis
  proof (cases "\<lfloor>y\<rfloor> = k")
    case True
    then have "y = of_int k" using a by linarith
    then show ?thesis by (simp add: round_even_def)
  next
    case False
    then have "\<lfloor>y\<rfloor> + 1 \<le> k" using f by simp
    then show ?thesis unfolding round_even_def Let_def by auto
  qed
qed

lemma round_even_of_int: "round_even (of_int k) = k"
  by (simp add: round_even_def)

lemma round_even_eqI: "\<bar>y - of_int n\<bar> < 1 / 2 \<Longrightarrow> round_even y = n"
proof -
  assume a: "\<bar>y - of_int n\<bar> < 1 / 2"
  have e: "\<bar>of_int (round_even y) - y\<bar> \<le> 1 / 2" by (rule round_even_err)
  have "\<bar>(of_int (round_even y) :: real) - of_int n\<bar> < 1" using a e by linarith
  then have "\<bar>round_even y - n\<bar> < 1" by (metis of_int_diff of_int_abs of_int_less_1_iff)
  then show ?thesis by simp
qed

lemma round_even_minus: "round_even (- y) = - round_even y"
proof (cases "y = of_int \<lfloor>y\<rfloor>")
  case True
  then obtain k :: int where "y = of_int k" ..
  then have "- y = of_int (- k)" by simp
  then show ?thesis using \<open>y = of_int k\<close> round_even_of_int by metis
next
  case False
  then have c: "\<lfloor>- y\<rfloor> = - \<lfloor>y\<rfloor> - 1" by (simp add: floor_minus ceiling_altdef)
  show ?thesis unfolding round_even_def Let_def c using False by (auto; linarith?)
qed

lemma ulp_pos: "0 < ulp x"
  by (simp add: ulp_def)

lemma fl_err: "\<bar>fl x - x\<bar> \<le> ulp x / 2"
proof -
  have "\<bar>of_int (round_even (x / ulp x)) - x / ulp x\<bar> \<le> 1 / 2" by (rule round_even_err)
  then have "\<bar>of_int (round_even (x / ulp x)) - x / ulp x\<bar> * ulp x \<le> 1 / 2 * ulp x"
    using ulp_pos[of x] by (intro mult_right_mono) simp_all
  moreover have "\<bar>of_int (round_even (x / ulp x)) - x / ulp x\<bar> * ulp x
                 = \<bar>(of_int (round_even (x / ulp x)) - x / ulp x) * ulp x\<bar>"
    using ulp_pos[of x] by (simp add: abs_mult)
  moreover have "(of_int (round_even (x / ulp x)) - x / ulp x) * ulp x = fl x - x"
    using ulp_pos[of x] by (simp add: fl_def algebra_simps)
  ultimately show ?thesis by simp
qed

lemma fl_ge_grid: "d = of_int K * ulp x \<Longrightarrow> d \<le> x \<Longrightarrow> d \<le> fl x"
proof -
  assume d: "d = of_int K * ulp x" and le: "d \<le> x"
  have "of_int K \<le> x / ulp x" using d le ulp_pos[of x] by (simp add: field_simps)
  then have "K \<le> round_even (x / ulp x)" by (rule round_even_ge)
  then have "of_int K * ulp x \<le> of_int (round_even (x / ulp x)) * ulp x"
    using ulp_pos[of x] by (intro mult_right_mono) simp_all
  then show ?thesis using d by (simp add: fl_def)
qed

lemma fl_le_grid: "d = of_int K * ulp x \<Longrightarrow> x \<le> d \<Longrightarrow> fl x \<le> d"
proof -
  assume d: "d = of_int K * ulp x" and le: "x \<le> d"
  have "x / ulp x \<le> of_int K" using d le ulp_pos[of x] by (simp add: field_simps)
  then have "round_even (x / ulp x) \<le> K" by (rule round_even_le)
  then have "of_int (round_even (x / ulp x)) * ulp x \<le> of_int K * ulp x"
    using ulp_pos[of x] by (intro mult_right_mono) simp_all
  then show ?thesis using d by (simp add: fl_def)
qed

lemma binade_minus: "binade (- x) = binade x"
  by (simp add: binade_def)

lemma fl_minus: "fl (- x) = - fl x"
  by (simp add: fl_def ulp_def binade_minus round_even_minus)

lemma binade_eqI:
  "2 powi e \<le> \<bar>x\<bar> \<Longrightarrow> \<bar>x\<bar> < 2 powi (e + 1) \<Longrightarrow> - 1022 \<le> e \<Longrightarrow> binade x = e"
proof -
  assume a: "2 powi e \<le> \<bar>x\<bar>" and b: "\<bar>x\<bar> < 2 powi (e + 1)" and c: "- 1022 \<le> e"
  have z: "(0::real) < 2 powi e" by simp
  have p: "0 < \<bar>x\<bar>" using a z by linarith
  have p1: "(2::real) powr real_of_int e = 2 powi e" by (rule powr_real_of_int') simp_all
  have p2: "(2::real) powr (real_of_int e + 1) = 2 powi (e + 1)"
    using powr_real_of_int'[of "2::real" "e + 1"] by simp
  have "\<lfloor>log 2 \<bar>x\<bar>\<rfloor> = e"
    using a b p by (subst floor_log_eq_powr_iff) (simp_all add: p1 p2)
  then show ?thesis using c by (simp add: binade_def)
qed

lemma binade_le:
  "\<bar>x\<bar> < 2 powi (e + 1) \<Longrightarrow> 0 \<le> e \<Longrightarrow> binade x \<le> e"
proof (cases "x = 0")
  case True
  assume "0 \<le> e"
  then show ?thesis using True by (simp add: binade_def log_def)
next
  case False
  assume b: "\<bar>x\<bar> < 2 powi (e + 1)" and c: "0 \<le> e"
  have p: "0 < \<bar>x\<bar>" using False by simp
  have p2: "(2::real) powr real_of_int (e + 1) = 2 powi (e + 1)"
    by (rule powr_real_of_int') simp_all
  have "\<bar>x\<bar> < 2 powr real_of_int (e + 1)" using b p2 by simp
  then have "log 2 \<bar>x\<bar> < real_of_int (e + 1)" using p by (simp add: less_powr_iff)
  then have "\<lfloor>log 2 \<bar>x\<bar>\<rfloor> < e + 1" unfolding floor_less_iff .
  then show ?thesis using c by (simp add: binade_def)
qed

lemma binade_ge: "- 1022 \<le> binade x"
  by (simp add: binade_def)

lemma fl_eqI:
  "2 powi e \<le> \<bar>x\<bar> \<Longrightarrow> \<bar>x\<bar> < 2 powi (e + 1) \<Longrightarrow> - 1022 \<le> e
   \<Longrightarrow> \<bar>x / 2 powi (e - 52) - of_int n\<bar> < 1 / 2 \<Longrightarrow> r = of_int n * 2 powi (e - 52) \<Longrightarrow> fl x = r"
  by (simp add: fl_def ulp_def binade_eqI round_even_eqI)

lemma fl_exactI:
  "2 powi e \<le> \<bar>x\<bar> \<Longrightarrow> \<bar>x\<bar> < 2 powi (e + 1) \<Longrightarrow> - 1022 \<le> e
   \<Longrightarrow> x / 2 powi (e - 52) = of_int n \<Longrightarrow> fl x = x"
proof -
  assume a: "2 powi e \<le> \<bar>x\<bar>" "\<bar>x\<bar> < 2 powi (e + 1)" "- 1022 \<le> e"
    and n: "x / 2 powi (e - 52) = of_int n"
  have u: "ulp x = 2 powi (e - 52)" using a by (simp add: ulp_def binade_eqI)
  have "fl x = of_int n * 2 powi (e - 52)" by (simp add: fl_def u n round_even_of_int)
  also have "\<dots> = x" using n by (simp add: field_simps)
  finally show ?thesis .
qed

lemma fl_0: "fl 0 = 0"
  by (simp add: fl_def round_even_def)

lemma fl_evalI:
  "2 powi e \<le> \<bar>x\<bar> \<Longrightarrow> \<bar>x\<bar> < 2 powi (e + 1) \<Longrightarrow> - 1022 \<le> e
   \<Longrightarrow> round_even (x / 2 powi (e - 52)) = n \<Longrightarrow> r = of_int n * 2 powi (e - 52) \<Longrightarrow> fl x = r"
  by (simp add: fl_def ulp_def binade_eqI)

lemma fl_sqrtI:
  assumes q: "0 \<le> q"
    and lo: "((of_int n - 1 / 2) * 2 powi (e - 52))\<^sup>2 < q"
    and hi: "q < ((of_int n + 1 / 2) * 2 powi (e - 52))\<^sup>2"
    and n: "1 \<le> n"
    and e1: "(2::real) powi e \<le> (of_int n - 1 / 2) * 2 powi (e - 52)"
    and e2: "(of_int n + 1 / 2) * 2 powi (e - 52) \<le> (2::real) powi (e + 1)"
    and e: "- 1022 \<le> e"
    and r: "r = of_int n * 2 powi (e - 52)"
  shows "fl (sqrt q) = r"
proof -
  let ?u = "2 powi (e - 52) :: real"
  have u: "0 < ?u" by simp
  have n': "(1::real) \<le> of_int n" using n by simp
  have lo0: "0 \<le> (of_int n - 1 / 2) * ?u" using n' u by (intro mult_nonneg_nonneg) simp_all
  have hi0: "0 \<le> (of_int n + 1 / 2) * ?u" using n' u by (intro mult_nonneg_nonneg) simp_all
  have l: "(of_int n - 1 / 2) * ?u < sqrt q" using lo by (rule real_less_rsqrt)
  have h: "sqrt q < (of_int n + 1 / 2) * ?u" using hi0 hi by (intro real_less_lsqrt) simp_all
  have s0: "0 \<le> sqrt q" using q by simp
  have a: "2 powi e \<le> \<bar>sqrt q\<bar>" using l e1 s0 by linarith
  have b: "\<bar>sqrt q\<bar> < 2 powi (e + 1)" using h e2 s0 by linarith
  have "of_int n - 1 / 2 < sqrt q / ?u" using l u by (simp add: field_simps)
  moreover have "sqrt q / ?u < of_int n + 1 / 2" using h u by (simp add: field_simps)
  ultimately have c: "\<bar>sqrt q / ?u - of_int n\<bar> < 1 / 2" by linarith
  show ?thesis using a b e c r by (rule fl_eqI)
qed

section \<open>The normalisation loops on doubles\<close>

text \<open>
  \<open>M_PI\<close> and \<open>2 * M_PI\<close> are doubles, and so is \<open>10 ^ 17\<close>, where the doubles are \<open>16\<close>
  apart: subtracting \<open>2 * M_PI\<close> from it rounds back to \<open>10 ^ 17\<close>, and the first loop
  cannot leave.
\<close>

lemma fl_M_PI: "fl M_PI = M_PI"
  by (rule fl_exactI[where e = 1 and n = 7074237752028440]) (simp_all add: M_PI_def)

lemma fl_two_M_PI: "fl (2 * M_PI) = 2 * M_PI"
  by (rule fl_exactI[where e = 2 and n = 7074237752028440]) (simp_all add: M_PI_def)

lemma fl_1e17: "fl (10 ^ 17) = 10 ^ 17"
  by (rule fl_exactI[where e = 56 and n = 6250000000000000]) simp_all

lemma fl_1e17_sub: "fl (10 ^ 17 - 2 * M_PI) = 10 ^ 17"
  by (rule fl_eqI[where e = 56 and n = 6250000000000000]) (simp_all add: M_PI_def)

lemma sub_2pi_double_1e17:
  assumes "sub_2pi_double a = Some y"
  shows "a \<noteq> 10 ^ 17"
proof (rule sub_2pi_double.raw_induct[where P = "\<lambda>a y. a \<noteq> 10 ^ 17", OF _ assms])
  fix sub :: "real \<Rightarrow> real option" and a y :: real
  assume IH: "\<And>x y. sub x = Some y \<Longrightarrow> x \<noteq> 10 ^ 17"
    and body: "(if M_PI < a then sub (fl (a - 2 * M_PI)) else Some a) = Some y"
  show "a \<noteq> 10 ^ 17"
  proof
    assume a: "a = 10 ^ 17"
    then have "M_PI < a" by (simp add: M_PI_def)
    then have "sub (fl (a - 2 * M_PI)) = Some y" using body by simp
    then have "sub a = Some y" unfolding a fl_1e17_sub .
    then have "a \<noteq> 10 ^ 17" by (rule IH)
    then show False using a by simp
  qed
qed

lemma M_PI_grid: "binade x \<le> 1 \<Longrightarrow> \<exists>K. M_PI = of_int K * ulp x"
proof -
  assume b: "binade x \<le> 1"
  let ?K = "7074237752028440 * 2 ^ nat (1 - binade x) :: int"
  have "(2::real) ^ nat (1 - binade x) = 2 powi (1 - binade x)"
    using b by (simp add: power_int_def)
  then have "of_int ?K * ulp x = 7074237752028440 * (2 powi (1 - binade x) * 2 powi (binade x - 52))"
    by (simp add: ulp_def)
  also have "2 powi (1 - binade x) * 2 powi (binade x - 52) = (2::real) powi (- 51)"
    by (simp flip: power_int_add)
  also have "7074237752028440 * (2::real) powi (- 51) = M_PI"
    by (simp add: M_PI_def power_int_minus)
  finally show ?thesis by metis
qed

lemma ulp_le: "\<bar>x\<bar> < 2 powi (e + 1) \<Longrightarrow> 0 \<le> e \<Longrightarrow> ulp x \<le> 2 powi (e - 52)"
  unfolding ulp_def by (intro power_int_increasing) (simp_all add: binade_le)

lemma fl_nonneg: "0 \<le> x \<Longrightarrow> 0 \<le> fl x"
  by (rule fl_ge_grid[where K = 0]) simp_all

lemma fl_nonpos: "x \<le> 0 \<Longrightarrow> fl x \<le> 0"
  by (rule fl_le_grid[where K = 0]) simp_all

lemma fl_ge_minus_M_PI: "- M_PI \<le> x \<Longrightarrow> - M_PI \<le> fl x"
proof (cases "0 \<le> x")
  case True
  then have "0 \<le> fl x" by (rule fl_nonneg)
  then show ?thesis by (simp add: M_PI_def)
next
  case False
  assume m: "- M_PI \<le> x"
  have "\<bar>x\<bar> < 2 powi (1 + 1)" using False m by (simp add: M_PI_def)
  then have "binade x \<le> 1" by (rule binade_le) simp
  then obtain K where K: "M_PI = of_int K * ulp x" using M_PI_grid by blast
  then have "- M_PI = of_int (- K) * ulp x" by simp
  then show ?thesis using m by (rule fl_ge_grid)
qed

lemma fl_le_M_PI: "x \<le> M_PI \<Longrightarrow> fl x \<le> M_PI"
proof (cases "x \<le> 0")
  case True
  then have "fl x \<le> 0" by (rule fl_nonpos)
  then show ?thesis by (simp add: M_PI_def)
next
  case False
  assume m: "x \<le> M_PI"
  have "\<bar>x\<bar> < 2 powi (1 + 1)" using False m by (simp add: M_PI_def)
  then have "binade x \<le> 1" by (rule binade_le) simp
  then obtain K where K: "M_PI = of_int K * ulp x" using M_PI_grid by blast
  then show ?thesis using m by (rule fl_le_grid)
qed

lemma fl_step_err: "\<bar>x\<bar> < 2 ^ 56 \<Longrightarrow> \<bar>fl x - x\<bar> \<le> 4"
proof -
  assume "\<bar>x\<bar> < 2 ^ 56"
  then have "\<bar>x\<bar> < 2 powi (55 + 1)" by simp
  then have "ulp x \<le> 2 powi (55 - 52)" by (rule ulp_le) simp
  then have "ulp x \<le> 8" by simp
  moreover have "\<bar>fl x - x\<bar> \<le> ulp x / 2" by (rule fl_err)
  ultimately show ?thesis by simp
qed

lemma sub_2pi_double_returns:
  "a \<le> 2 ^ 56 \<Longrightarrow>
   \<exists>r. sub_2pi_double a = Some r \<and> r \<le> M_PI \<and> (if M_PI < a then - M_PI \<le> r else r = a)"
proof (induction "nat \<lceil>a\<rceil>" arbitrary: a rule: less_induct)
  case less
  show ?case
  proof (cases "M_PI < a")
    case False
    then have "sub_2pi_double a = Some a" by (subst sub_2pi_double.simps) simp
    then show ?thesis using False by simp
  next
    case True
    let ?x = "a - 2 * M_PI"
    have xb: "\<bar>?x\<bar> < 2 ^ 56" using True less.prems by (simp add: M_PI_def abs_if)
    have e: "\<bar>fl ?x - ?x\<bar> \<le> 4" using xb by (rule fl_step_err)
    have d: "fl ?x \<le> a - 1" using e by (simp add: M_PI_def abs_if split: if_splits)
    have lo: "- M_PI \<le> fl ?x" using True by (intro fl_ge_minus_M_PI) simp
    have "\<lceil>fl ?x\<rceil> \<le> \<lceil>a - 1\<rceil>" using d by (rule ceiling_mono)
    moreover have "0 < a" using True by (simp add: M_PI_def)
    then have "0 < \<lceil>a\<rceil>" by (simp add: less_ceiling_iff)
    ultimately have m: "nat \<lceil>fl ?x\<rceil> < nat \<lceil>a\<rceil>" by simp
    have b: "fl ?x \<le> 2 ^ 56" using d less.prems by simp
    from less.hyps[OF m b] obtain r where r: "sub_2pi_double (fl ?x) = Some r" "r \<le> M_PI"
      "if M_PI < fl ?x then - M_PI \<le> r else r = fl ?x" by blast
    have "sub_2pi_double a = Some r" using True r(1) by (subst sub_2pi_double.simps) simp
    moreover have "- M_PI \<le> r" using r(3) lo by (simp split: if_splits)
    ultimately show ?thesis using True r(2) by simp
  qed
qed

lemma add_2pi_double_returns:
  "- (2 ^ 56) \<le> a \<Longrightarrow> a \<le> M_PI \<Longrightarrow>
   \<exists>r. add_2pi_double a = Some r \<and> - M_PI \<le> r \<and> r \<le> M_PI"
proof (induction "nat \<lceil>- a\<rceil>" arbitrary: a rule: less_induct)
  case less
  show ?case
  proof (cases "a < - M_PI")
    case False
    then have "add_2pi_double a = Some a" by (subst add_2pi_double.simps) simp
    then show ?thesis using False less.prems by simp
  next
    case True
    let ?x = "a + 2 * M_PI"
    have xb: "\<bar>?x\<bar> < 2 ^ 56" using True less.prems by (simp add: M_PI_def abs_if)
    have e: "\<bar>fl ?x - ?x\<bar> \<le> 4" using xb by (rule fl_step_err)
    have d: "a + 1 \<le> fl ?x" using e by (simp add: M_PI_def abs_if split: if_splits)
    have hi: "fl ?x \<le> M_PI" using True by (intro fl_le_M_PI) simp
    have "\<lceil>- fl ?x\<rceil> \<le> \<lceil>- a - 1\<rceil>" using d by (intro ceiling_mono) simp
    moreover have "0 < - a" using True by (simp add: M_PI_def)
    then have "0 < \<lceil>- a\<rceil>" by (simp add: less_ceiling_iff)
    ultimately have m: "nat \<lceil>- fl ?x\<rceil> < nat \<lceil>- a\<rceil>" by simp
    have b: "- (2 ^ 56) \<le> fl ?x" using d less.prems by simp
    from less.hyps[OF m b hi] obtain r where r: "add_2pi_double (fl ?x) = Some r"
      "- M_PI \<le> r" "r \<le> M_PI" by blast
    have "add_2pi_double a = Some r" using True r(1) by (subst add_2pi_double.simps) simp
    then show ?thesis using r by simp
  qed
qed

text \<open>
  The same holds at every double above \<open>2 ^ 56\<close>: the doubles are at least \<open>16\<close> apart
  there, more than twice \<open>2 * M_PI\<close>, so the bound of the theorem on the loops cannot be
  raised.
\<close>

lemma two_powi_add: "(2::real) powi (i + j) = 2 powi i * 2 powi j"
  by (rule power_int_add) simp

lemma fl_sub_two_M_PI_stuck:
  assumes d: "fl a = a" and big: "2 ^ 56 < a"
  shows "fl (a - 2 * M_PI) = a"
proof -
  define b where "b = binade a"
  define u where "u = ulp a"
  define n where "n = round_even (a / u)"
  define c where "c = 2 * M_PI"
  have c: "0 < c" "c < 8" by (simp_all add: c_def M_PI_def)
  have a0: "0 < a" using big by (smt (verit) zero_less_power)
  have lg: "\<lfloor>log 2 \<bar>a\<bar>\<rfloor> = \<lfloor>log 2 a\<rfloor>" using a0 by simp
  have "(2::real) powr 56 < a" using big by simp
  then have "56 < log 2 a" using a0 by (simp add: less_log_iff)
  then have b56: "56 \<le> b" unfolding b_def binade_def lg by (simp add: le_floor_iff)
  have bl: "b = \<lfloor>log 2 a\<rfloor>" using b56 unfolding b_def binade_def lg by simp
  have p1: "(2::real) powr real_of_int b = 2 powi b" by (rule powr_real_of_int') simp_all
  have p2: "(2::real) powr (real_of_int b + 1) = 2 powi (b + 1)"
    using powr_real_of_int'[of "2::real" "b + 1"] by simp
  have "2 powr real_of_int b \<le> a \<and> a < 2 powr (real_of_int b + 1)"
    using floor_log_eq_powr_iff[of a 2 b] a0 bl by simp
  then have ab: "2 powi b \<le> a" "a < 2 powi (b + 1)" using p1 p2 by simp_all
  have u: "u = 2 powi (b - 52)" by (simp add: u_def ulp_def b_def)
  have u16: "16 \<le> u"
  proof -
    have "(2::real) powi 4 \<le> 2 powi (b - 52)" using b56 by (intro power_int_increasing) simp_all
    then show ?thesis using u by simp
  qed
  have an: "a = of_int n * u" using d by (simp add: fl_def n_def u_def)
  have pb: "(2::real) powi b = 2 ^ 52 * u"
  proof -
    have "(2::real) powi b = 2 powi 52 * 2 powi (b - 52)" using two_powi_add[of 52 "b - 52"] by simp
    then show ?thesis using u by simp
  qed
  have pb1: "(2::real) powi (b + 1) = 2 ^ 53 * u"
  proof -
    have "(2::real) powi (b + 1) = 2 powi 53 * 2 powi (b - 52)"
      using two_powi_add[of 53 "b - 52"] by (simp add: algebra_simps)
    then show ?thesis using u by simp
  qed
  have n52: "2 ^ 52 \<le> n"
  proof -
    have "2 ^ 52 * u \<le> of_int n * u" using ab(1) pb an by simp
    then have "(2::real) ^ 52 \<le> of_int n" using u16 by simp
    then have "(of_int (2 ^ 52) :: real) \<le> of_int n" by simp
    then show ?thesis unfolding of_int_le_iff .
  qed
  show ?thesis
  proof (cases "n = 2 ^ 52")
    case False
    then have "2 ^ 52 + 1 \<le> n" using n52 by simp
    then have "(of_int (2 ^ 52 + 1) :: real) \<le> of_int n" unfolding of_int_le_iff .
    then have n1: "(2::real) ^ 52 + 1 \<le> of_int n" by simp
    have "(2 ^ 52 + 1) * u \<le> of_int n * u" using n1 u16 by (intro mult_right_mono) simp_all
    then have "2 ^ 52 * u + u \<le> a" using an by (simp add: algebra_simps)
    then have ac: "2 ^ 52 * u \<le> a - c" using c u16 by linarith
    then have ac0: "0 \<le> a - c" using u16 by (smt (verit) mult_nonneg_nonneg zero_le_power)
    have lo: "2 powi b \<le> \<bar>a - c\<bar>" using ac ac0 pb by simp
    have hi: "\<bar>a - c\<bar> < 2 powi (b + 1)" using ab(2) c ac0 by simp
    have "\<bar>(a - c) / 2 powi (b - 52) - of_int n\<bar> = c / u"
      using an u u16 c by (simp add: field_simps)
    moreover have "c / u < 1 / 2" using c u16 by (simp add: field_simps)
    ultimately have r: "\<bar>(a - c) / 2 powi (b - 52) - of_int n\<bar> < 1 / 2" by simp
    have "fl (a - c) = a" using lo hi _ r
    proof (rule fl_eqI)
      show "- 1022 \<le> b" using b56 by simp
      show "a = of_int n * 2 powi (b - 52)" using an u by simp
    qed
    then show ?thesis by (simp add: c_def)
  next
    case True
    then have a2: "a = 2 powi b" using an pb by simp
    have b57: "57 \<le> b"
    proof (rule ccontr)
      assume "\<not> 57 \<le> b"
      then have "b = 56" using b56 by simp
      then show False using a2 big by simp
    qed
    have pbm: "(2::real) powi (b - 1) = 2 ^ 52 * (u / 2)"
    proof -
      have "(2::real) powi (b - 1) = 2 powi 51 * 2 powi (b - 52)"
        using two_powi_add[of 51 "b - 52"] by (simp add: algebra_simps)
      then show ?thesis using u by simp
    qed
    have u32: "32 \<le> u"
    proof -
      have "(2::real) powi 5 \<le> 2 powi (b - 52)" using b57 by (intro power_int_increasing) simp_all
      then show ?thesis using u by simp
    qed
    have uh: "2 powi (b - 1 - 52) = u / 2"
    proof -
      have "(2::real) powi (b - 1 - 52) = 2 powi (b - 52) * 2 powi (- 1)"
        using two_powi_add[of "b - 52" "- 1"] by (simp add: algebra_simps)
      then show ?thesis using u by simp
    qed
    have lo: "2 powi (b - 1) \<le> \<bar>a - c\<bar>" using a2 pb pbm c u32 by (simp add: abs_if)
    have hi: "\<bar>a - c\<bar> < 2 powi (b - 1 + 1)" using a2 c u32 pb by (simp add: abs_if)
    have "\<bar>(a - c) / (u / 2) - of_int (2 ^ 53)\<bar> = c / (u / 2)"
      using a2 pb u32 c by (simp add: field_simps)
    moreover have "c / (u / 2) < 1 / 2" using c u32 by (simp add: field_simps)
    ultimately have r: "\<bar>(a - c) / 2 powi (b - 1 - 52) - of_int (2 ^ 53)\<bar> < 1 / 2"
      unfolding uh by simp
    have "fl (a - c) = a" using lo hi _ r
    proof (rule fl_eqI)
      show "- 1022 \<le> b - 1" using b56 by simp
      show "a = of_int (2 ^ 53) * 2 powi (b - 1 - 52)" unfolding uh using a2 pb by simp
    qed
    then show ?thesis by (simp add: c_def)
  qed
qed

lemma sub_2pi_double_stuck:
  assumes "sub_2pi_double a = Some y"
  shows "\<not> (fl a = a \<and> 2 ^ 56 < a)"
proof (rule sub_2pi_double.raw_induct[where P = "\<lambda>a y. \<not> (fl a = a \<and> 2 ^ 56 < a)", OF _ assms])
  fix sub :: "real \<Rightarrow> real option" and a y :: real
  assume IH: "\<And>x y. sub x = Some y \<Longrightarrow> \<not> (fl x = x \<and> 2 ^ 56 < x)"
    and body: "(if M_PI < a then sub (fl (a - 2 * M_PI)) else Some a) = Some y"
  show "\<not> (fl a = a \<and> 2 ^ 56 < a)"
  proof
    assume a: "fl a = a \<and> 2 ^ 56 < a"
    then have "M_PI < a" by (simp add: M_PI_def)
    then have "sub (fl (a - 2 * M_PI)) = Some y" using body by simp
    moreover have "fl (a - 2 * M_PI) = a" using a by (intro fl_sub_two_M_PI_stuck) simp_all
    ultimately have "sub a = Some y" by simp
    then have "\<not> (fl a = a \<and> 2 ^ 56 < a)" by (rule IH)
    then show False using a by simp
  qed
qed

lemma sub_2pi_double_diverges: "fl a = a \<Longrightarrow> 2 ^ 56 < a \<Longrightarrow> sub_2pi_double a = None"
  using sub_2pi_double_stuck[of a] by (cases "sub_2pi_double a") auto

text \<open>
  \<open>M_PI\<close> lies below \<open>\<pi>\<close>, by Machin's formula and the alternating series of the arc
  tangent: an interval between \<open>- M_PI\<close> and \<open>M_PI\<close> lies inside \<open>(- \<pi>, \<pi>)\<close>.
\<close>

lemma arctan_series_bounds:
  assumes x: "0 \<le> x" "x \<le> 1"
  shows "(\<Sum>k<2 * n. (- 1) ^ k * (1 / real (k * 2 + 1) * x ^ (k * 2 + 1))) \<le> arctan x"
    and "arctan x \<le> (\<Sum>k<2 * n + 1. (- 1) ^ k * (1 / real (k * 2 + 1) * x ^ (k * 2 + 1)))"
proof -
  let ?a = "\<lambda>k. 1 / real (k * 2 + 1) * x ^ (k * 2 + 1)"
  have ax: "\<bar>x\<bar> \<le> 1" using x by simp
  have z: "?a \<longlonglongrightarrow> 0" using ax by (rule zeroseq_arctan_series)
  have p: "0 \<le> ?a k" for k using x by simp
  have m: "?a (Suc k) \<le> ?a k" for k
  proof -
    have "x ^ (Suc k * 2 + 1) \<le> x ^ (k * 2 + 1)" using x by (intro power_decreasing) simp_all
    moreover have "1 / real (Suc k * 2 + 1) \<le> 1 / real (k * 2 + 1)" by (simp add: field_simps)
    ultimately show ?thesis using x by (intro mult_mono) simp_all
  qed
  have s: "arctan x = (\<Sum>k. (- 1) ^ k * ?a k)" using ax by (rule arctan_series)
  show "(\<Sum>k<2 * n. (- 1) ^ k * ?a k) \<le> arctan x"
    unfolding s using summable_Leibniz'(2)[OF z p m] by simp
  show "arctan x \<le> (\<Sum>k<2 * n + 1. (- 1) ^ k * ?a k)"
    unfolding s using summable_Leibniz'(4)[OF z p m] by simp
qed

lemma M_PI_less_pi: "M_PI < pi"
proof -
  have a: "(\<Sum>k<2 * 6. (- 1) ^ k * (1 / real (k * 2 + 1) * (1 / 5) ^ (k * 2 + 1))) \<le> arctan (1 / 5)"
    by (rule arctan_series_bounds) simp_all
  have b: "arctan (1 / 239) \<le> (\<Sum>k<2 * 1 + 1. (- 1) ^ k * (1 / real (k * 2 + 1) * (1 / 239) ^ (k * 2 + 1)))"
    by (rule arctan_series_bounds) simp_all
  have a': "(\<Sum>k<2 * 6. (- 1) ^ k * (1 / real (k * 2 + 1) * (1 / 5) ^ (k * 2 + 1)))
            = (157490522761940959144868 / 797842276096343994140625 :: real)"
    by (simp add: lessThan_nat_numeral lessThan_Suc power_divide)
  have b': "(\<Sum>k<2 * 1 + 1. (- 1) ^ k * (1 / real (k * 2 + 1) * (1 / 239) ^ (k * 2 + 1)))
            = (48941844013 / 11697168977985 :: real)"
    by (simp add: lessThan_nat_numeral lessThan_Suc power_divide)
  have "pi = 4 * (4 * arctan (1 / 5) - arctan (1 / 239))" using machin by simp
  moreover have "157490522761940959144868 / 797842276096343994140625 \<le> arctan (1 / 5)"
    using a unfolding a' .
  moreover have "arctan (1 / 239) \<le> 48941844013 / 11697168977985"
    using b unfolding b' .
  ultimately show ?thesis by (simp add: M_PI_def)
qed

section \<open>The mean of the laser-initialised filter on doubles\<close>

text \<open>
  The roundings that the computation of the mean meets at the laser-initialised filter,
  each checked against the definition of \<open>fl\<close>: the argument lies in the binade \<open>e\<close> and
  its quotient by the spacing rounds to the integer \<open>n\<close>.
\<close>

lemma fl_value_1: "fl (3 / 9007199254740992) = 3 / 9007199254740992"
  by (rule fl_evalI[where e = "- 52" and n = 6755399441055744]) (simp_all add: round_even_def)

lemma fl_value_2: "fl (1 / 1000) = 1152921504606847 / 1152921504606846976"
  by (rule fl_evalI[where e = "- 10" and n = 4611686018427388]) (simp_all add: round_even_def)

lemma fl_value_3: "fl (1 / 100) = 5764607523034235 / 576460752303423488"
  by (rule fl_evalI[where e = "- 7" and n = 5764607523034235]) (simp_all add: round_even_def)

lemma fl_value_4: "fl (5764607523034235 / 576460752303423488) = 5764607523034235 / 576460752303423488"
  by (rule fl_evalI[where e = "- 7" and n = 5764607523034235]) (simp_all add: round_even_def)

lemma fl_value_5: "fl (4062741339351 / 140737488355328) = 4062741339351 / 140737488355328"
  by (rule fl_evalI[where e = "- 6" and n = 8320494262990848]) (simp_all add: round_even_def)

lemma fl_value_6: "fl (21634570243895115118877068038417 / 649037107316853453566312041152512) = 4803839602528529 / 144115188075855872"
  by (rule fl_evalI[where e = "- 5" and n = 4803839602528529]) (simp_all add: round_even_def)

lemma fl_value_7: "fl (1200959900632131 / 18014398509481984) = 1200959900632131 / 18014398509481984"
  by (rule fl_evalI[where e = "- 4" and n = 4803839602528524]) (simp_all add: round_even_def)

lemma fl_value_8: "fl (14411518807585577 / 144115188075855872) = 1801439850948197 / 18014398509481984"
  by (rule fl_evalI[where e = "- 4" and n = 7205759403792788]) (simp_all add: round_even_def)

lemma fl_value_9: "fl (2197909162788977 / 18014398509481984) = 2197909162788977 / 18014398509481984"
  by (rule fl_evalI[where e = "- 4" and n = 8791636651155908]) (simp_all add: round_even_def)

lemma fl_value_10: "fl (19215358410114105 / 144115188075855872) = 2401919801264263 / 18014398509481984"
  by (rule fl_evalI[where e = "- 3" and n = 4803839602528526]) (simp_all add: round_even_def)

lemma fl_value_11: "fl (22387112904840345 / 144115188075855872) = 2798389113105043 / 18014398509481984"
  by (rule fl_evalI[where e = "- 3" and n = 5596778226210086]) (simp_all add: round_even_def)

lemma fl_value_12: "fl (24019198012642633 / 144115188075855872) = 3002399751580329 / 18014398509481984"
  by (rule fl_evalI[where e = "- 3" and n = 6004799503160658]) (simp_all add: round_even_def)

lemma fl_value_13: "fl (1 / 6) = 6004799503160661 / 36028797018963968"
  by (rule fl_evalI[where e = "- 3" and n = 6004799503160661]) (simp_all add: round_even_def)

lemma fl_value_14: "fl (14052065573379051240398109437457 / 81129638414606681695789005144064) = 3120185348621585 / 18014398509481984"
  by (rule fl_evalI[where e = "- 3" and n = 6240370697243170]) (simp_all add: round_even_def)

lemma fl_value_15: "fl (27190952507368873 / 144115188075855872) = 3398869063421109 / 18014398509481984"
  by (rule fl_evalI[where e = "- 3" and n = 6797738126842218]) (simp_all add: round_even_def)

lemma fl_value_16: "fl (28823037615171161 / 144115188075855872) = 3602879701896395 / 18014398509481984"
  by (rule fl_evalI[where e = "- 3" and n = 7205759403792790]) (simp_all add: round_even_def)

lemma fl_value_17: "fl (1 / 5) = 3602879701896397 / 18014398509481984"
  by (rule fl_evalI[where e = "- 3" and n = 7205759403792794]) (simp_all add: round_even_def)

lemma fl_value_18: "fl (28823037615171175 / 144115188075855872) = 3602879701896397 / 18014398509481984"
  by (rule fl_evalI[where e = "- 3" and n = 7205759403792794]) (simp_all add: round_even_def)

lemma fl_value_19: "fl (3602879701896397 / 18014398509481984) = 3602879701896397 / 18014398509481984"
  by (rule fl_evalI[where e = "- 3" and n = 7205759403792794]) (simp_all add: round_even_def)

lemma fl_value_20: "fl (31994792109897401 / 144115188075855872) = 3999349013737175 / 18014398509481984"
  by (rule fl_evalI[where e = "- 3" and n = 7998698027474350]) (simp_all add: round_even_def)

lemma fl_value_21: "fl (33626877217699703 / 144115188075855872) = 4203359652212463 / 18014398509481984"
  by (rule fl_evalI[where e = "- 3" and n = 8406719304424926]) (simp_all add: round_even_def)

lemma fl_value_22: "fl (36798631712425929 / 144115188075855872) = 4599828964053241 / 18014398509481984"
  by (rule fl_evalI[where e = "- 2" and n = 4599828964053241]) (simp_all add: round_even_def)

lemma fl_value_23: "fl (41431576016956388322498725869443 / 162259276829213363391578010288128) = 2299914482026621 / 9007199254740992"
  by (rule fl_evalI[where e = "- 2" and n = 4599828964053242]) (simp_all add: round_even_def)

lemma fl_value_24: "fl (4803839602528529 / 18014398509481984) = 4803839602528529 / 18014398509481984"
  by (rule fl_evalI[where e = "- 2" and n = 4803839602528529]) (simp_all add: round_even_def)

lemma fl_value_25: "fl (21634570243895115118877068038417 / 81129638414606681695789005144064) = 4803839602528529 / 18014398509481984"
  by (rule fl_evalI[where e = "- 2" and n = 4803839602528529]) (simp_all add: round_even_def)

lemma fl_value_26: "fl (41602471314954457 / 144115188075855872) = 5200308914369307 / 18014398509481984"
  by (rule fl_evalI[where e = "- 2" and n = 5200308914369307]) (simp_all add: round_even_def)

lemma fl_value_27: "fl (23420109288965082800509058544441 / 81129638414606681695789005144064) = 1300077228592327 / 4503599627370496"
  by (rule fl_evalI[where e = "- 2" and n = 5200308914369308]) (simp_all add: round_even_def)

lemma fl_value_28: "fl (1300077228592327 / 4503599627370496) = 1300077228592327 / 4503599627370496"
  by (rule fl_evalI[where e = "- 2" and n = 5200308914369308]) (simp_all add: round_even_def)

lemma fl_value_29: "fl (46406310917482985 / 144115188075855872) = 5800788864685373 / 18014398509481984"
  by (rule fl_evalI[where e = "- 2" and n = 5800788864685373]) (simp_all add: round_even_def)

lemma fl_value_30: "fl (52248861138903942879537508308321 / 162259276829213363391578010288128) = 2900394432342687 / 9007199254740992"
  by (rule fl_evalI[where e = "- 2" and n = 5800788864685374]) (simp_all add: round_even_def)

lemma fl_value_31: "fl (19111404139203415458261866674203 / 40564819207303340847894502572032) = 8487168363304061 / 18014398509481984"
  by (rule fl_evalI[where e = "- 2" and n = 8487168363304061]) (simp_all add: round_even_def)

lemma fl_value_32: "fl (66306002838313 / 140737488355328) = 66306002838313 / 140737488355328"
  by (rule fl_evalI[where e = "- 2" and n = 8487168363304064]) (simp_all add: round_even_def)

lemma fl_value_33: "fl (9007199254740989 / 18014398509481984) = 9007199254740989 / 18014398509481984"
  by (rule fl_evalI[where e = "- 2" and n = 9007199254740989]) (simp_all add: round_even_def)

lemma fl_value_34: "fl (18014398509481983 / 36028797018963968) = 1 / 2"
  by (rule fl_evalI[where e = "- 2" and n = 9007199254740992]) (simp_all add: round_even_def)

lemma fl_value_35: "fl (1 / 2) = 1 / 2"
  by (rule fl_evalI[where e = "- 1" and n = 4503599627370496]) (simp_all add: round_even_def)

lemma fl_value_36: "fl (21453415068099923137832822212581 / 40564819207303340847894502572032) = 4763615073088961 / 9007199254740992"
  by (rule fl_evalI[where e = "- 1" and n = 4763615073088961]) (simp_all add: round_even_def)

lemma fl_value_37: "fl (32633010541637861656960096303131 / 40564819207303340847894502572032) = 7245983933232361 / 9007199254740992"
  by (rule fl_evalI[where e = "- 1" and n = 7245983933232361]) (simp_all add: round_even_def)

lemma fl_value_38: "fl (1811495983308091 / 2251799813685248) = 1811495983308091 / 2251799813685248"
  by (rule fl_evalI[where e = "- 1" and n = 7245983933232364]) (simp_all add: round_even_def)

lemma fl_value_39: "fl (7505999378950823 / 9007199254740992) = 7505999378950823 / 9007199254740992"
  by (rule fl_evalI[where e = "- 1" and n = 7505999378950823]) (simp_all add: round_even_def)

lemma fl_value_40: "fl (30023997515803305 / 36028797018963968) = 3752999689475413 / 4503599627370496"
  by (rule fl_evalI[where e = "- 1" and n = 7505999378950826]) (simp_all add: round_even_def)

lemma fl_value_41: "fl (34975021470534369336531051841509 / 40564819207303340847894502572032) = 1941503706167323 / 2251799813685248"
  by (rule fl_evalI[where e = "- 1" and n = 7766014824669292]) (simp_all add: round_even_def)

lemma fl_value_42: "fl (136674747015977 / 140737488355328) = 136674747015977 / 140737488355328"
  by (rule fl_evalI[where e = "- 1" and n = 8747183809022528]) (simp_all add: round_even_def)

lemma fl_value_43: "fl (18014398509481981 / 18014398509481984) = 4503599627370495 / 4503599627370496"
  by (rule fl_evalI[where e = "- 1" and n = 9007199254740990]) (simp_all add: round_even_def)

lemma fl_value_44: "fl (1) = 1"
  by (rule fl_evalI[where e = 0 and n = 4503599627370496]) (simp_all add: round_even_def)

lemma fl_value_45: "fl (4 / 3) = 6004799503160661 / 4503599627370496"
  by (rule fl_evalI[where e = 0 and n = 6004799503160661]) (simp_all add: round_even_def)

lemma fl_value_46: "fl (207043491193641 / 140737488355328) = 207043491193641 / 140737488355328"
  by (rule fl_evalI[where e = 0 and n = 6625391718196512]) (simp_all add: round_even_def)

lemma fl_value_47: "fl (6755399441055743 / 4503599627370496) = 6755399441055743 / 4503599627370496"
  by (rule fl_evalI[where e = 0 and n = 6755399441055743]) (simp_all add: round_even_def)

lemma fl_value_48: "fl (27598973784319451 / 18014398509481984) = 6899743446079863 / 4503599627370496"
  by (rule fl_evalI[where e = 0 and n = 6899743446079863]) (simp_all add: round_even_def)

lemma fl_value_49: "fl (6899743446079863 / 4503599627370496) = 6899743446079863 / 4503599627370496"
  by (rule fl_evalI[where e = 0 and n = 6899743446079863]) (simp_all add: round_even_def)

lemma fl_value_50: "fl (7375991656091595 / 4503599627370496) = 7375991656091595 / 4503599627370496"
  by (rule fl_evalI[where e = 0 and n = 7375991656091595]) (simp_all add: round_even_def)

lemma fl_value_51: "fl (15011998757901649 / 9007199254740992) = 938249922368853 / 562949953421312"
  by (rule fl_evalI[where e = 0 and n = 7505999378950824]) (simp_all add: round_even_def)

lemma fl_value_52: "fl (3900231685776981 / 2251799813685248) = 3900231685776981 / 2251799813685248"
  by (rule fl_evalI[where e = 0 and n = 7800463371553962]) (simp_all add: round_even_def)

lemma fl_value_53: "fl (8701183297028061 / 4503599627370496) = 8701183297028061 / 4503599627370496"
  by (rule fl_evalI[where e = 0 and n = 8701183297028061]) (simp_all add: round_even_def)

lemma fl_value_54: "fl (34804733188112245 / 18014398509481984) = 8701183297028061 / 4503599627370496"
  by (rule fl_evalI[where e = 0 and n = 8701183297028061]) (simp_all add: round_even_def)

lemma fl_value_55: "fl (277412235371305 / 140737488355328) = 277412235371305 / 140737488355328"
  by (rule fl_evalI[where e = 0 and n = 8877191531881760]) (simp_all add: round_even_def)

lemma fl_value_56: "fl (9007199254740991 / 4503599627370496) = 9007199254740991 / 4503599627370496"
  by (rule fl_evalI[where e = 0 and n = 9007199254740991]) (simp_all add: round_even_def)

lemma fl_value_57: "fl (11128991345567007 / 4503599627370496) = 347780979548969 / 140737488355328"
  by (rule fl_evalI[where e = 1 and n = 5564495672783504]) (simp_all add: round_even_def)

lemma fl_value_58: "fl (347780979548969 / 140737488355328) = 347780979548969 / 140737488355328"
  by (rule fl_evalI[where e = 1 and n = 5564495672783504]) (simp_all add: round_even_def)

lemma fl_value_59: "fl (11258999068426237 / 4503599627370496) = 2814749767106559 / 1125899906842624"
  by (rule fl_evalI[where e = 1 and n = 5629499534213118]) (simp_all add: round_even_def)

lemma fl_value_60: "fl (11258999068426239 / 4503599627370496) = 5 / 2"
  by (rule fl_evalI[where e = 1 and n = 5629499534213120]) (simp_all add: round_even_def)

lemma fl_value_61: "fl (50923010179824367 / 18014398509481984) = 3182688136239023 / 1125899906842624"
  by (rule fl_evalI[where e = 1 and n = 6365376272478046]) (simp_all add: round_even_def)

lemma fl_value_62: "fl (3182688136239023 / 1125899906842624) = 3182688136239023 / 1125899906842624"
  by (rule fl_evalI[where e = 1 and n = 6365376272478046]) (simp_all add: round_even_def)

lemma fl_value_63: "fl (26761582318504511 / 9007199254740992) = 418149723726633 / 140737488355328"
  by (rule fl_evalI[where e = 1 and n = 6690395579626128]) (simp_all add: round_even_def)

lemma fl_value_64: "fl (3) = 3"
  by (rule fl_evalI[where e = 1 and n = 6755399441055744]) (simp_all add: round_even_def)

lemma fl_value_65: "fl (3572711304816721 / 1125899906842624) = 3572711304816721 / 1125899906842624"
  by (rule fl_evalI[where e = 1 and n = 7145422609633442]) (simp_all add: round_even_def)

lemma fl_value_66: "fl (57163380877067537 / 18014398509481984) = 3572711304816721 / 1125899906842624"
  by (rule fl_evalI[where e = 1 and n = 7145422609633442]) (simp_all add: round_even_def)

lemma fl_value_67: "fl (14881991035042419 / 4503599627370496) = 3720497758760605 / 1125899906842624"
  by (rule fl_evalI[where e = 1 and n = 7440995517521210]) (simp_all add: round_even_def)

lemma fl_value_68: "fl (15011998757901649 / 4503599627370496) = 938249922368853 / 281474976710656"
  by (rule fl_evalI[where e = 1 and n = 7505999378950824]) (simp_all add: round_even_def)

lemma fl_value_69: "fl (7 / 2) = 7 / 2"
  by (rule fl_evalI[where e = 1 and n = 7881299347898368]) (simp_all add: round_even_def)

lemma fl_value_70: "fl (18014398509481983 / 4503599627370496) = 4"
  by (rule fl_evalI[where e = 1 and n = 9007199254740992]) (simp_all add: round_even_def)

lemma fl_value_71: "fl (4) = 4"
  by (rule fl_evalI[where e = 2 and n = 4503599627370496]) (simp_all add: round_even_def)

lemma fl_value_72: "fl (18634990724517831 / 4503599627370496) = 2329373840564729 / 562949953421312"
  by (rule fl_evalI[where e = 2 and n = 4658747681129458]) (simp_all add: round_even_def)

lemma fl_value_73: "fl (18764998447377061 / 4503599627370496) = 4691249611844265 / 1125899906842624"
  by (rule fl_evalI[where e = 2 and n = 4691249611844265]) (simp_all add: round_even_def)

lemma fl_value_74: "fl (86951807198788335 / 18014398509481984) = 5434487949924271 / 1125899906842624"
  by (rule fl_evalI[where e = 2 and n = 5434487949924271]) (simp_all add: round_even_def)

lemma fl_value_75: "fl (5434487949924271 / 1125899906842624) = 5434487949924271 / 1125899906842624"
  by (rule fl_evalI[where e = 2 and n = 5434487949924271]) (simp_all add: round_even_def)

lemma fl_value_76: "fl (22387990413993243 / 4503599627370496) = 5596997603498311 / 1125899906842624"
  by (rule fl_evalI[where e = 2 and n = 5596997603498311]) (simp_all add: round_even_def)

lemma fl_value_77: "fl (22517998136852473 / 4503599627370496) = 2814749767106559 / 562949953421312"
  by (rule fl_evalI[where e = 2 and n = 5629499534213118]) (simp_all add: round_even_def)

lemma fl_value_78: "fl (5) = 5"
  by (rule fl_evalI[where e = 2 and n = 5629499534213120]) (simp_all add: round_even_def)

lemma fl_value_79: "fl (5824511118501969 / 1125899906842624) = 5824511118501969 / 1125899906842624"
  by (rule fl_evalI[where e = 2 and n = 5824511118501969]) (simp_all add: round_even_def)

lemma fl_value_80: "fl (93192177896031505 / 18014398509481984) = 5824511118501969 / 1125899906842624"
  by (rule fl_evalI[where e = 2 and n = 5824511118501969]) (simp_all add: round_even_def)

lemma fl_value_81: "fl (13070495051734329 / 2251799813685248) = 1633811881466791 / 281474976710656"
  by (rule fl_evalI[where e = 2 and n = 6535247525867164]) (simp_all add: round_even_def)

lemma fl_value_82: "fl (3752999689475413 / 562949953421312) = 3752999689475413 / 562949953421312"
  by (rule fl_evalI[where e = 2 and n = 7505999378950826]) (simp_all add: round_even_def)

lemma fl_value_83: "fl (30023997515803305 / 4503599627370496) = 3752999689475413 / 562949953421312"
  by (rule fl_evalI[where e = 2 and n = 7505999378950826]) (simp_all add: round_even_def)

lemma fl_sqrt_value_1: "fl (sqrt (5764607523034235 / 576460752303423488)) = 3602879701896397 / 36028797018963968"
  by (rule fl_sqrtI[where e = "- 4" and n = 7205759403792794]) (simp_all add: power2_eq_square)

lemma fl_sqrt_value_2: "fl (sqrt (3)) = 3900231685776981 / 2251799813685248"
  by (rule fl_sqrtI[where e = 0 and n = 7800463371553962]) (simp_all add: power2_eq_square)

lemmas fl_values =
  fl_value_1 fl_value_2 fl_value_3 fl_value_4 fl_value_5 fl_value_6 fl_value_7 fl_value_8
  fl_value_9 fl_value_10 fl_value_11 fl_value_12 fl_value_13 fl_value_14 fl_value_15 fl_value_16
  fl_value_17 fl_value_18 fl_value_19 fl_value_20 fl_value_21 fl_value_22 fl_value_23 fl_value_24
  fl_value_25 fl_value_26 fl_value_27 fl_value_28 fl_value_29 fl_value_30 fl_value_31 fl_value_32
  fl_value_33 fl_value_34 fl_value_35 fl_value_36 fl_value_37 fl_value_38 fl_value_39 fl_value_40
  fl_value_41 fl_value_42 fl_value_43 fl_value_44 fl_value_45 fl_value_46 fl_value_47 fl_value_48
  fl_value_49 fl_value_50 fl_value_51 fl_value_52 fl_value_53 fl_value_54 fl_value_55 fl_value_56
  fl_value_57 fl_value_58 fl_value_59 fl_value_60 fl_value_61 fl_value_62 fl_value_63 fl_value_64
  fl_value_65 fl_value_66 fl_value_67 fl_value_68 fl_value_69 fl_value_70 fl_value_71 fl_value_72
  fl_value_73 fl_value_74 fl_value_75 fl_value_76 fl_value_77 fl_value_78 fl_value_79 fl_value_80
  fl_value_81 fl_value_82 fl_value_83

text \<open>
  The state, its augmented covariance, the factor, the fifteen sigma points. With
  \<open>delta_t = 0\<close> the motion model returns the first five coefficients of a sigma point of
  doubles unchanged, whatever \<open>sn\<close> and \<open>cs\<close> are: every product with \<open>delta_t\<close> is an exact
  zero. The weighted sum then rounds at each of its thirty operations per coefficient.
\<close>

lemma laser_initialized_double_fields:
  "x_m laser_initialized_double = [5, 3, 3602879701896397 / 18014398509481984, 0, 0]"
  "P_m laser_initialized_double =
     [[5764607523034235 / 576460752303423488, 0, 0, 0, 0],
      [0, 5764607523034235 / 576460752303423488, 0, 0, 0],
      [0, 0, 1, 0, 0],
      [0, 0, 0, 1, 0],
      [0, 0, 0, 0, 1]]"
  "weights_m laser_initialized_double =
     [- (6004799503160661 / 4503599627370496),
      6004799503160661 / 36028797018963968, 6004799503160661 / 36028797018963968,
      6004799503160661 / 36028797018963968, 6004799503160661 / 36028797018963968,
      6004799503160661 / 36028797018963968, 6004799503160661 / 36028797018963968,
      6004799503160661 / 36028797018963968, 6004799503160661 / 36028797018963968,
      6004799503160661 / 36028797018963968, 6004799503160661 / 36028797018963968,
      6004799503160661 / 36028797018963968, 6004799503160661 / 36028797018963968,
      6004799503160661 / 36028797018963968, 6004799503160661 / 36028797018963968]"
  "lambda_m laser_initialized_double = - 4"
  "n_x_m laser_initialized_double = 5"
  "n_aug_m laser_initialized_double = 7"
  "std_a_m laser_initialized_double = 1"
  "std_yawdd_m laser_initialized_double = 1"
  by (simp_all add: laser_initialized_double_def double_state_def laser_initialized_def
      example_raw_state_def UKF_new_def diag5_def eval_nat_numeral fl_0 fl_minus fl_values)

lemma aug_cov_laser_initialized_double:
  "augmented_covariance_double laser_initialized_double =
     [[5764607523034235 / 576460752303423488, 0, 0, 0, 0, 0, 0],
      [0, 5764607523034235 / 576460752303423488, 0, 0, 0, 0, 0],
      [0, 0, 1, 0, 0, 0, 0],
      [0, 0, 0, 1, 0, 0, 0],
      [0, 0, 0, 0, 1, 0, 0],
      [0, 0, 0, 0, 0, 1, 0],
      [0, 0, 0, 0, 0, 0, 1]]"
  by (simp add: augmented_covariance_double_def laser_initialized_double_fields dmul_def
      eval_nat_numeral fl_values)

lemma llt_laser_initialized_double:
  "llt_matrixL_double
     [[5764607523034235 / 576460752303423488, 0, 0, 0, 0, 0, 0],
      [0, 5764607523034235 / 576460752303423488, 0, 0, 0, 0, 0],
      [0, 0, 1, 0, 0, 0, 0],
      [0, 0, 0, 1, 0, 0, 0],
      [0, 0, 0, 0, 1, 0, 0],
      [0, 0, 0, 0, 0, 1, 0],
      [0, 0, 0, 0, 0, 0, 1]] =
     [[3602879701896397 / 36028797018963968, 0, 0, 0, 0, 0, 0],
      [0, 3602879701896397 / 36028797018963968, 0, 0, 0, 0, 0],
      [0, 0, 1, 0, 0, 0, 0],
      [0, 0, 0, 1, 0, 0, 0],
      [0, 0, 0, 0, 1, 0, 0],
      [0, 0, 0, 0, 0, 1, 0],
      [0, 0, 0, 0, 0, 0, 1]]"
  by (simp add: llt_matrixL_double_def eval_nat_numeral llt_pivot_double_def llt_col_double_def
      Let_def dsum_def dadd_def dsub_def dmul_def ddiv_def dsqrt_def fl_0 fl_minus fl_values
      fl_sqrt_value_1 del: real_sqrt_divide)

lemma sigma_points_laser_initialized_double:
  "sigma_points_double (- 4) 7 [5, 3, 3602879701896397 / 18014398509481984, 0, 0, 0, 0]
     [[3602879701896397 / 36028797018963968, 0, 0, 0, 0, 0, 0],
      [0, 3602879701896397 / 36028797018963968, 0, 0, 0, 0, 0],
      [0, 0, 1, 0, 0, 0, 0],
      [0, 0, 0, 1, 0, 0, 0],
      [0, 0, 0, 0, 1, 0, 0],
      [0, 0, 0, 0, 0, 1, 0],
      [0, 0, 0, 0, 0, 0, 1]] =
     [[5, 3, 3602879701896397 / 18014398509481984, 0, 0, 0, 0],
      [5824511118501969 / 1125899906842624, 3, 3602879701896397 / 18014398509481984, 0, 0, 0, 0],
      [5, 3572711304816721 / 1125899906842624, 3602879701896397 / 18014398509481984, 0, 0, 0, 0],
      [5, 3, 8701183297028061 / 4503599627370496, 0, 0, 0, 0],
      [5, 3, 3602879701896397 / 18014398509481984, 3900231685776981 / 2251799813685248, 0, 0, 0],
      [5, 3, 3602879701896397 / 18014398509481984, 0, 3900231685776981 / 2251799813685248, 0, 0],
      [5, 3, 3602879701896397 / 18014398509481984, 0, 0, 3900231685776981 / 2251799813685248, 0],
      [5, 3, 3602879701896397 / 18014398509481984, 0, 0, 0, 3900231685776981 / 2251799813685248],
      [5434487949924271 / 1125899906842624, 3, 3602879701896397 / 18014398509481984, 0, 0, 0, 0],
      [5, 3182688136239023 / 1125899906842624, 3602879701896397 / 18014398509481984, 0, 0, 0, 0],
      [5, 3, - (6899743446079863 / 4503599627370496), 0, 0, 0, 0],
      [5, 3, 3602879701896397 / 18014398509481984, - (3900231685776981 / 2251799813685248), 0, 0, 0],
      [5, 3, 3602879701896397 / 18014398509481984, 0, - (3900231685776981 / 2251799813685248), 0, 0],
      [5, 3, 3602879701896397 / 18014398509481984, 0, 0, - (3900231685776981 / 2251799813685248), 0],
      [5, 3, 3602879701896397 / 18014398509481984, 0, 0, 0, - (3900231685776981 / 2251799813685248)]]"
  by (simp add: sigma_points_double_def upt_7 Let_def vadd_double_def vsub_double_def
      smult_double_def dadd_def dsub_def dmul_def dsqrt_def fl_0 fl_minus fl_values fl_sqrt_value_2)

lemma motion_model_double_zero:
  assumes "fl a = a" "fl b = b" "fl v = v" "fl yaw = yaw" "fl yawd = yawd"
  shows "motion_model_double sn cs 0 [a, b, v, yaw, yawd, nu_a, nu_yawdd] = [a, b, v, yaw, yawd]"
  using assms by (simp add: motion_model_double_def Let_def dadd_def dsub_def dmul_def fl_0)

lemma sigma_points_aug_laser_initialized_double:
  "sigma_points_double (lambda_m laser_initialized_double) (n_aug_m laser_initialized_double)
     (augmented_mean laser_initialized_double)
     (llt_matrixL_double (augmented_covariance_double laser_initialized_double)) =
     [[5, 3, 3602879701896397 / 18014398509481984, 0, 0, 0, 0],
       [5824511118501969 / 1125899906842624, 3, 3602879701896397 / 18014398509481984, 0, 0, 0, 0],
       [5, 3572711304816721 / 1125899906842624, 3602879701896397 / 18014398509481984, 0, 0, 0, 0],
       [5, 3, 8701183297028061 / 4503599627370496, 0, 0, 0, 0],
       [5, 3, 3602879701896397 / 18014398509481984, 3900231685776981 / 2251799813685248, 0, 0, 0],
       [5, 3, 3602879701896397 / 18014398509481984, 0, 3900231685776981 / 2251799813685248, 0, 0],
       [5, 3, 3602879701896397 / 18014398509481984, 0, 0, 3900231685776981 / 2251799813685248, 0],
       [5, 3, 3602879701896397 / 18014398509481984, 0, 0, 0, 3900231685776981 / 2251799813685248],
       [5434487949924271 / 1125899906842624, 3, 3602879701896397 / 18014398509481984, 0, 0, 0, 0],
       [5, 3182688136239023 / 1125899906842624, 3602879701896397 / 18014398509481984, 0, 0, 0, 0],
       [5, 3, - (6899743446079863 / 4503599627370496), 0, 0, 0, 0],
       [5, 3, 3602879701896397 / 18014398509481984, - (3900231685776981 / 2251799813685248), 0, 0, 0],
       [5, 3, 3602879701896397 / 18014398509481984, 0, - (3900231685776981 / 2251799813685248), 0, 0],
       [5, 3, 3602879701896397 / 18014398509481984, 0, 0, - (3900231685776981 / 2251799813685248), 0],
       [5, 3, 3602879701896397 / 18014398509481984, 0, 0, 0, - (3900231685776981 / 2251799813685248)]]"
  unfolding aug_cov_laser_initialized_double llt_laser_initialized_double augmented_mean_def
    laser_initialized_double_fields append_Cons append_Nil
  by (rule sigma_points_laser_initialized_double)

lemma predicted_sigma_laser_initialized_double:
  "map (\<lambda>i. motion_model_double sn cs 0
              ([[5, 3, 3602879701896397 / 18014398509481984, 0, 0, 0, 0],
               [5824511118501969 / 1125899906842624, 3, 3602879701896397 / 18014398509481984, 0, 0, 0, 0],
               [5, 3572711304816721 / 1125899906842624, 3602879701896397 / 18014398509481984, 0, 0, 0, 0],
               [5, 3, 8701183297028061 / 4503599627370496, 0, 0, 0, 0],
               [5, 3, 3602879701896397 / 18014398509481984, 3900231685776981 / 2251799813685248, 0, 0, 0],
               [5, 3, 3602879701896397 / 18014398509481984, 0, 3900231685776981 / 2251799813685248, 0, 0],
               [5, 3, 3602879701896397 / 18014398509481984, 0, 0, 3900231685776981 / 2251799813685248, 0],
               [5, 3, 3602879701896397 / 18014398509481984, 0, 0, 0, 3900231685776981 / 2251799813685248],
               [5434487949924271 / 1125899906842624, 3, 3602879701896397 / 18014398509481984, 0, 0, 0, 0],
               [5, 3182688136239023 / 1125899906842624, 3602879701896397 / 18014398509481984, 0, 0, 0, 0],
               [5, 3, - (6899743446079863 / 4503599627370496), 0, 0, 0, 0],
               [5, 3, 3602879701896397 / 18014398509481984, - (3900231685776981 / 2251799813685248), 0, 0, 0],
               [5, 3, 3602879701896397 / 18014398509481984, 0, - (3900231685776981 / 2251799813685248), 0, 0],
               [5, 3, 3602879701896397 / 18014398509481984, 0, 0, - (3900231685776981 / 2251799813685248), 0],
               [5, 3, 3602879701896397 / 18014398509481984, 0, 0, 0, - (3900231685776981 / 2251799813685248)]] ! i)) [0..<15] =
     [[5, 3, 3602879701896397 / 18014398509481984, 0, 0],
       [5824511118501969 / 1125899906842624, 3, 3602879701896397 / 18014398509481984, 0, 0],
       [5, 3572711304816721 / 1125899906842624, 3602879701896397 / 18014398509481984, 0, 0],
       [5, 3, 8701183297028061 / 4503599627370496, 0, 0],
       [5, 3, 3602879701896397 / 18014398509481984, 3900231685776981 / 2251799813685248, 0],
       [5, 3, 3602879701896397 / 18014398509481984, 0, 3900231685776981 / 2251799813685248],
       [5, 3, 3602879701896397 / 18014398509481984, 0, 0],
       [5, 3, 3602879701896397 / 18014398509481984, 0, 0],
       [5434487949924271 / 1125899906842624, 3, 3602879701896397 / 18014398509481984, 0, 0],
       [5, 3182688136239023 / 1125899906842624, 3602879701896397 / 18014398509481984, 0, 0],
       [5, 3, - (6899743446079863 / 4503599627370496), 0, 0],
       [5, 3, 3602879701896397 / 18014398509481984, - (3900231685776981 / 2251799813685248), 0],
       [5, 3, 3602879701896397 / 18014398509481984, 0, - (3900231685776981 / 2251799813685248)],
       [5, 3, 3602879701896397 / 18014398509481984, 0, 0],
       [5, 3, 3602879701896397 / 18014398509481984, 0, 0]]"
  by (simp add: upt_15 motion_model_double_zero fl_0 fl_minus fl_values)

lemma weighted_sum_laser_initialized_double:
  "weighted_sum_double
     [- (6004799503160661 / 4503599627370496),
      6004799503160661 / 36028797018963968, 6004799503160661 / 36028797018963968,
      6004799503160661 / 36028797018963968, 6004799503160661 / 36028797018963968,
      6004799503160661 / 36028797018963968, 6004799503160661 / 36028797018963968,
      6004799503160661 / 36028797018963968, 6004799503160661 / 36028797018963968,
      6004799503160661 / 36028797018963968, 6004799503160661 / 36028797018963968,
      6004799503160661 / 36028797018963968, 6004799503160661 / 36028797018963968,
      6004799503160661 / 36028797018963968, 6004799503160661 / 36028797018963968]
     (\<lambda>i. [[5, 3, 3602879701896397 / 18014398509481984, 0, 0],
          [5824511118501969 / 1125899906842624, 3, 3602879701896397 / 18014398509481984, 0, 0],
          [5, 3572711304816721 / 1125899906842624, 3602879701896397 / 18014398509481984, 0, 0],
          [5, 3, 8701183297028061 / 4503599627370496, 0, 0],
          [5, 3, 3602879701896397 / 18014398509481984, 3900231685776981 / 2251799813685248, 0],
          [5, 3, 3602879701896397 / 18014398509481984, 0, 3900231685776981 / 2251799813685248],
          [5, 3, 3602879701896397 / 18014398509481984, 0, 0],
          [5, 3, 3602879701896397 / 18014398509481984, 0, 0],
          [5434487949924271 / 1125899906842624, 3, 3602879701896397 / 18014398509481984, 0, 0],
          [5, 3182688136239023 / 1125899906842624, 3602879701896397 / 18014398509481984, 0, 0],
          [5, 3, - (6899743446079863 / 4503599627370496), 0, 0],
          [5, 3, 3602879701896397 / 18014398509481984, - (3900231685776981 / 2251799813685248), 0],
          [5, 3, 3602879701896397 / 18014398509481984, 0, - (3900231685776981 / 2251799813685248)],
          [5, 3, 3602879701896397 / 18014398509481984, 0, 0],
          [5, 3, 3602879701896397 / 18014398509481984, 0, 0]] ! i) 15 [0, 0, 0, 0, 0] =
     [2814749767106559 / 562949953421312, 3, 3602879701896395 / 18014398509481984, 0, 0]"
  by (simp add: weighted_sum_double_def upt_15 vadd_double_def smult_double_def dadd_def dmul_def
      fl_0 fl_minus fl_values)

lemma Prediction_mean_double_laser_initialized:
  "Prediction_mean_double sn cs 0 laser_initialized_double =
     [2814749767106559 / 562949953421312, 3, 3602879701896395 / 18014398509481984, 0, 0]"
proof -
  have N: "2 * n_aug_m laser_initialized_double + 1 = 15"
    by (simp add: laser_initialized_double_fields)
  have z: "vfill0 (x_m laser_initialized_double) = [0, 0, 0, 0, 0]"
    by (simp add: vfill0_def laser_initialized_double_fields)
  show ?thesis
    unfolding Prediction_mean_double_def Let_def sigma_points_aug_laser_initialized_double N z
      predicted_sigma_laser_initialized_double laser_initialized_double_fields(3)
    by (rule weighted_sum_laser_initialized_double)
qed

section \<open>Angle normalisation stops inside the interval\<close>

lemma sub_2pi_id: "a \<le> pi \<Longrightarrow> sub_2pi a = a"
  by simp

lemma sub_2pi_bounds: "sub_2pi a \<le> pi \<and> (pi < a \<longrightarrow> - pi < sub_2pi a) \<and> (\<exists>n::nat. sub_2pi a = a - real n * (2 * pi))"
proof (induction a rule: sub_2pi.induct)
  case (1 a)
  show ?case
  proof (cases "pi < a")
    case True
    from 1[OF True] obtain n :: nat where n: "sub_2pi (a - 2 * pi) = a - 2 * pi - real n * (2 * pi)"
      and le: "sub_2pi (a - 2 * pi) \<le> pi" and gt: "pi < a - 2 * pi \<longrightarrow> - pi < sub_2pi (a - 2 * pi)" by blast
    have eq: "sub_2pi a = sub_2pi (a - 2 * pi)" using True by simp
    have "- pi < sub_2pi (a - 2 * pi)"
    proof (cases "pi < a - 2 * pi")
      case True then show ?thesis using gt by blast
    next
      case False
      then have "sub_2pi (a - 2 * pi) = a - 2 * pi" by simp
      then show ?thesis using True by simp
    qed
    moreover have "sub_2pi a = a - real (Suc n) * (2 * pi)" using eq n by (simp add: algebra_simps)
    ultimately show ?thesis using eq le by metis
  next
    case False
    then have e: "sub_2pi a = a" by simp
    then have "sub_2pi a = a - real (0::nat) * (2 * pi)" by simp
    then have "\<exists>n::nat. sub_2pi a = a - real n * (2 * pi)" by (rule exI)
    then show ?thesis using False e by simp
  qed
qed

lemma add_2pi_bounds: "- pi \<le> add_2pi a \<and> (a \<le> pi \<longrightarrow> add_2pi a \<le> pi) \<and> (\<exists>m::nat. add_2pi a = a + real m * (2 * pi))"
proof (induction a rule: add_2pi.induct)
  case (1 a)
  show ?case
  proof (cases "a < - pi")
    case True
    from 1[OF True] obtain m :: nat where m: "add_2pi (a + 2 * pi) = a + 2 * pi + real m * (2 * pi)"
      and ge: "- pi \<le> add_2pi (a + 2 * pi)" and le: "a + 2 * pi \<le> pi \<longrightarrow> add_2pi (a + 2 * pi) \<le> pi" by blast
    have eq: "add_2pi a = add_2pi (a + 2 * pi)" using True by simp
    have "add_2pi (a + 2 * pi) \<le> pi" using le True by simp
    moreover have "add_2pi a = a + real (Suc m) * (2 * pi)" using eq m by (simp add: algebra_simps)
    ultimately show ?thesis using eq ge by metis
  next
    case False
    then have e: "add_2pi a = a" by simp
    then have "add_2pi a = a + real (0::nat) * (2 * pi)" by simp
    then have "\<exists>m::nat. add_2pi a = a + real m * (2 * pi)" by (rule exI)
    then show ?thesis using False e by simp
  qed
qed

text \<open>
  In exact arithmetic the two normalisation loops stop for every input: the first after
  some number \<open>n\<close> of subtractions of \<open>2\<pi>\<close>, the second after some number \<open>m\<close> of
  additions, and the value they leave lies in the closed interval from \<open>-\<pi>\<close> to \<open>\<pi>\<close>.
  Both loops are total recursive functions there, with the rounded-up distance to zero
  as the measure that decreases.
\<close>

lemma normalize_angle_exact_in_range:
  "- pi \<le> normalize_angle a \<and> normalize_angle a \<le> pi
   \<and> (\<exists>n m :: nat. normalize_angle a = a - real n * (2 * pi) + real m * (2 * pi))"
proof -
  obtain n :: nat where n: "sub_2pi a = a - real n * (2 * pi)" using sub_2pi_bounds by blast
  obtain m :: nat where m: "add_2pi (sub_2pi a) = sub_2pi a + real m * (2 * pi)" using add_2pi_bounds by blast
  have "sub_2pi a \<le> pi" using sub_2pi_bounds by blast
  then have "add_2pi (sub_2pi a) \<le> pi" using add_2pi_bounds by blast
  moreover have "- pi \<le> add_2pi (sub_2pi a)" using add_2pi_bounds by blast
  ultimately show ?thesis unfolding normalize_angle_def using n m by metis
qed

text \<open>
  Claim C10, as the code has it. On doubles the two normalisation loops stop for every
  input of absolute value at most \<open>2 ^ 56\<close>, and the value they leave lies between
  \<open>- M_PI\<close> and \<open>M_PI\<close>, hence strictly between \<open>-\<pi>\<close> and \<open>\<pi>\<close>. Below \<open>2 ^ 56\<close> the
  doubles are at most \<open>8\<close> apart, so a pass moves the value by more than \<open>2\<close> towards
  zero, and the rounded-up distance to zero decreases; and a value that has come within
  \<open>M_PI\<close> of zero is not rounded past \<open>- M_PI\<close> or \<open>M_PI\<close>, which are doubles.
\<close>

theorem normalize_angle_double_in_range:
  "\<bar>a\<bar> \<le> 2 ^ 56 \<Longrightarrow>
   \<exists>r. normalize_angle_double a = Some r \<and> - M_PI \<le> r \<and> r \<le> M_PI \<and> - pi < r \<and> r < pi"
proof -
  assume a: "\<bar>a\<bar> \<le> 2 ^ 56"
  then have "a \<le> 2 ^ 56" by simp
  then obtain r where r: "sub_2pi_double a = Some r" "r \<le> M_PI"
    "if M_PI < a then - M_PI \<le> r else r = a" using sub_2pi_double_returns by blast
  have "- (2 ^ 56) \<le> r" using r(3) a by (simp add: M_PI_def split: if_splits)
  then obtain r' where r': "add_2pi_double r = Some r'" "- M_PI \<le> r'" "r' \<le> M_PI"
    using add_2pi_double_returns r(2) by blast
  have "- pi < r'" "r' < pi" using r'(2,3) M_PI_less_pi by simp_all
  then show ?thesis using r(1) r' by (simp add: normalize_angle_double_def)
qed

theorem normalize_angle_double_in_range_witness:
  "\<exists>r. normalize_angle_double 4 = Some r \<and> - M_PI \<le> r \<and> r \<le> M_PI \<and> - pi < r \<and> r < pi"
  using normalize_angle_double_in_range [of 4] by simp

text \<open>
  The claim as stated fails at \<open>10 ^ 17\<close>, a finite double. The doubles next to it are
  \<open>16\<close> away, \<open>10 ^ 17 - 2 * M_PI\<close> rounds to \<open>10 ^ 17\<close> again, and the first loop runs
  for ever: the normalisation has no result.
\<close>

theorem normalize_angle_double_diverges:
  "fl (10 ^ 17) = 10 ^ 17 \<and> fl (10 ^ 17 - 2 * M_PI) = 10 ^ 17
   \<and> sub_2pi_double (10 ^ 17) = None \<and> normalize_angle_double (10 ^ 17) = None"
proof -
  have "sub_2pi_double (10 ^ 17) = None"
  proof (cases "sub_2pi_double (10 ^ 17)")
    case (Some y)
    then have "(10 ^ 17 :: real) \<noteq> 10 ^ 17" by (rule sub_2pi_double_1e17)
    then show ?thesis by simp
  qed simp
  then show ?thesis using fl_1e17 fl_1e17_sub by (simp add: normalize_angle_double_def)
qed

section \<open>The first measurement\<close>

text \<open>
  Claim C8. While the filter is not initialised (as the constructor leaves it, with both
  sensors enabled and a mean of size 5), a laser measurement \<open>(x, y)\<close> sets the mean to
  \<open>(x, y, 0.2, 0, 0)\<close> and the covariance to \<open>diag (0.01, 0.01, 1, 1, 1)\<close>, a radar
  measurement \<open>(r, phi, rd)\<close> sets the mean to \<open>(r cos phi, r sin phi, rd, phi, 0)\<close> and the
  covariance to \<open>diag (0.01, 0.01, 0.01, 0.09, 0.09)\<close>; the timestamp is stored, the filter
  is marked initialised and nothing else of the state is touched by a prediction or a
  correction (the predicted sigma points are as before). Once the filter is initialised
  this branch is never taken again: the call is the prediction and update path.
\<close>

theorem first_measurement_initializes:
  "(\<not> is_initialized_m s \<and> length (x_m s) = 5 \<and> use_laser_m s \<longrightarrow>
      ProcessMeasurement
        \<lparr> timestamp_m = t, sensor_type_m = LASER, raw_measurements_m = [x, y] \<rparr> s
      = Some (s\<lparr> time_us_m := t, use_radar_m := False, x_m := [x, y, 0.2, 0, 0],
                 P_m := diag5 0.01 0.01 1 1 1, is_initialized_m := True \<rparr>))
   \<and> (\<not> is_initialized_m s \<and> length (x_m s) = 5 \<and> use_radar_m s \<longrightarrow>
      ProcessMeasurement
        \<lparr> timestamp_m = t, sensor_type_m = RADAR, raw_measurements_m = [r, phi, rd] \<rparr> s
      = Some (s\<lparr> time_us_m := t, x_m := [r * cos phi, r * sin phi, rd, phi, 0],
                 P_m := diag5 0.01 0.01 0.01 0.09 0.09, is_initialized_m := True \<rparr>))
   \<and> (is_initialized_m s \<longrightarrow> ProcessMeasurement m s = predict_and_update m s)"
  by (auto simp: ProcessMeasurement_def initialize_def init_laser_def init_radar_def vfill0_def
        length_Suc_conv numeral_eq_Suc)

theorem first_measurement_initializes_witness:
  "ProcessMeasurement laser_5_3 example_raw_state
     = Some (example_raw_state\<lparr> time_us_m := 1000, use_radar_m := False,
               x_m := [5, 3, 0.2, 0, 0], P_m := diag5 0.01 0.01 1 1 1,
               is_initialized_m := True \<rparr>)
   \<and> ProcessMeasurement radar_5_0_1 example_raw_state
     = Some (example_raw_state\<lparr> time_us_m := 1000, x_m := [5, 0, 1, 0, 0],
               P_m := diag5 0.01 0.01 0.01 0.09 0.09, is_initialized_m := True \<rparr>)
   \<and> ProcessMeasurement laser_5_3 (example_raw_state\<lparr> is_initialized_m := True \<rparr>)
     = predict_and_update laser_5_3 (example_raw_state\<lparr> is_initialized_m := True \<rparr>)"
  using first_measurement_initializes [of example_raw_state 1000 5 3 5 0 1]
    first_measurement_initializes
      [of "example_raw_state\<lparr> is_initialized_m := True \<rparr>" 0 0 0 0 0 0 laser_5_3]
  by (simp add: example_raw_state_def UKF_new_def laser_5_3_def radar_5_0_1_def)

text \<open>
  Claim C1, on the code: the radar is disabled and the first measurement is a radar
  measurement. The call marks the filter initialised all the same, with the mean filled
  with zeros, the timestamp stored and the covariance still holding what the constructor
  left there.
\<close>

theorem disabled_radar_first_measurement:
  "ProcessMeasurement radar_5_0_1 (example_raw_state\<lparr> use_radar_m := False \<rparr>)
     = Some (example_raw_state\<lparr> use_radar_m := False, time_us_m := 1000,
               x_m := [0, 0, 0, 0, 0], is_initialized_m := True \<rparr>)"
  by (simp add: example_raw_state_def UKF_new_def radar_5_0_1_def ProcessMeasurement_def
      initialize_def init_laser_def init_radar_def vfill0_def)

text \<open>
  Claim C4, on the code: the constructor enables the radar, and the first laser
  measurement switches the flag off.
\<close>

theorem laser_initialization_clears_use_radar:
  "use_radar_m example_raw_state = True
   \<and> map_option use_radar_m (ProcessMeasurement laser_5_3 example_raw_state) = Some False"
  by (simp add: example_raw_state_def UKF_new_def laser_5_3_def ProcessMeasurement_def
      initialize_def init_laser_def init_radar_def vfill0_def)

section \<open>Sigma points and their moments\<close>

text \<open>
  Claim C5. With the weights and the spreading parameter of the constructor
  (\<open>lambda = 3 - 7\<close>, \<open>w 0 = lambda / (lambda + 7)\<close>, every other weight
  \<open>0.5 / (lambda + 7)\<close>), for every augmented mean of size 7 and every 7 by 7 matrix \<open>L\<close>
  with \<open>L * L\<^sup>T = P_aug\<close> (lower triangular or not), the 15 sigma points built from them have
  weights that sum to 1, the weighted sum of the points is the augmented mean, and the
  weighted sum of the outer products of their deviations from the mean is \<open>P_aug\<close>. The two
  sums are the recombination loops of the source, without angle normalisation.
\<close>

theorem sigma_points_recover_moments:
  "length x_aug = 7 \<and> dims 7 7 L \<and> mat_mul L (mat_transpose L) = P_aug \<longrightarrow>
     (let s = UKF_new x0 P0 X0 t0;
          w = weights_m s;
          Xsig = sigma_points (lambda_m s) (n_aug_m s) x_aug L;
          dev = (\<lambda>i. vsub (Xsig ! i) x_aug)
      in lambda_m s = 3 - 7
         \<and> length w = 15
         \<and> w ! 0 = lambda_m s / (lambda_m s + 7)
         \<and> (\<forall>i. 1 \<le> i \<and> i < 15 \<longrightarrow> w ! i = 0.5 / (lambda_m s + 7))
         \<and> sum_list w = 1
         \<and> length Xsig = 15
         \<and> weighted_sum w (\<lambda>i. Xsig ! i) 15 (replicate 7 0) = x_aug
         \<and> weighted_outer w dev dev 15 (zero_mat 7 7) = P_aug)"
proof (intro impI)
  assume a: "length x_aug = 7 \<and> dims 7 7 L \<and> mat_mul L (mat_transpose L) = P_aug"
  then have x: "length x_aug = 7" and L: "dims 7 7 L"
    and P: "mat_mul L (mat_transpose L) = P_aug" by simp_all
  let ?X = "sigma_points (- 4) 7 x_aug L"
  let ?d = "\<lambda>i. vsub (?X ! i) x_aug"
  have w: "weights_m (UKF_new x0 P0 X0 t0) = ctor_weights"
    by (simp add: ctor_weights_eq UKF_new_fields)
  have lenX: "\<And>i. i < 15 \<Longrightarrow> length (?X ! i) = 7"
  proof -
    fix i :: nat assume i: "i < 15"
    have "i = 0 \<or> (i = Suc (i - 1) \<and> i - 1 < 7) \<or> (i = (i - 8) + 8 \<and> i - 8 < 7)"
      using i by arith
    then consider "i = 0" | j where "i = Suc j" "j < 7" | j where "i = j + 8" "j < 7"
      by blast
    then show "length (?X ! i) = 7"
    proof cases
      case 1 then show ?thesis using x by (simp add: sigma_points_0)
    next
      case 2 then show ?thesis using x L by (simp add: sigma_points_plus dims_nth)
    next
      case 3 then show ?thesis using x L sigma_points_minus[of j 7 "-4" x_aug L]
        by (simp add: dims_nth)
    qed
  qed
  have mean: "weighted_sum ctor_weights (\<lambda>i. ?X ! i) 15 (replicate 7 0) = x_aug"
  proof (rule nth_equalityI)
    show "length (weighted_sum ctor_weights (\<lambda>i. ?X ! i) 15 (replicate 7 0)) = length x_aug"
      using x lenX by (simp add: weighted_sum_length[where n = 7])
  next
    fix k assume "k < length (weighted_sum ctor_weights (\<lambda>i. ?X ! i) 15 (replicate 7 0))"
    then have k: "k < 7" using lenX by (simp add: weighted_sum_length[where n = 7])
    have "weighted_sum ctor_weights (\<lambda>i. ?X ! i) 15 (replicate 7 0) ! k
          = replicate 7 0 ! k + (\<Sum>i<15. ctor_weights ! i * ?X ! i ! k)"
      using lenX k by (intro weighted_sum_nth[where n = 7]) simp_all
    then show "weighted_sum ctor_weights (\<lambda>i. ?X ! i) 15 (replicate 7 0) ! k = x_aug ! k"
      using k by (simp add: sigma_mean_coeff[OF x L])
  qed
  have dL: "dims 7 7 (mat_transpose L)" using L by (simp add: dims_mat_transpose)
  have cov: "weighted_outer ctor_weights ?d ?d 15 (zero_mat 7 7) = mat_mul L (mat_transpose L)"
  proof (rule mat_eqI[where r = 7 and c = 7])
    show "dims 7 7 (weighted_outer ctor_weights ?d ?d 15 (zero_mat 7 7))"
      using x lenX by (intro weighted_outer_dims) simp_all
    show "dims 7 7 (mat_mul L (mat_transpose L))"
      by (rule dims_mat_mul[OF L]) (simp_all add: dims_length[OF dL])
  next
    fix j k :: nat assume j: "j < 7" and k: "k < 7"
    have "weighted_outer ctor_weights ?d ?d 15 (zero_mat 7 7) ! j ! k
          = zero_mat 7 7 ! j ! k + (\<Sum>i<15. ctor_weights ! i * (?d i ! j * ?d i ! k))"
      using x lenX j k by (intro weighted_outer_nth) simp_all
    also have "\<dots> = (\<Sum>i<7. L ! i ! j * L ! i ! k)"
      using j k by (simp add: sigma_cov_coeff[OF x L k j] zero_mat_def)
    also have "\<dots> = mat_mul L (mat_transpose L) ! j ! k"
      using L dL j k by (simp add: nth_mat_mul dims_length nth_mat_transpose)
    finally show "weighted_outer ctor_weights ?d ?d 15 (zero_mat 7 7) ! j ! k
                  = mat_mul L (mat_transpose L) ! j ! k" .
  qed
  have wi: "\<forall>i. 1 \<le> i \<and> i < 15 \<longrightarrow> ctor_weights ! i = 1 / 6"
    by (auto simp: ctor_weights_eq nth_Cons')
  show "let s = UKF_new x0 P0 X0 t0;
          w = weights_m s;
          Xsig = sigma_points (lambda_m s) (n_aug_m s) x_aug L;
          dev = (\<lambda>i. vsub (Xsig ! i) x_aug)
      in lambda_m s = 3 - 7
         \<and> length w = 15
         \<and> w ! 0 = lambda_m s / (lambda_m s + 7)
         \<and> (\<forall>i. 1 \<le> i \<and> i < 15 \<longrightarrow> w ! i = 0.5 / (lambda_m s + 7))
         \<and> sum_list w = 1
         \<and> length Xsig = 15
         \<and> weighted_sum w (\<lambda>i. Xsig ! i) 15 (replicate 7 0) = x_aug
         \<and> weighted_outer w dev dev 15 (zero_mat 7 7) = P_aug"
    unfolding Let_def w
    using mean cov P wi
    by (simp add: UKF_new_fields sum_list_ctor_weights sigma_points_length ctor_weights_nth)
qed

theorem sigma_points_recover_moments_witness:
  "(let s = UKF_new [] [] [] 0;
        w = weights_m s;
        Xsig = sigma_points (lambda_m s) (n_aug_m s) (augmented_mean laser_initialized)
                 (llt_matrixL (augmented_covariance laser_initialized));
        dev = (\<lambda>i. vsub (Xsig ! i) (augmented_mean laser_initialized))
    in lambda_m s = 3 - 7
       \<and> length w = 15
       \<and> w ! 0 = lambda_m s / (lambda_m s + 7)
       \<and> (\<forall>i. 1 \<le> i \<and> i < 15 \<longrightarrow> w ! i = 0.5 / (lambda_m s + 7))
       \<and> sum_list w = 1
       \<and> length Xsig = 15
       \<and> weighted_sum w (\<lambda>i. Xsig ! i) 15 (replicate 7 0) = augmented_mean laser_initialized
       \<and> weighted_outer w dev dev 15 (zero_mat 7 7) = augmented_covariance laser_initialized)"
proof -
  have x: "length (augmented_mean laser_initialized) = 7"
    by (simp add: augmented_mean_def laser_initialized_def)
  have d: "dims 7 7 (llt_matrixL (augmented_covariance laser_initialized))"
    unfolding llt_aug_laser_initialized by (simp add: dims_def)
  have P: "mat_mul (llt_matrixL (augmented_covariance laser_initialized))
             (mat_transpose (llt_matrixL (augmented_covariance laser_initialized)))
           = augmented_covariance laser_initialized"
    unfolding llt_aug_laser_initialized
    by (simp add: aug_cov_laser_initialized mat_mul_def mat_vec_def
        mat_transpose_def mat_rows_def upt_7 vadd_def smult_def)
  show ?thesis
    using sigma_points_recover_moments
      [of "augmented_mean laser_initialized"
          "llt_matrixL (augmented_covariance laser_initialized)"
          "augmented_covariance laser_initialized" "[]" "[]" "[]" 0] x d P
    by blast
qed

section \<open>Prediction over no time\<close>

text \<open>
  Claim C6, as the code has it. In exact arithmetic, for every filter state with the
  constructor's dimensions and weights, whatever its mean and covariance, \<open>Prediction\<close>
  with \<open>delta_t = 0\<close> leaves the mean as it was (the factor of the covariance may be
  anything). This is a statement over the reals: on doubles the mean comes back only up
  to the rounding of the sigma points and of the weighted sum.
\<close>

theorem prediction_zero_time_keeps_mean:
  "constructed s \<Longrightarrow> x_m (Prediction 0 s) = x_m s"
proof -
  assume c: "constructed s"
  let ?L = "llt_matrixL (augmented_covariance s)"
  let ?X = "sigma_points (- 4) 7 (augmented_mean s) ?L"
  have x5: "length (x_m s) = 5" using c by (simp add: constructed_def)
  have xa: "length (augmented_mean s) = 7" using c by (rule constructed_augmented_mean)
  have L: "dims 7 7 ?L"
    using llt_matrixL_dims[of "augmented_covariance s"] constructed_augmented_covariance[OF c]
    by simp
  have eq: "x_m (Prediction 0 s)
            = weighted_sum ctor_weights (\<lambda>i. predicted_sigma 0 s ! i) 15 (vfill0 (x_m s))"
    using c by (rule Prediction_constructed)
  have len: "length (weighted_sum ctor_weights (\<lambda>i. predicted_sigma 0 s ! i) 15 (vfill0 (x_m s))) = 5"
    using x5 by (intro weighted_sum_length) (simp_all add: vfill0_def predicted_sigma_nth)
  show ?thesis unfolding eq
  proof (rule nth_equalityI)
    show "length (weighted_sum ctor_weights (\<lambda>i. predicted_sigma 0 s ! i) 15 (vfill0 (x_m s)))
          = length (x_m s)" using len x5 by simp
  next
    fix k assume "k < length (weighted_sum ctor_weights (\<lambda>i. predicted_sigma 0 s ! i) 15 (vfill0 (x_m s)))"
    then have k: "k < 5" using len by simp
    have "weighted_sum ctor_weights (\<lambda>i. predicted_sigma 0 s ! i) 15 (vfill0 (x_m s)) ! k
          = vfill0 (x_m s) ! k + (\<Sum>i<15. ctor_weights ! i * predicted_sigma 0 s ! i ! k)"
      using x5 k by (intro weighted_sum_nth[where n = 5]) (simp_all add: vfill0_def predicted_sigma_nth)
    also have "\<dots> = (\<Sum>i<15. ctor_weights ! i * ?X ! i ! k)"
      using x5 k by (simp add: vfill0_def predicted_sigma_nth motion_model_zero_nth)
    also have "\<dots> = augmented_mean s ! k"
      using k by (intro sigma_mean_coeff[OF xa L]) simp
    also have "\<dots> = x_m s ! k" using x5 k by (simp add: augmented_mean_nth)
    finally show "weighted_sum ctor_weights (\<lambda>i. predicted_sigma 0 s ! i) 15 (vfill0 (x_m s)) ! k
                  = x_m s ! k" .
  qed
qed

theorem prediction_zero_time_keeps_mean_witness:
  "x_m (Prediction 0 laser_initialized) = [5, 3, 0.2, 0, 0]"
  using prediction_zero_time_keeps_mean [of laser_initialized] constructed_laser_initialized
  by (simp add: laser_initialized_def)

text \<open>
  The claim as stated fails on doubles at the laser-initialised filter, whose mean is
  \<open>(5, 3, 0.2, 0, 0)\<close> with \<open>0.2\<close> the nearest double. With \<open>delta_t = 0\<close> the motion model
  hands the sigma points on unchanged, but the weights \<open>- 4/3\<close> and \<open>1/6\<close> are rounded
  and so is every step of the sum: the x position comes back as \<open>5 - 2 ^ -49\<close> (printed
  \<open>4.999999999999998\<close>) and the speed two spacings below \<open>0.2\<close>, whatever the library's
  \<open>sin\<close> and \<open>cos\<close> return.
\<close>

theorem prediction_zero_time_rounds_mean:
  "is_initialized_m laser_initialized_double
   \<and> x_m laser_initialized_double = [5, 3, fl 0.2, 0, 0]
   \<and> (\<forall>sn cs. Prediction_mean_double sn cs 0 laser_initialized_double
                = [5 - 1 / 2 ^ 49, 3, fl 0.2 - 1 / 2 ^ 53, 0, 0])
   \<and> (\<forall>sn cs. Prediction_mean_double sn cs 0 laser_initialized_double
                \<noteq> x_m laser_initialized_double)"
proof -
  have i: "is_initialized_m laser_initialized_double"
    by (simp add: laser_initialized_double_def double_state_def laser_initialized_def)
  have f: "fl 0.2 = 3602879701896397 / 18014398509481984"
    by (simp add: fl_values)
  have x: "x_m laser_initialized_double = [5, 3, fl 0.2, 0, 0]"
    unfolding f by (rule laser_initialized_double_fields(1))
  have m: "Prediction_mean_double sn cs 0 laser_initialized_double
           = [5 - 1 / 2 ^ 49, 3, fl 0.2 - 1 / 2 ^ 53, 0, 0]" for sn cs
    unfolding Prediction_mean_double_laser_initialized f by simp
  have "Prediction_mean_double sn cs 0 laser_initialized_double \<noteq> x_m laser_initialized_double"
    for sn cs unfolding m x by simp
  then show ?thesis using i x m by blast
qed

section \<open>Measurements of a disabled sensor\<close>

text \<open>
  Claim C2, on the code: the laser is disabled and the filter has been initialised by the
  radar measurement \<open>(1, 0, 0)\<close>. A laser measurement \<open>(2, 0)\<close> one second later goes
  through the prediction and the laser correction like any other: the mean moves from
  \<open>(1, 0, 0, 0, 0)\<close> to \<open>(25/13, 0, 68/39, 0, 0)\<close> and the covariance changes with it.
\<close>

theorem disabled_laser_measurement_is_processed:
  "is_initialized_m radar_initialized_laser_off
   \<and> use_laser_m radar_initialized_laser_off = False
   \<and> x_m radar_initialized_laser_off = [1, 0, 0, 0, 0]
   \<and> P_m radar_initialized_laser_off = diag5 0.01 0.01 0.01 0.09 0.09
   \<and> map_option x_m (ProcessMeasurement laser_2_0_later radar_initialized_laser_off)
       = Some [25 / 13, 0, 68 / 39, 0, 0]
   \<and> map_option P_m (ProcessMeasurement laser_2_0_later radar_initialized_laser_off)
       = Some [[27 / 1300, 0, 51 / 1300, 0, 0], [0, 9 / 1300, 0, 0, 0],
               [51 / 1300, 0, 157 / 1300, 0, 0], [0, 0, 0, 43 / 100, 59 / 100],
               [0, 0, 0, 59 / 100, 109 / 100]]"
proof -
  have i: "is_initialized_m radar_initialized_laser_off"
    by (simp add: radar_initialized_laser_off_def)
  have "ProcessMeasurement laser_2_0_later radar_initialized_laser_off
        = predict_and_update laser_2_0_later radar_initialized_laser_off"
    using i by (simp add: ProcessMeasurement_def)
  then show ?thesis
    unfolding laser_2_0_later_def predict_and_update_radar_initialized
    by (simp add: radar_initialized_laser_off_def normalize_angle_small)
qed

section \<open>The laser correction\<close>

text \<open>
  Claim C3, on the code: the measurement-space sigma points of the laser correction are
  the first two coefficients of the predicted sigma points, but the residual of the
  measurement has its second coefficient normalised as an angle. With the predicted
  measurement \<open>(1, 0)\<close> and the laser measurement \<open>(1, 4)\<close> the raw residual is
  \<open>(0, 4)\<close>, the residual the update uses is \<open>(0, 4 - 2\<pi>)\<close>, and the mean moves by the
  gain \<open>4/13\<close> times that.
\<close>

theorem lidar_innovation_is_wrapped:
  "lidar_Zsig radar_initialized_predicted
     = map (\<lambda>c. [c ! 0, c ! 1]) (Xsig_pred_m radar_initialized_predicted)
   \<and> vsub (raw_measurements_m laser_1_4_later) [1, 0] = [0, 4]
   \<and> innovation (raw_measurements_m laser_1_4_later) [1, 0] = [0, 4 - 2 * pi]
   \<and> map_option x_m (UpdateLidar laser_1_4_later radar_initialized_predicted)
       = Some [1, (4 - 2 * pi) * 4 / 13, 0, 0, 0]"
  unfolding laser_1_4_later_def UpdateLidar_radar_predicted lidar_Zsig_radar_predicted
  by (simp add: radar_predicted_fields innovation_def vsub_def normalize_at_def normalize_angle_4)

section \<open>The covariance after an update\<close>

text \<open>
  Claim C7, as the code has it. Over the reals the covariance is symmetric after every
  update: after \<open>Prediction\<close> on any constructed filter, and after either correction
  whenever the correction has a result (the innovation covariance is invertible and no
  range is zero) and the covariance was symmetric before; hence after every measurement
  that an initialised filter processes. Positive semi-definiteness is not kept: nothing
  in the code restores it, and the centre weight is negative.
\<close>

theorem covariance_stays_symmetric:
  "(constructed s \<longrightarrow> is_symmetric (P_m (Prediction delta_t s)))
   \<and> (constructed s \<and> is_symmetric (P_m s) \<and> UpdateLidar m s = Some s'
        \<longrightarrow> is_symmetric (P_m s'))
   \<and> (constructed s \<and> is_symmetric (P_m s) \<and> UpdateRadar m s = Some s'
        \<longrightarrow> is_symmetric (P_m s'))
   \<and> (constructed s \<and> is_initialized_m s \<and> ProcessMeasurement m s = Some s'
        \<longrightarrow> is_symmetric (P_m s'))"
proof (intro conjI impI)
  assume "constructed s"
  then show "is_symmetric (P_m (Prediction delta_t s))" by (rule Prediction_symmetric)
next
  assume "constructed s \<and> is_symmetric (P_m s) \<and> UpdateLidar m s = Some s'"
  then show "is_symmetric (P_m s')" using UpdateLidar_symmetric by blast
next
  assume "constructed s \<and> is_symmetric (P_m s) \<and> UpdateRadar m s = Some s'"
  then show "is_symmetric (P_m s')" using UpdateRadar_symmetric by blast
next
  assume a: "constructed s \<and> is_initialized_m s \<and> ProcessMeasurement m s = Some s'"
  then have "predict_and_update m s = Some s'" by (auto simp: ProcessMeasurement_def)
  then show "is_symmetric (P_m s')" using a predict_and_update_symmetric by blast
qed

theorem covariance_stays_symmetric_witness:
  "is_symmetric (P_m (Prediction 1 radar_initialized_laser_off))
   \<and> (\<exists>s'. UpdateLidar laser_2_0_later radar_initialized_predicted = Some s'
             \<and> is_symmetric (P_m s'))
   \<and> (\<exists>s'. UpdateRadar radar_later outlier_sigma_state = Some s'
             \<and> is_symmetric (P_m s'))
   \<and> (\<exists>s'. ProcessMeasurement laser_2_0_later radar_initialized_laser_off = Some s'
             \<and> is_symmetric (P_m s'))"
proof -
  obtain s1 where s1: "UpdateLidar laser_2_0_later radar_initialized_predicted = Some s1"
    unfolding laser_2_0_later_def UpdateLidar_radar_predicted by blast
  obtain s2 where s2: "UpdateRadar radar_later outlier_sigma_state = Some s2"
    unfolding UpdateRadar_outlier by blast
  have i: "is_initialized_m radar_initialized_laser_off"
    by (simp add: radar_initialized_laser_off_def)
  have "ProcessMeasurement laser_2_0_later radar_initialized_laser_off
        = predict_and_update laser_2_0_later radar_initialized_laser_off"
    using i by (simp add: ProcessMeasurement_def)
  then obtain s3 where s3: "ProcessMeasurement laser_2_0_later radar_initialized_laser_off = Some s3"
    unfolding laser_2_0_later_def predict_and_update_radar_initialized by blast
  have "is_symmetric (P_m (Prediction 1 radar_initialized_laser_off))"
    using covariance_stays_symmetric [of radar_initialized_laser_off 1]
      constructed_radar_initialized by blast
  moreover have "is_symmetric (P_m s1)"
    using covariance_stays_symmetric [of radar_initialized_predicted _ laser_2_0_later s1]
      constructed_radar_predicted symmetric_worked_inputs(1) s1 by blast
  moreover have "is_symmetric (P_m s2)"
    using covariance_stays_symmetric [of outlier_sigma_state _ radar_later s2]
      constructed_outlier symmetric_worked_inputs(2) s2 by blast
  moreover have "is_symmetric (P_m s3)"
    using covariance_stays_symmetric [of radar_initialized_laser_off _ laser_2_0_later s3]
      constructed_radar_initialized i s3 by blast
  ultimately show ?thesis using s1 s2 s3 by blast
qed

text \<open>
  The claim as stated fails at the filter with a broad heading. Its covariance is
  symmetric and positive semi-definite, all seven pivots of the factorisation are
  positive, and after \<open>Prediction\<close> over one second the variance of the x position is
  \<open>- 11/4\<close>: eight of the fifteen sigma points have turned a quarter turn away and stay
  behind, the weighted mean of the x positions is \<open>- 1\<close>, and the centre point, three
  units ahead, enters the covariance with the weight \<open>- 4/3\<close>.
\<close>

theorem prediction_loses_positive_semidefiniteness:
  "constructed broad_heading_state
   \<and> is_symmetric (P_m broad_heading_state)
   \<and> pos_semidef (P_m broad_heading_state)
   \<and> P_m (Prediction 1 broad_heading_state) ! 0 ! 0 = - 11 / 4
   \<and> \<not> pos_semidef (P_m (Prediction 1 broad_heading_state))"
proof -
  have d: "dims 5 5 (P_m (Prediction 1 broad_heading_state))"
    using constructed_broad_heading by (rule Prediction_cov_dims)
  have "dot [1, 0, 0, 0, 0] (mat_vec (P_m (Prediction 1 broad_heading_state)) [1, 0, 0, 0, 0]) < 0"
    unfolding quadratic_form_first_axis[OF d] predicted_variance_broad_heading by simp
  moreover have "length [1, 0, 0, 0, 0 :: real] = length (P_m (Prediction 1 broad_heading_state))"
    using d by (simp add: dims_length)
  ultimately have "\<not> pos_semidef (P_m (Prediction 1 broad_heading_state))"
    unfolding pos_semidef_def by (metis not_le)
  then show ?thesis
    using constructed_broad_heading broad_heading_symmetric broad_heading_pos_semidef
      predicted_variance_broad_heading by simp
qed

section \<open>Divisors near zero\<close>

text \<open>
  Claim C9, as the code has it. The motion model guards its division: for a sigma point
  whose turn rate is at most 0.001 in absolute value the new state is given by the linear
  formulas, in which nothing is divided by the turn rate, and where the turn rate is
  divided by it is not zero. The radar measurement model has no guard: whenever the range
  is not zero the range rate is the quotient by the range, however small the range is,
  and at range zero the quotient has no value.
\<close>

theorem near_zero_divisors:
  "(\<bar>c ! 4\<bar> \<le> 0.001 \<longrightarrow>
      motion_model delta_t c =
        [c ! 0 + c ! 2 * delta_t * cos (c ! 3) + 0.5 * c ! 5 * delta_t * delta_t * cos (c ! 3),
         c ! 1 + c ! 2 * delta_t * sin (c ! 3) + 0.5 * c ! 5 * delta_t * delta_t * sin (c ! 3),
         c ! 2 + c ! 5 * delta_t,
         c ! 3 + c ! 4 * delta_t + 0.5 * c ! 6 * delta_t * delta_t,
         c ! 4 + c ! 6 * delta_t])
   \<and> (\<bar>c ! 4\<bar> > 0.001 \<longrightarrow> c ! 4 \<noteq> 0 \<and>
      motion_model delta_t c ! 0 =
        c ! 0 + c ! 2 / c ! 4 * (sin (c ! 3 + c ! 4 * delta_t) - sin (c ! 3))
        + 0.5 * c ! 5 * delta_t * delta_t * cos (c ! 3))
   \<and> (sqrt (p ! 0 * p ! 0 + p ! 1 * p ! 1) \<noteq> 0 \<longrightarrow>
      radar_model p =
        Some [sqrt (p ! 0 * p ! 0 + p ! 1 * p ! 1),
              atan2 (p ! 1) (p ! 0),
              (p ! 0 * (cos (p ! 3) * p ! 2) + p ! 1 * (sin (p ! 3) * p ! 2))
                / sqrt (p ! 0 * p ! 0 + p ! 1 * p ! 1)])
   \<and> (sqrt (p ! 0 * p ! 0 + p ! 1 * p ! 1) = 0 \<longrightarrow> radar_model p = None)"
  by (auto simp: motion_model_def radar_model_def Let_def)

theorem near_zero_divisors_witness:
  "motion_model 1 [5, 3, 0.2, 0, 0, 0, 0] = [5.2, 3, 0.2, 0, 0]
   \<and> motion_model 1 [0, 0, 2, 0, 1, 0, 0] ! 0 = 2 * sin 1
   \<and> radar_model [3, 4, 1, 0, 0] = Some [5, atan2 4 3, 3 / 5]
   \<and> radar_model [0, 0, 2, 1, 0] = None"
  using near_zero_divisors [of "[5, 3, 0.2, 0, 0, 0, 0]" 1 "[3, 4, 1, 0, 0]"]
    near_zero_divisors [of "[0, 0, 2, 0, 1, 0, 0]" 1 "[0, 0, 2, 1, 0]"]
    real_sqrt_unique [of 5 25]
  by simp

text \<open>
  The claim as stated fails at a predicted sigma point at the origin with speed 1: its
  range is zero, the range rate is computed as the quotient by that range, and the
  measurement model has no value there.
\<close>

theorem radar_range_rate_divides_by_range:
  "sqrt (0 * 0 + 0 * 0) = (0::real) \<and> radar_model [0, 0, 1, 0, 0] = None"
  by (simp add: radar_model_def)

end
